theory Spec2Isabelle
  imports
    Complex_Main
    "HOL-Library.Char_ord"
    "HOL-Library.List_Lexorder"
    "HOL-Library.AList"
begin

section \<open>Python values shared by the scripts\<close>

text \<open>
  A Python dictionary is an association list from keys to values, in insertion order.
  \<open>PNone\<close> is \<open>None\<close> and, in a database column, SQL's \<open>NULL\<close>. A column that holds the
  text \<open>json.dumps(v)\<close> holds the value \<open>v\<close> itself here (\<open>PList\<close>, \<open>PDict\<close>): the
  serialisation is not part of the model. Floats are real numbers.
\<close>

datatype pyval =
    PNone
  | PBool bool
  | PStr string
  | PInt int
  | PFloat real
  | PList "pyval list"
  | PDict "(string \<times> pyval) list"

type_synonym pydict = "(string \<times> pyval) list"

text \<open>
  Exceptions of the Python runtime are values. A function that can raise returns
  \<open>py_error + 'a\<close>, with \<open>Inl\<close> for the exception. \<open>SystemExit\<close> is
  \<open>sys.exit(1)\<close> and carries the error dictionary printed just before it.
  Strings are byte strings: \<open>lower\<close>, \<open>strip\<close> and the regular expressions
  below are the ASCII part of Python's Unicode-aware operations.
\<close>

datatype py_error =
    ValueError
  | OverflowError
  | UnboundLocalError string
  | IntegrityError
  | PermissionError
  | FileNotFoundError
  | SameFileError
  | DatabaseError
  | TypeError
  | SystemExit pydict

definition is_NameError :: "py_error \<Rightarrow> bool" where
  \<comment> \<open>\<open>UnboundLocalError\<close> is a subclass of \<open>NameError\<close>\<close>
  "is_NameError e = (case e of UnboundLocalError _ \<Rightarrow> True | _ \<Rightarrow> False)"

definition lower_char :: "char \<Rightarrow> char" where
  "lower_char c =
     (case map_of (zip ''ABCDEFGHIJKLMNOPQRSTUVWXYZ'' ''abcdefghijklmnopqrstuvwxyz'') c of
        Some d \<Rightarrow> d | None \<Rightarrow> c)"

definition lower :: "string \<Rightarrow> string" where
  "lower s = map lower_char s"

definition isspace :: "char \<Rightarrow> bool" where
  \<comment> \<open>\<open>str.isspace\<close> on ASCII: tab, LF, VT, FF, CR, FS, GS, RS, US and space\<close>
  "isspace c = (c \<in> set [CHR 0x09, CHR 0x0A, CHR 0x0B, CHR 0x0C, CHR 0x0D,
                          CHR 0x1C, CHR 0x1D, CHR 0x1E, CHR 0x1F, CHR 0x20])"

definition strip :: "string \<Rightarrow> string" where
  "strip s = rev (dropWhile isspace (rev (dropWhile isspace s)))"

definition startswith :: "string \<Rightarrow> string \<Rightarrow> bool" where
  \<comment> \<open>\<open>startswith p s\<close> is Python's \<open>s.startswith(p)\<close>\<close>
  "startswith p s = (take (length p) s = p)"

definition endswith :: "string \<Rightarrow> string \<Rightarrow> bool" where
  "endswith p s = (length p \<le> length s \<and> drop (length s - length p) s = p)"

fun remove_all :: "string \<Rightarrow> string \<Rightarrow> string" where
  \<comment> \<open>\<open>remove_all old s\<close> is \<open>s.replace(old, '')\<close> for a non-empty \<open>old\<close>\<close>
  "remove_all old [] = []"
| "remove_all old (c # cs) =
     (if old \<noteq> [] \<and> startswith old (c # cs)
      then remove_all old (drop (length old) (c # cs))
      else c # remove_all old cs)"

definition digit_of :: "char \<Rightarrow> nat option" where
  "digit_of c = map_of (zip ''0123456789'' [0, 1, 2, 3, 4, 5, 6, 7, 8, 9]) c"

definition isdigit :: "char \<Rightarrow> bool" where
  "isdigit c = (digit_of c \<noteq> None)"

definition int_of_digits :: "string \<Rightarrow> int" where
  \<comment> \<open>\<open>int(text)\<close> for a text of decimal digits with optional surrounding blanks\<close>
  "int_of_digits s =
     foldl (\<lambda>a c. case digit_of c of Some d \<Rightarrow> 10 * a + int d | None \<Rightarrow> a) 0 s"

definition digit_char :: "nat \<Rightarrow> char" where
  "digit_char n = ''0123456789'' ! (n mod 10)"

definition zfill :: "nat \<Rightarrow> int \<Rightarrow> string" where
  \<comment> \<open>\<open>'%0wd' % n\<close> for \<open>0 \<le> n < 10 ^ w\<close>\<close>
  "zfill w n = map (\<lambda>i. digit_char (nat n div 10 ^ i)) (rev [0..<w])"

fun index_of :: "'a \<Rightarrow> 'a list \<Rightarrow> nat option" where
  \<comment> \<open>\<open>xs.index(x)\<close>; \<open>None\<close> where Python raises \<open>ValueError\<close>\<close>
  "index_of x [] = None"
| "index_of x (y # ys) =
     (if x = y then Some 0 else map_option Suc (index_of x ys))"

definition truthy :: "string option \<Rightarrow> bool" where
  \<comment> \<open>\<open>if v:\<close> for an optional string: neither \<open>None\<close> nor empty\<close>
  "truthy v = (case v of None \<Rightarrow> False | Some s \<Rightarrow> s \<noteq> [])"

section \<open>\<open>datetime\<close>\<close>

text \<open>
  The proleptic Gregorian calendar of Python's \<open>datetime\<close> module, years 1 to 9999,
  with the module's own ordinal arithmetic.
\<close>

record datetime =
  year :: int
  month :: int
  day :: int
  hour :: int
  minute :: int
  second :: int
  microsecond :: int

definition is_leap :: "int \<Rightarrow> bool" where
  "is_leap y = (y mod 4 = 0 \<and> (y mod 100 \<noteq> 0 \<or> y mod 400 = 0))"

definition DAYS_IN_MONTH :: "int list" where
  "DAYS_IN_MONTH = [- 1, 31, 28, 31, 30, 31, 30, 31, 31, 30, 31, 30, 31]"

definition DAYS_BEFORE_MONTH :: "int list" where
  "DAYS_BEFORE_MONTH = [- 1, 0, 31, 59, 90, 120, 151, 181, 212, 243, 273, 304, 334]"

definition days_in_month :: "int \<Rightarrow> int \<Rightarrow> int" where
  "days_in_month y m = (if m = 2 \<and> is_leap y then 29 else DAYS_IN_MONTH ! nat m)"

definition days_before_year :: "int \<Rightarrow> int" where
  "days_before_year y = (let p = y - 1 in p * 365 + p div 4 - p div 100 + p div 400)"

definition days_before_month :: "int \<Rightarrow> int \<Rightarrow> int" where
  "days_before_month y m = DAYS_BEFORE_MONTH ! nat m + (if m > 2 \<and> is_leap y then 1 else 0)"

definition ymd2ord :: "int \<Rightarrow> int \<Rightarrow> int \<Rightarrow> int" where
  "ymd2ord y m d = days_before_year y + days_before_month y m + d"

definition MAXORDINAL :: int where
  "MAXORDINAL = 3652059"

definition ord2ymd :: "int \<Rightarrow> int \<times> int \<times> int" where
  "ord2ymd n0 =
     (let n = n0 - 1;
          n400 = n div 146097; n = n mod 146097;
          y = n400 * 400 + 1;
          n100 = n div 36524; n = n mod 36524;
          n4 = n div 1461; n = n mod 1461;
          n1 = n div 365; n = n mod 365;
          y = y + n100 * 100 + n4 * 4 + n1
      in if n1 = 4 \<or> n100 = 4 then (y - 1, 12, 31)
         else
           let leapyear = (n1 = 3 \<and> (n4 \<noteq> 24 \<or> n100 = 3));
               m = (n + 50) div 32;
               preceding = DAYS_BEFORE_MONTH ! nat m + (if m > 2 \<and> leapyear then 1 else 0)
           in if preceding > n
              then let m' = m - 1;
                       preceding' = preceding
                         - (DAYS_IN_MONTH ! nat m' + (if m' = 2 \<and> leapyear then 1 else 0))
                   in (y, m', n - preceding' + 1)
              else (y, m, n - preceding + 1))"

definition valid_date :: "int \<Rightarrow> int \<Rightarrow> int \<Rightarrow> bool" where
  "valid_date y m d = (1 \<le> y \<and> y \<le> 9999 \<and> 1 \<le> m \<and> m \<le> 12 \<and> 1 \<le> d \<and> d \<le> days_in_month y m)"

definition make_datetime ::
  "int \<Rightarrow> int \<Rightarrow> int \<Rightarrow> int \<Rightarrow> int \<Rightarrow> int \<Rightarrow> py_error + datetime" where
  \<comment> \<open>the constructor \<open>datetime(y, m, d, H, M, S)\<close>\<close>
  "make_datetime y m d H M S =
     (if valid_date y m d \<and> 0 \<le> H \<and> H < 24 \<and> 0 \<le> M \<and> M < 60 \<and> 0 \<le> S \<and> S < 60
      then Inr \<lparr>year = y, month = m, day = d, hour = H, minute = M, second = S, microsecond = 0\<rparr>
      else Inl ValueError)"

definition toordinal :: "datetime \<Rightarrow> int" where
  "toordinal dt = ymd2ord (year dt) (month dt) (day dt)"

definition weekday :: "datetime \<Rightarrow> int" where
  "weekday dt = (toordinal dt + 6) mod 7"

definition add_days :: "datetime \<Rightarrow> int \<Rightarrow> py_error + datetime" where
  \<comment> \<open>\<open>dt + timedelta(days=n)\<close>: both the timedelta and the sum are range-checked\<close>
  "add_days dt n =
     (if \<bar>n\<bar> > 999999999 then Inl OverflowError
      else let ord = toordinal dt + n
           in if 0 < ord \<and> ord \<le> MAXORDINAL
              then (case ord2ymd ord of (y, m, d) \<Rightarrow> Inr (dt\<lparr>year := y, month := m, day := d\<rparr>))
              else Inl OverflowError)"

definition replace_year :: "datetime \<Rightarrow> int \<Rightarrow> py_error + datetime" where
  \<comment> \<open>\<open>dt.replace(year=y)\<close>\<close>
  "replace_year dt y =
     (if valid_date y (month dt) (day dt) then Inr (dt\<lparr>year := y\<rparr>) else Inl ValueError)"

definition dt_key :: "datetime \<Rightarrow> int list" where
  "dt_key dt = [year dt, month dt, day dt, hour dt, minute dt, second dt, microsecond dt]"

definition dt_less :: "datetime \<Rightarrow> datetime \<Rightarrow> bool" where
  \<comment> \<open>\<open>a < b\<close> on naive datetimes\<close>
  "dt_less a b = (dt_key a < dt_key b)"

definition isoformat :: "datetime \<Rightarrow> string" where
  "isoformat dt =
     zfill 4 (year dt) @ ''-'' @ zfill 2 (month dt) @ ''-'' @ zfill 2 (day dt) @ ''T''
     @ zfill 2 (hour dt) @ '':'' @ zfill 2 (minute dt) @ '':'' @ zfill 2 (second dt)
     @ (if microsecond dt \<noteq> 0 then ''.'' @ zfill 6 (microsecond dt) else [])"

definition strftime_stamp :: "datetime \<Rightarrow> string" where
  \<comment> \<open>\<open>dt.strftime('%Y%m%d_%H%M%S')\<close>, years printed with four digits\<close>
  "strftime_stamp dt =
     zfill 4 (year dt) @ zfill 2 (month dt) @ zfill 2 (day dt) @ ''_''
     @ zfill 2 (hour dt) @ zfill 2 (minute dt) @ zfill 2 (second dt)"

subsection \<open>\<open>datetime.strptime\<close>\<close>

text \<open>
  \<open>strptime\<close> turns the format into a regular expression, one group per directive,
  matches it at the start of the text ignoring case, and rejects a match that leaves
  text over. The matcher below lists the successes of that expression in the order a
  backtracking engine tries them, so its head is the match Python finds.
\<close>

datatype fmt_item = Directive char | Literal char | Whitespace

fun compile_format :: "string \<Rightarrow> fmt_item list" where
  "compile_format [] = []"
| "compile_format [c] = [if isspace c then Whitespace else Literal c]"
| "compile_format (c # d # cs) =
     (if c = CHR ''%'' then Directive d # compile_format cs
      else (if isspace c then Whitespace else Literal c) # compile_format (d # cs))"

definition MONTH_NAMES :: "string list" where
  "MONTH_NAMES = [''january'', ''february'', ''march'', ''april'', ''may'', ''june'', ''july'',
                  ''august'', ''september'', ''october'', ''november'', ''december'']"

definition MONTH_ABBRS :: "string list" where
  "MONTH_ABBRS = [''jan'', ''feb'', ''mar'', ''apr'', ''may'', ''jun'', ''jul'',
                  ''aug'', ''sep'', ''oct'', ''nov'', ''dec'']"

definition word_alt :: "string \<Rightarrow> string list" where
  "word_alt w = map (\<lambda>c. [c]) w"

definition directive_alts :: "char \<Rightarrow> string list list" where
  \<comment> \<open>each alternative is a sequence of character classes; names are tried longest first\<close>
  "directive_alts d =
     (if d = CHR ''Y'' then [[''0123456789'', ''0123456789'', ''0123456789'', ''0123456789'']]
      else if d = CHR ''m'' then [[''1'', ''012''], [''0'', ''123456789''], [''123456789'']]
      else if d = CHR ''d'' then [[''3'', ''01''], [''12'', ''0123456789''], [''0'', ''123456789''],
                                 [''123456789''], ['' '', ''123456789'']]
      else if d = CHR ''H'' then [[''2'', ''0123''], [''01'', ''0123456789''], [''0123456789'']]
      else if d = CHR ''M'' then [[''012345'', ''0123456789''], [''0123456789'']]
      else if d = CHR ''S'' then [[''6'', ''01''], [''012345'', ''0123456789''], [''0123456789'']]
      else if d = CHR ''B'' then map word_alt
             [''september'', ''february'', ''november'', ''december'', ''january'', ''october'',
              ''august'', ''march'', ''april'', ''june'', ''july'', ''may'']
      else if d = CHR ''b'' then map word_alt MONTH_ABBRS
      else [])"

fun match_seq :: "string list \<Rightarrow> string \<Rightarrow> (string \<times> string) option" where
  "match_seq [] s = Some ([], s)"
| "match_seq (k # ks) [] = None"
| "match_seq (k # ks) (c # cs) =
     (if lower_char c \<in> set k
      then (case match_seq ks cs of Some (m, r) \<Rightarrow> Some (c # m, r) | None \<Rightarrow> None)
      else None)"

definition alternatives :: "string list list \<Rightarrow> string \<Rightarrow> (string \<times> string) list" where
  "alternatives alts s = List.map_filter (\<lambda>a. match_seq a s) alts"

fun regex_match :: "fmt_item list \<Rightarrow> string \<Rightarrow> ((char \<times> string) list \<times> string) list" where
  "regex_match [] s = [([], s)]"
| "regex_match (Literal c # items) s =
     (case s of [] \<Rightarrow> []
      | x # xs \<Rightarrow> if lower_char x = lower_char c then regex_match items xs else [])"
| "regex_match (Whitespace # items) s =
     concat (map (\<lambda>k. regex_match items (drop k s))
                 (rev [1..<Suc (length (takeWhile isspace s))]))"
| "regex_match (Directive d # items) s =
     concat (map (\<lambda>(m, r). map (\<lambda>(caps, rest). ((d, m) # caps, rest)) (regex_match items r))
                 (alternatives (directive_alts d) s))"

definition month_of_name :: "string list \<Rightarrow> string \<Rightarrow> int" where
  "month_of_name names t = (case index_of (lower t) names of Some i \<Rightarrow> int i + 1 | None \<Rightarrow> 1)"

definition build_datetime :: "(char \<times> string) list \<Rightarrow> py_error + datetime" where
  \<comment> \<open>fields the format does not name default to 1900-01-01 00:00:00\<close>
  "build_datetime caps =
     (let num = (\<lambda>d dflt. case map_of caps d of Some t \<Rightarrow> int_of_digits t | None \<Rightarrow> dflt);
          m = (case map_of caps (CHR ''B'') of Some t \<Rightarrow> month_of_name MONTH_NAMES t
               | None \<Rightarrow>
                  (case map_of caps (CHR ''b'') of Some t \<Rightarrow> month_of_name MONTH_ABBRS t
                   | None \<Rightarrow> num (CHR ''m'') 1))
      in make_datetime (num (CHR ''Y'') 1900) m (num (CHR ''d'') 1)
           (num (CHR ''H'') 0) (num (CHR ''M'') 0) (num (CHR ''S'') 0))"

definition strptime :: "string \<Rightarrow> string \<Rightarrow> py_error + datetime" where
  "strptime s fmt =
     (case regex_match (compile_format fmt) s of
        [] \<Rightarrow> Inl ValueError
      | (caps, rest) # _ \<Rightarrow> if rest \<noteq> [] then Inl ValueError else build_datetime caps)"

section \<open>\<open>crm.py\<close>: the temporal resolver \<open>parse_date\<close>\<close>

text \<open>
  The reference instant, \<open>datetime.now()\<close> in the source, is the argument \<open>now\<close>.
  The result is \<open>Inr None\<close> for Python's \<open>None\<close>, \<open>Inr (Some t)\<close> for a string and
  \<open>Inl e\<close> for an exception that leaves the function.
\<close>

definition iso_result :: "py_error + datetime \<Rightarrow> py_error + string option" where
  "iso_result r = (case r of Inl e \<Rightarrow> Inl e | Inr d \<Rightarrow> Inr (Some (isoformat d)))"

definition next_unit :: "string \<Rightarrow> datetime \<Rightarrow> (py_error + string option) option" where
  \<comment> \<open>\<open>next week\<close>, \<open>next month\<close>; \<open>None\<close> when the branch does not return\<close>
  "next_unit s today =
     (if startswith ''next '' s
      then (let unit = drop 5 s
            in if unit = ''week'' then Some (iso_result (add_days today (1 * 7)))
               else if unit = ''month'' then Some (iso_result (add_days today 30))
               else None)
      else None)"

definition in_n_match :: "string \<Rightarrow> (string \<times> string) option" where
  \<comment> \<open>\<open>re.match(r'in (\d+) (day|week|month)s?', s)\<close>: the two groups\<close>
  "in_n_match s =
     (if startswith ''in '' s
      then (let ds = takeWhile isdigit (drop 3 s);
                r = drop (3 + length ds) s
            in if ds \<noteq> [] \<and> startswith '' '' r
               then (let u = drop 1 r
                     in if startswith ''day'' u then Some (ds, ''day'')
                        else if startswith ''week'' u then Some (ds, ''week'')
                        else if startswith ''month'' u then Some (ds, ''month'')
                        else None)
               else None)
      else None)"

definition in_n_units :: "string \<Rightarrow> datetime \<Rightarrow> (py_error + string option) option" where
  \<comment> \<open>\<open>int\<close> refuses a text of more than 4300 digits with \<open>ValueError\<close>\<close>
  "in_n_units s today =
     (case in_n_match s of
        None \<Rightarrow> None
      | Some (ds, unit) \<Rightarrow>
          if length ds > 4300 then Some (Inl ValueError)
          else (let n = int_of_digits ds
                in if unit = ''day'' then Some (iso_result (add_days today n))
                   else if unit = ''week'' then Some (iso_result (add_days today (n * 7)))
                   else if unit = ''month'' then Some (iso_result (add_days today (n * 30)))
                   else None))"

definition days :: "string list" where
  "days = [''monday'', ''tuesday'', ''wednesday'', ''thursday'', ''friday'', ''saturday'', ''sunday'']"

definition day_name :: "string \<Rightarrow> datetime \<Rightarrow> (py_error + string option) option" where
  "day_name s today =
     (if s \<in> set days \<or> (startswith ''next '' s \<and> drop 5 s \<in> set days)
      then (case index_of (remove_all ''next '' s) days of
              None \<Rightarrow> Some (Inl ValueError)
            | Some target_day \<Rightarrow>
                (let current_day = weekday today;
                     delta = int target_day - current_day;
                     delta = (if delta \<le> 0 then delta + 7 else delta)
                 in Some (iso_result (add_days today delta))))
      else None)"

definition date_formats :: "string list" where
  "date_formats = [''%Y-%m-%d'', ''%m/%d/%Y'', ''%m/%d'', ''%B %d'', ''%b %d'']"

definition try_format :: "string \<Rightarrow> datetime \<Rightarrow> string \<Rightarrow> py_error + datetime" where
  \<comment> \<open>the body of the \<open>try\<close> block for one format\<close>
  "try_format s today fmt =
     (case strptime s fmt of
        Inl e \<Rightarrow> Inl e
      | Inr dt \<Rightarrow>
          if year dt = 1900
          then (case replace_year dt (year today) of
                  Inl e \<Rightarrow> Inl e
                | Inr dt1 \<Rightarrow>
                    if dt_less dt1 today then replace_year dt1 (year today + 1) else Inr dt1)
          else Inr dt)"

fun try_formats :: "string \<Rightarrow> datetime \<Rightarrow> string list \<Rightarrow> (py_error + string option) option" where
  \<comment> \<open>the loop over the formats: \<open>ValueError\<close> moves on to the next one\<close>
  "try_formats s today [] = None"
| "try_formats s today (fmt # fmts) =
     (case try_format s today fmt of
        Inl ValueError \<Rightarrow> try_formats s today fmts
      | Inl e \<Rightarrow> Some (Inl e)
      | Inr dt \<Rightarrow> Some (Inr (Some (isoformat dt))))"

definition midnight :: "datetime \<Rightarrow> datetime" where
  \<comment> \<open>\<open>replace(hour=0, minute=0, second=0, microsecond=0)\<close>\<close>
  "midnight t = t\<lparr>hour := 0, minute := 0, second := 0, microsecond := 0\<rparr>"

definition parse_date :: "string \<Rightarrow> datetime \<Rightarrow> py_error + string option" where
  "parse_date s0 now =
     (if s0 = [] then Inr None
      else
        let s = strip (lower s0);
            today = midnight now
        in if s = ''today'' then Inr (Some (isoformat today))
           else if s = ''tomorrow'' then iso_result (add_days today 1)
           else if s = ''yesterday'' then iso_result (add_days today (- 1))
           else
             (case next_unit s today of
                Some r \<Rightarrow> r
              | None \<Rightarrow>
                 (case in_n_units s today of
                    Some r \<Rightarrow> r
                  | None \<Rightarrow>
                     (case day_name s today of
                        Some r \<Rightarrow> r
                      | None \<Rightarrow>
                         (case try_formats s today date_formats of
                            Some r \<Rightarrow> r
                          | None \<Rightarrow> Inr (Some s))))))"

section \<open>Dictionary and list operations\<close>

definition has_key :: "string \<Rightarrow> pydict \<Rightarrow> bool" where
  \<comment> \<open>\<open>k in d\<close>\<close>
  "has_key k d = (map_of d k \<noteq> None)"

definition dict_get :: "pydict \<Rightarrow> string \<Rightarrow> pyval" where
  \<comment> \<open>\<open>d.get(k)\<close>\<close>
  "dict_get d k = (case map_of d k of Some v \<Rightarrow> v | None \<Rightarrow> PNone)"

function str_of_nat :: "nat \<Rightarrow> string" where
  "str_of_nat n = (if n < 10 then [digit_char n] else str_of_nat (n div 10) @ [digit_char n])"
  by pat_completeness auto
termination
  by (relation "measure id") auto

definition str_of_int :: "int \<Rightarrow> string" where
  \<comment> \<open>\<open>str(n)\<close>\<close>
  "str_of_int n = (if n < 0 then ''-'' @ str_of_nat (nat (- n)) else str_of_nat (nat n))"

definition slice_from :: "'a list \<Rightarrow> int \<Rightarrow> 'a list" where
  \<comment> \<open>\<open>xs[k:]\<close>: a negative \<open>k\<close> counts from the end\<close>
  "slice_from xs k = (if 0 \<le> k then drop (nat k) xs else drop (length xs - nat (- k)) xs)"

definition sorted_desc :: "('a \<Rightarrow> 'k::linorder) \<Rightarrow> 'a list \<Rightarrow> 'a list" where
  \<comment> \<open>\<open>sorted(xs, key=f, reverse=True)\<close>: stable, entries with equal keys keep their order\<close>
  "sorted_desc f xs = rev (sort_key f (rev xs))"

section \<open>\<open>crm-backup.py\<close>: the files\<close>

text \<open>
  The file system is an association list from paths to files, in directory order;
  directories themselves are not modelled (\<open>ensure_backup_dir\<close> has no effect here).
  A file is either a well-formed SQLite database, with a flag that says whether it has a
  \<open>contacts\<close> table, or any other bytes. A file's modification time is kept as the
  local \<open>datetime\<close> that \<open>datetime.fromtimestamp(st_mtime)\<close> gives.
  A write to or an unlink of a path in \<open>protected\<close> fails, which is how the model
  lets an operation of the operating system fail. Every change of a file is appended to
  \<open>events\<close>, so the order of the effects of a run can be read off.
\<close>

type_synonym path = string

datatype content = SqliteDb bool string | Raw string

record stored_file =
  content :: content
  mtime :: datetime

datatype event = Wrote path stored_file | Unlinked path

record world =
  files :: "(path \<times> stored_file) list"
  protected :: "path \<Rightarrow> bool"
  events :: "event list"

record settings =
  DB_PATH :: path
  BACKUP_DIR :: path
  clock :: datetime

definition path_exists :: "world \<Rightarrow> path \<Rightarrow> bool" where
  \<comment> \<open>\<open>Path(p).exists()\<close>\<close>
  "path_exists w p = (map_of (files w) p \<noteq> None)"

definition write_file :: "py_error \<Rightarrow> world \<Rightarrow> path \<Rightarrow> stored_file \<Rightarrow> py_error + world" where
  \<comment> \<open>create or replace the file at \<open>p\<close>; \<open>err\<close> is what the caller's library raises\<close>
  "write_file err w p f =
     (if protected w p then Inl err
      else Inr (w\<lparr>files := AList.update p f (files w), events := events w @ [Wrote p f]\<rparr>))"

definition unlink :: "world \<Rightarrow> path \<Rightarrow> py_error + world" where
  \<comment> \<open>\<open>Path(p).unlink()\<close>\<close>
  "unlink w p =
     (if \<not> path_exists w p then Inl FileNotFoundError
      else if protected w p then Inl PermissionError
      else Inr (w\<lparr>files := AList.delete p (files w), events := events w @ [Unlinked p]\<rparr>))"

definition copy2 :: "world \<Rightarrow> path \<Rightarrow> path \<Rightarrow> py_error + world" where
  \<comment> \<open>\<open>shutil.copy2(src, dst)\<close>: content and modification time\<close>
  "copy2 w src dst =
     (case map_of (files w) src of
        None \<Rightarrow> Inl FileNotFoundError
      | Some f \<Rightarrow> if src = dst then Inl SameFileError else write_file PermissionError w dst f)"

subsection \<open>\<open>get_backup_files\<close>\<close>

text \<open>
  Of the dictionary built for each backup, the entries \<open>path\<close>, \<open>filename\<close> and
  \<open>created_at\<close> are kept; \<open>size_bytes\<close>, \<open>size_human\<close> and \<open>age_days\<close>, which no other
  function of the script reads, are left out.
\<close>

record backup_info =
  path :: path
  filename :: string
  created_at :: string

definition in_dir :: "path \<Rightarrow> path \<Rightarrow> bool" where
  \<comment> \<open>\<open>p\<close> is an entry of the directory \<open>d\<close> (written without a trailing slash)\<close>
  "in_dir d p = (startswith (d @ ''/'') p \<and> CHR ''/'' \<notin> set (drop (length d + 1) p))"

definition basename :: "path \<Rightarrow> path \<Rightarrow> string" where
  "basename d p = drop (length d + 1) p"

definition is_backup_name :: "string \<Rightarrow> bool" where
  \<comment> \<open>the glob pattern \<open>crm_backup_*.db\<close>\<close>
  "is_backup_name n =
     (startswith ''crm_backup_'' n \<and> endswith ''.db'' n \<and> 14 \<le> length n)"

definition stem :: "string \<Rightarrow> string" where
  \<comment> \<open>\<open>f.stem\<close> of a name that ends in \<open>.db\<close>\<close>
  "stem n = take (length n - 3) n"

definition backup_entry :: "path \<Rightarrow> path \<times> stored_file \<Rightarrow> backup_info" where
  "backup_entry d pf =
     (let n = basename d (fst pf);
          ts_str = remove_all ''crm_backup_'' (stem n);
          ts = (case strptime ts_str ''%Y%m%d_%H%M%S'' of
                  Inr t \<Rightarrow> t
                | Inl _ \<Rightarrow> mtime (snd pf))
      in \<lparr>path = fst pf, filename = n, created_at = isoformat ts\<rparr>)"

definition glob_backups :: "settings \<Rightarrow> world \<Rightarrow> (path \<times> stored_file) list" where
  \<comment> \<open>\<open>Path(BACKUP_DIR).glob('crm_backup_*.db')\<close>, in directory order\<close>
  "glob_backups cfg w =
     filter (\<lambda>pf. in_dir (BACKUP_DIR cfg) (fst pf)
                   \<and> is_backup_name (basename (BACKUP_DIR cfg) (fst pf))) (files w)"

definition get_backup_files :: "settings \<Rightarrow> world \<Rightarrow> backup_info list" where
  "get_backup_files cfg w =
     sorted_desc created_at (map (backup_entry (BACKUP_DIR cfg)) (glob_backups cfg w))"

subsection \<open>\<open>backup_database\<close>\<close>

text \<open>
  The result dictionary is modelled without its \<open>size\<close> entry, a formatted float.
  \<open>sqlite3.connect(p)\<close> creates the file at \<open>p\<close> when there is none: an empty file,
  which SQLite reads as a database without tables. It raises when the file cannot be
  created. \<open>source.backup(dest)\<close> raises an \<open>sqlite3\<close> error when the source is not a
  database, when the destination is not one, or when the destination cannot be written;
  the file that \<open>connect\<close> created stays. \<open>DatabaseError\<close> stands for
  \<open>sqlite3.DatabaseError\<close> and its subclass \<open>OperationalError\<close>. Source and
  destination are taken to be two files: a backup of a file onto itself waits for its own
  lock, and is not modelled.
\<close>

definition sqlite_connect :: "settings \<Rightarrow> world \<Rightarrow> path \<Rightarrow> py_error + world" where
  \<comment> \<open>\<open>sqlite3.connect(p)\<close>\<close>
  "sqlite_connect cfg w p =
     (if path_exists w p then Inr w
      else write_file DatabaseError w p \<lparr>content = SqliteDb False [], mtime = clock cfg\<rparr>)"

definition sqlite_backup :: "settings \<Rightarrow> world \<Rightarrow> path \<Rightarrow> path \<Rightarrow> py_error + world" where
  "sqlite_backup cfg w src dst =
     (case map_of (files w) src of
        None \<Rightarrow> Inl DatabaseError
      | Some f \<Rightarrow>
         (case content f of
            Raw _ \<Rightarrow> Inl DatabaseError
          | SqliteDb h d \<Rightarrow>
             (case map_option content (map_of (files w) dst) of
                Some (Raw _) \<Rightarrow> Inl DatabaseError
              | _ \<Rightarrow> write_file DatabaseError w dst
                       \<lparr>content = SqliteDb h d, mtime = clock cfg\<rparr>)))"

definition new_backup_path :: "settings \<Rightarrow> string \<Rightarrow> path" where
  \<comment> \<open>\<open>os.path.join(BACKUP_DIR, f'crm_backup_{timestamp}.db')\<close>\<close>
  "new_backup_path cfg timestamp = BACKUP_DIR cfg @ ''/'' @ ''crm_backup_'' @ timestamp @ ''.db''"

definition backup_database :: "settings \<Rightarrow> world \<Rightarrow> string option \<Rightarrow> world \<times> (py_error + pydict)" where
  "backup_database cfg w note =
     (if \<not> path_exists w (DB_PATH cfg)
      then (w, Inr [(''error'', PStr ''Database not found''), (''path'', PStr (DB_PATH cfg))])
      else
        let timestamp = strftime_stamp (clock cfg);
            backup_path = new_backup_path cfg timestamp
        in case sqlite_connect cfg w backup_path of
             Inl e \<Rightarrow> (w, Inl e)
           | Inr w0 \<Rightarrow>
              (case sqlite_backup cfg w0 (DB_PATH cfg) backup_path of
                 Inl e \<Rightarrow> (w0, Inl e)
               | Inr w1 \<Rightarrow>
                  (let result = [(''status'', PStr ''success''), (''path'', PStr backup_path),
                                 (''timestamp'', PStr timestamp)]
                   in case note of
                        None \<Rightarrow> (w1, Inr result)
                      | Some n \<Rightarrow>
                          if n = [] then (w1, Inr result)
                          else (case write_file PermissionError w1 (backup_path @ ''.note'')
                                       \<lparr>content = Raw n, mtime = clock cfg\<rparr> of
                                  Inl e \<Rightarrow> (w1, Inl e)
                                | Inr w2 \<Rightarrow> (w2, Inr (result @ [(''note'', PStr n)]))))))"

subsection \<open>\<open>restore_database\<close>\<close>

definition probe :: "world \<Rightarrow> path \<Rightarrow> string option" where
  \<comment> \<open>\<open>SELECT COUNT(*) FROM contacts\<close> on the file: \<open>Some\<close> the message of the exception\<close>
  "probe w p =
     (case map_option content (map_of (files w) p) of
        Some (SqliteDb True _) \<Rightarrow> None
      | Some (SqliteDb False _) \<Rightarrow> Some ''no such table: contacts''
      | Some (Raw _) \<Rightarrow> Some ''file is not a database''
      | None \<Rightarrow> Some ''no such table: contacts'')"

definition restore_tail ::
  "settings \<Rightarrow> world \<Rightarrow> path \<Rightarrow> pydict option \<Rightarrow> world \<times> (py_error + pydict)" where
  \<comment> \<open>from the comment \<open># Restore\<close> on; \<open>safety_backup = None\<close> is the unassigned local\<close>
  "restore_tail cfg w backup_path safety_backup =
     (case copy2 w backup_path (DB_PATH cfg) of
        Inl e \<Rightarrow> (w, Inl e)
      | Inr w2 \<Rightarrow>
         (case probe w2 (DB_PATH cfg) of
            Some msg \<Rightarrow>
              (w2, Inr [(''error'', PStr ''Restored database appears corrupt''),
                        (''details'', PStr msg)])
          | None \<Rightarrow>
              if path_exists w2 (DB_PATH cfg)
              then (case safety_backup of
                      None \<Rightarrow> (w2, Inl (UnboundLocalError ''safety_backup''))
                    | Some sb \<Rightarrow>
                        (w2, Inr [(''status'', PStr ''success''),
                                  (''message'', PStr ''Database restored successfully''),
                                  (''restored_from'', PStr backup_path),
                                  (''safety_backup'', dict_get sb ''path'')]))
              else (w2, Inr [(''status'', PStr ''success''),
                             (''message'', PStr ''Database restored successfully''),
                             (''restored_from'', PStr backup_path),
                             (''safety_backup'', PNone)])))"

definition restore_database ::
  "settings \<Rightarrow> world \<Rightarrow> path \<Rightarrow> bool \<Rightarrow> world \<times> (py_error + pydict)" where
  "restore_database cfg w backup_path confirm =
     (if \<not> path_exists w backup_path
      then (w, Inr [(''error'', PStr ''Backup file not found''), (''path'', PStr backup_path)])
      else if \<not> confirm
      then (w, Inr [(''status'', PStr ''confirmation_required''),
                    (''message'', PStr ''This will overwrite the current database. Pass --confirm to proceed.''),
                    (''backup_path'', PStr backup_path),
                    (''current_db'', PStr (DB_PATH cfg))])
      else if path_exists w (DB_PATH cfg)
      then (case backup_database cfg w (Some ''Pre-restore safety backup'') of
              (w1, Inl e) \<Rightarrow> (w1, Inl e)
            | (w1, Inr safety_backup) \<Rightarrow>
                if has_key ''error'' safety_backup
                then (w1, Inr [(''error'', PStr ''Failed to create safety backup''),
                               (''details'', PDict safety_backup)])
                else restore_tail cfg w1 backup_path (Some safety_backup))
      else restore_tail cfg w backup_path None)"

subsection \<open>\<open>prune_backups\<close>\<close>

definition prune_one :: "world \<times> string list \<Rightarrow> backup_info \<Rightarrow> world \<times> string list" where
  \<comment> \<open>one turn of the loop: any exception in the \<open>try\<close> block is swallowed\<close>
  "prune_one st b =
     (case st of (w, removed) \<Rightarrow>
        (case unlink w (path b) of
           Inl e \<Rightarrow> (w, removed)
         | Inr w1 \<Rightarrow>
            (let note_path = path b @ ''.note''
             in if path_exists w1 note_path
                then (case unlink w1 note_path of
                        Inl e \<Rightarrow> (w1, removed)
                      | Inr w2 \<Rightarrow> (w2, removed @ [filename b]))
                else (w1, removed @ [filename b]))))"

definition prune_backups :: "settings \<Rightarrow> world \<Rightarrow> int \<Rightarrow> world \<times> (py_error + pydict)" where
  "prune_backups cfg w keep =
     (let backups = get_backup_files cfg w
      in if int (length backups) \<le> keep
         then (w, Inr [(''status'', PStr ''success''),
                       (''message'', PStr (''No pruning needed. '' @ str_of_int (int (length backups))
                           @ '' backups exist, keeping '' @ str_of_int keep @ ''.'')),
                       (''removed'', PInt 0)])
         else
           (case foldl prune_one (w, []) (slice_from backups keep) of
              (w', removed) \<Rightarrow>
                (w', Inr [(''status'', PStr ''success''),
                          (''kept'', PInt keep),
                          (''removed'', PInt (int (length removed))),
                          (''removed_files'', PList (map PStr removed))])))"

section \<open>\<open>crm.py\<close>: the database\<close>

text \<open>
  A table is the list of its rows in rowid order, the order in which SQLite scans a table
  for a query that has no \<open>ORDER BY\<close> and no usable index; a row is the dictionary
  \<open>dict(row)\<close> from column names to values. A connection has the database as committed,
  which is what every other connection sees, and its own working copy with the
  statements of the open transaction; \<open>observed\<close> records the committed database after
  each statement and each commit of the connection. A process that ends without
  \<open>commit\<close> leaves the committed database as it was.

  Modelled from the spec: \<open>schema.sql\<close> is not among the sources. From the data model
  of the specification and the statements of \<open>crm.py\<close>: every entity table has a text
  column \<open>id\<close> whose default is a new identity (\<open>fresh_id\<close>), \<open>created_at\<close>,
  \<open>updated_at\<close> and \<open>logged_at\<close> default to the current time as SQLite writes it
  (\<open>sql_now\<close>), and \<open>closed_at\<close> and \<open>completed_at\<close> default to \<open>NULL\<close>. The
  constraints of the schema (\<open>NOT NULL\<close>, \<open>CHECK\<close>, \<open>UNIQUE\<close>, foreign keys) are the
  parameter \<open>integrity\<close>: a statement whose result violates it raises
  \<open>IntegrityError\<close>. What deleting a contact does to the rows that refer to it is the
  parameter \<open>on_delete\<close>.
\<close>

datatype tname = Contacts | Deals | Interactions | Tasks | AuditLog

type_synonym row = pydict

type_synonym table = "(nat \<times> row) list"

type_synonym database = "tname \<Rightarrow> table"

datatype fk_action = NoAction | SetNull | Cascade

record crm_env =
  now_at :: "nat \<Rightarrow> datetime"
  fresh_id :: string
  sql_now :: string
  integrity :: "database \<Rightarrow> bool"
  on_delete :: fk_action

record conn =
  committed :: database
  working :: database
  observed :: "database list"

definition col :: "string \<Rightarrow> row \<Rightarrow> pyval" where
  \<comment> \<open>\<open>row[c]\<close>\<close>
  "col c r = dict_get r c"

definition py_truthy :: "pyval \<Rightarrow> bool" where
  "py_truthy v =
     (case v of PNone \<Rightarrow> False | PBool b \<Rightarrow> b | PStr s \<Rightarrow> s \<noteq> [] | PInt i \<Rightarrow> i \<noteq> 0
      | PFloat x \<Rightarrow> x \<noteq> 0 | PList xs \<Rightarrow> xs \<noteq> [] | PDict d \<Rightarrow> d \<noteq> [])"

definition py_or :: "pyval \<Rightarrow> pyval \<Rightarrow> pyval" where
  \<comment> \<open>\<open>a or b\<close>\<close>
  "py_or a b = (if py_truthy a then a else b)"

definition str_of :: "pyval \<Rightarrow> string" where
  \<comment> \<open>the text of an argument that \<open>argparse\<close> delivers as a string\<close>
  "str_of v = (case v of PStr s \<Rightarrow> s | _ \<Rightarrow> [])"

fun split_on :: "char \<Rightarrow> string \<Rightarrow> string list" where
  \<comment> \<open>\<open>s.split(c)\<close>\<close>
  "split_on c [] = [[]]"
| "split_on c (x # xs) =
     (if x = c then [] # split_on c xs
      else (case split_on c xs of y # ys \<Rightarrow> (x # y) # ys | [] \<Rightarrow> [[x]]))"

definition json_or_none :: "pydict option \<Rightarrow> pyval" where
  \<comment> \<open>\<open>json.dumps(d) if d else None\<close>\<close>
  "json_or_none d = (case d of None \<Rightarrow> PNone | Some x \<Rightarrow> if x = [] then PNone else PDict x)"

definition opt_str :: "string option \<Rightarrow> pyval" where
  "opt_str v = (case v of None \<Rightarrow> PNone | Some s \<Rightarrow> PStr s)"

subsection \<open>SQL expressions\<close>

definition sql_eq :: "pyval \<Rightarrow> pyval \<Rightarrow> bool" where
  \<comment> \<open>\<open>a = b\<close> in a \<open>WHERE\<close> clause: never true of \<open>NULL\<close>\<close>
  "sql_eq a b = (a \<noteq> PNone \<and> a = b)"

definition sql_lower :: "pyval \<Rightarrow> pyval" where
  "sql_lower v = (case v of PStr s \<Rightarrow> PStr (lower s) | _ \<Rightarrow> v)"

fun like :: "string \<Rightarrow> string \<Rightarrow> bool" where
  \<comment> \<open>\<open>text LIKE pattern\<close>: \<open>%\<close> is any run of characters, \<open>_\<close> any one character,
      letters match without regard to case\<close>
  "like [] t = (t = [])"
| "like (p # ps) t =
     (if p = CHR ''%''
      then (like ps t \<or> (case t of [] \<Rightarrow> False | c # cs \<Rightarrow> like (p # ps) cs))
      else (case t of [] \<Rightarrow> False
            | c # cs \<Rightarrow> (p = CHR ''_'' \<or> lower_char p = lower_char c) \<and> like ps cs))"

definition sql_like :: "string \<Rightarrow> pyval \<Rightarrow> bool" where
  "sql_like pat v = (case v of PStr s \<Rightarrow> like pat s | _ \<Rightarrow> False)"

subsection \<open>Statements\<close>

definition matches :: "string \<Rightarrow> pyval \<Rightarrow> row \<Rightarrow> bool" where
  \<comment> \<open>\<open>WHERE id = ? OR lower(label) LIKE ?\<close> with the parameters
      \<open>(ident, f'%{ident.lower()}%')\<close>\<close>
  "matches label ident r =
     (sql_eq (col ''id'' r) ident
      \<or> sql_like (''%'' @ lower (str_of ident) @ ''%'') (sql_lower (col label r)))"

definition find_by_id_or_label :: "table \<Rightarrow> string \<Rightarrow> pyval \<Rightarrow> row option" where
  \<comment> \<open>\<open>SELECT * FROM t WHERE id = ? OR lower(label) LIKE ?\<close>, then \<open>fetchone()\<close>\<close>
  "find_by_id_or_label t label ident =
     map_option snd (find (\<lambda>nr. matches label ident (snd nr)) t)"

definition find_by_id :: "table \<Rightarrow> pyval \<Rightarrow> row option" where
  \<comment> \<open>\<open>SELECT * FROM t WHERE id = ?\<close>, then \<open>fetchone()\<close>\<close>
  "find_by_id t ident = map_option snd (find (\<lambda>nr. sql_eq (col ''id'' (snd nr)) ident) t)"

definition row_by_rowid :: "table \<Rightarrow> nat \<Rightarrow> row option" where
  \<comment> \<open>\<open>SELECT id FROM t WHERE rowid = ?\<close>, then \<open>fetchone()\<close>\<close>
  "row_by_rowid t n = map_option snd (find (\<lambda>nr. fst nr = n) t)"

definition next_rowid :: "table \<Rightarrow> nat" where
  "next_rowid t = Suc (foldr max (map fst t) 0)"

definition insert_row :: "tname \<Rightarrow> row \<Rightarrow> database \<Rightarrow> database" where
  "insert_row tn r db = db(tn := db tn @ [(next_rowid (db tn), r)])"

definition apply_updates :: "pydict \<Rightarrow> row \<Rightarrow> row" where
  \<comment> \<open>the assignments of a \<open>SET\<close> clause\<close>
  "apply_updates ups r = foldl (\<lambda>acc kv. AList.update (fst kv) (snd kv) acc) r ups"

definition update_rows :: "tname \<Rightarrow> pyval \<Rightarrow> pydict \<Rightarrow> database \<Rightarrow> database" where
  \<comment> \<open>\<open>UPDATE tn SET ... WHERE id = ?\<close>\<close>
  "update_rows tn ident ups db =
     db(tn := map (\<lambda>nr. if sql_eq (col ''id'' (snd nr)) ident
                          then (fst nr, apply_updates ups (snd nr)) else nr) (db tn))"

definition refers_to :: "pyval \<Rightarrow> nat \<times> row \<Rightarrow> bool" where
  "refers_to ident nr = sql_eq (col ''contact_id'' (snd nr)) ident"

definition detach :: "fk_action \<Rightarrow> pyval \<Rightarrow> table \<Rightarrow> table" where
  \<comment> \<open>the referential action on the rows of one table that refer to a deleted contact\<close>
  "detach act ident t =
     (case act of
        NoAction \<Rightarrow> t
      | SetNull \<Rightarrow> map (\<lambda>nr. if refers_to ident nr
                               then (fst nr, AList.update ''contact_id'' PNone (snd nr))
                               else nr) t
      | Cascade \<Rightarrow> filter (\<lambda>nr. \<not> refers_to ident nr) t)"

definition delete_contact_rows :: "fk_action \<Rightarrow> pyval \<Rightarrow> database \<Rightarrow> database" where
  \<comment> \<open>\<open>DELETE FROM contacts WHERE id = ?\<close>\<close>
  "delete_contact_rows act ident db =
     db(Contacts := filter (\<lambda>nr. \<not> sql_eq (col ''id'' (snd nr)) ident) (db Contacts),
        Deals := detach act ident (db Deals),
        Interactions := detach act ident (db Interactions),
        Tasks := detach act ident (db Tasks))"

definition new_row :: "crm_env \<Rightarrow> row \<Rightarrow> row \<Rightarrow> row" where
  \<comment> \<open>the row an \<open>INSERT\<close> stores: the identity, the given columns, the other defaults\<close>
  "new_row env given dflt = (''id'', PStr (fresh_id env)) # given @ dflt"

definition contact_defaults :: "crm_env \<Rightarrow> row" where
  "contact_defaults env =
     [(''created_at'', PStr (sql_now env)), (''updated_at'', PStr (sql_now env))]"

definition deal_defaults :: "crm_env \<Rightarrow> row" where
  "deal_defaults env =
     [(''closed_at'', PNone), (''created_at'', PStr (sql_now env)),
      (''updated_at'', PStr (sql_now env))]"

definition interaction_defaults :: "crm_env \<Rightarrow> row" where
  "interaction_defaults env = [(''logged_at'', PStr (sql_now env))]"

definition task_defaults :: "crm_env \<Rightarrow> row" where
  "task_defaults env = [(''completed_at'', PNone), (''created_at'', PStr (sql_now env))]"

definition audit_defaults :: "crm_env \<Rightarrow> row" where
  "audit_defaults env = [(''created_at'', PStr (sql_now env))]"

subsection \<open>The connection\<close>

definition get_db :: "database \<Rightarrow> conn" where
  \<comment> \<open>a connection to the initialised database\<close>
  "get_db db = \<lparr>committed = db, working = db, observed = []\<rparr>"

definition execute :: "crm_env \<Rightarrow> (database \<Rightarrow> database) \<Rightarrow> conn \<Rightarrow> py_error + conn" where
  \<comment> \<open>\<open>conn.execute\<close> of an \<open>INSERT\<close>, \<open>UPDATE\<close> or \<open>DELETE\<close>: it joins the open
      transaction and the committed database stays as it is\<close>
  "execute env stmt c =
     (let w = stmt (working c)
      in if integrity env w
         then Inr (c\<lparr>working := w, observed := observed c @ [committed c]\<rparr>)
         else Inl IntegrityError)"

definition commit :: "conn \<Rightarrow> conn" where
  "commit c = c\<lparr>committed := working c, observed := observed c @ [working c]\<rparr>"

definition audit_log ::
  "crm_env \<Rightarrow> conn \<Rightarrow> string \<Rightarrow> pyval \<Rightarrow> string \<Rightarrow> pydict option \<Rightarrow> pydict option
     \<Rightarrow> pyval \<Rightarrow> pyval \<Rightarrow> py_error + conn" where
  "audit_log env c table record_id action old new reason conv_ref =
     execute env
       (insert_row AuditLog
          ([(''table_name'', PStr table), (''record_id'', record_id), (''action'', PStr action),
            (''old_values'', json_or_none old), (''new_values'', json_or_none new),
            (''reason'', reason), (''conversation_ref'', conv_ref)] @ audit_defaults env)) c"

subsection \<open>Contacts\<close>

text \<open>
  \<open>args\<close> is the namespace of \<open>argparse\<close>, a dictionary from argument names to values.
  Each command returns what it prints, or the exception that ends it, together with the
  connection as the process leaves it.
\<close>

definition add_contact :: "crm_env \<Rightarrow> pydict \<Rightarrow> database \<Rightarrow> (py_error + pydict) \<times> conn" where
  "add_contact env args db =
     (let c = get_db db;
          tags = (if py_truthy (dict_get args ''tags'')
                  then PList (map PStr (split_on (CHR '','') (str_of (dict_get args ''tags''))))
                  else PNone)
      in case execute env
               (insert_row Contacts
                  (new_row env
                     [(''name'', dict_get args ''name''), (''email'', dict_get args ''email''),
                      (''phone'', dict_get args ''phone''), (''company'', dict_get args ''company''),
                      (''role'', dict_get args ''role''), (''source'', dict_get args ''source''),
                      (''tags'', tags), (''notes'', dict_get args ''notes'')]
                     (contact_defaults env))) c of
           Inl e \<Rightarrow> (Inl e, c)
         | Inr c1 \<Rightarrow>
            (let record_id = fst (last (working c1 Contacts))
             in case row_by_rowid (working c1 Contacts) record_id of
                  None \<Rightarrow> (Inl TypeError, c1)
                | Some row \<Rightarrow>
                   (case audit_log env c1 ''contacts'' (col ''id'' row) ''INSERT'' None
                           (Some [(''name'', dict_get args ''name''),
                                  (''email'', dict_get args ''email''),
                                  (''company'', dict_get args ''company'')])
                           (dict_get args ''reason'') PNone of
                      Inl e \<Rightarrow> (Inl e, c1)
                    | Inr c2 \<Rightarrow>
                        (Inr [(''status'', PStr ''created''), (''id'', col ''id'' row),
                              (''name'', dict_get args ''name''),
                              (''company'', dict_get args ''company''),
                              (''email'', dict_get args ''email'')],
                         commit c2))))"

definition collect :: "string list \<Rightarrow> pydict \<Rightarrow> pydict" where
  \<comment> \<open>the loop \<open>for field in names: val = getattr(args, field, None); if val is not None:
      updates[field] = val\<close>\<close>
  "collect names args =
     concat (map (\<lambda>f. if dict_get args f \<noteq> PNone then [(f, dict_get args f)] else []) names)"

definition update_contact :: "crm_env \<Rightarrow> pydict \<Rightarrow> database \<Rightarrow> (py_error + pydict) \<times> conn" where
  "update_contact env args db =
     (let c = get_db db
      in case find_by_id_or_label (working c Contacts) ''name'' (dict_get args ''id'') of
           None \<Rightarrow>
             (Inl (SystemExit [(''error'', PStr (''Contact not found: '' @ str_of (dict_get args ''id'')))]), c)
         | Some row \<Rightarrow>
            (let old = row;
                 updates = collect [''name'', ''email'', ''phone'', ''company'', ''role'', ''source'',
                                    ''notes''] args;
                 updates = (if py_truthy (dict_get args ''tags'')
                            then updates @ [(''tags'', PList (map PStr
                                   (split_on (CHR '','') (str_of (dict_get args ''tags'')))))]
                            else updates)
             in if updates = []
                then (Inl (SystemExit [(''error'', PStr ''No updates provided'')]), c)
                else
                  (let updates = updates @ [(''updated_at'', PStr (isoformat (now_at env 0)))]
                   in case execute env (update_rows Contacts (col ''id'' row) updates) c of
                        Inl e \<Rightarrow> (Inl e, c)
                      | Inr c1 \<Rightarrow>
                         (case audit_log env c1 ''contacts'' (col ''id'' row) ''UPDATE'' (Some old)
                                 (Some updates) (dict_get args ''reason'') PNone of
                            Inl e \<Rightarrow> (Inl e, c1)
                          | Inr c2 \<Rightarrow>
                              (Inr [(''status'', PStr ''updated''), (''id'', col ''id'' row),
                                    (''changes'', PDict updates)],
                               commit c2)))))"

definition delete_contact :: "crm_env \<Rightarrow> pydict \<Rightarrow> database \<Rightarrow> (py_error + pydict) \<times> conn" where
  "delete_contact env args db =
     (let c = get_db db
      in case find_by_id (working c Contacts) (dict_get args ''id'') of
           None \<Rightarrow>
             (Inl (SystemExit [(''error'', PStr (''Contact not found: '' @ str_of (dict_get args ''id'')))]), c)
         | Some row \<Rightarrow>
            (let old = row
             in case execute env (delete_contact_rows (on_delete env) (dict_get args ''id'')) c of
                  Inl e \<Rightarrow> (Inl e, c)
                | Inr c1 \<Rightarrow>
                   (case audit_log env c1 ''contacts'' (dict_get args ''id'') ''DELETE'' (Some old)
                           None (dict_get args ''reason'') PNone of
                      Inl e \<Rightarrow> (Inl e, c1)
                    | Inr c2 \<Rightarrow>
                        (Inr [(''status'', PStr ''deleted''), (''id'', dict_get args ''id''),
                              (''name'', col ''name'' old)],
                         commit c2))))"

subsection \<open>Deals\<close>

definition resolve_contact :: "conn \<Rightarrow> pyval \<Rightarrow> pyval" where
  \<comment> \<open>the soft reference to a contact: its \<open>id\<close>, or \<open>None\<close> when nothing is found\<close>
  "resolve_contact c contact =
     (if py_truthy contact
      then (case find_by_id_or_label (working c Contacts) ''name'' contact of
              Some row \<Rightarrow> col ''id'' row
            | None \<Rightarrow> PNone)
      else PNone)"

definition parse_date_arg :: "crm_env \<Rightarrow> pyval \<Rightarrow> py_error + pyval" where
  \<comment> \<open>\<open>parse_date(v) if v else None\<close>\<close>
  "parse_date_arg env v =
     (if py_truthy v
      then (case parse_date (str_of v) (now_at env 0) of
              Inl e \<Rightarrow> Inl e
            | Inr t \<Rightarrow> Inr (opt_str t))
      else Inr PNone)"

definition add_deal :: "crm_env \<Rightarrow> pydict \<Rightarrow> database \<Rightarrow> (py_error + pydict) \<times> conn" where
  "add_deal env args db =
     (let c = get_db db;
          contact_id = resolve_contact c (dict_get args ''contact'')
      in case parse_date_arg env (dict_get args ''expected_close'') of
           Inl e \<Rightarrow> (Inl e, c)
         | Inr expected_close \<Rightarrow>
            (case execute env
                    (insert_row Deals
                       (new_row env
                          [(''contact_id'', contact_id), (''title'', dict_get args ''title''),
                           (''value'', dict_get args ''value''),
                           (''currency'', py_or (dict_get args ''currency'') (PStr ''USD'')),
                           (''stage'', py_or (dict_get args ''stage'') (PStr ''lead'')),
                           (''probability'', dict_get args ''probability''),
                           (''expected_close'', expected_close),
                           (''notes'', dict_get args ''notes'')]
                          (deal_defaults env))) c of
               Inl e \<Rightarrow> (Inl e, c)
             | Inr c1 \<Rightarrow>
                (case row_by_rowid (working c1 Deals) (fst (last (working c1 Deals))) of
                   None \<Rightarrow> (Inl TypeError, c1)
                 | Some row \<Rightarrow>
                    (case audit_log env c1 ''deals'' (col ''id'' row) ''INSERT'' None
                            (Some [(''title'', dict_get args ''title''),
                                   (''value'', dict_get args ''value''),
                                   (''stage'', py_or (dict_get args ''stage'') (PStr ''lead''))])
                            (dict_get args ''reason'') PNone of
                       Inl e \<Rightarrow> (Inl e, c1)
                     | Inr c2 \<Rightarrow>
                         (Inr [(''status'', PStr ''created''), (''id'', col ''id'' row),
                               (''title'', dict_get args ''title''),
                               (''value'', dict_get args ''value''),
                               (''stage'', py_or (dict_get args ''stage'') (PStr ''lead''))],
                          commit c2)))))"

definition terminal :: "pyval \<Rightarrow> bool" where
  \<comment> \<open>\<open>stage in ('won', 'lost')\<close>\<close>
  "terminal v = (v = PStr ''won'' \<or> v = PStr ''lost'')"

definition deal_updates :: "crm_env \<Rightarrow> pydict \<Rightarrow> py_error + pydict" where
  \<comment> \<open>the dictionary \<open>updates\<close> of \<open>update_deal\<close>\<close>
  "deal_updates env args =
     (let updates = collect [''title'', ''value'', ''currency'', ''stage'', ''probability'', ''notes'']
                      args
      in case (if py_truthy (dict_get args ''expected_close'')
               then (case parse_date (str_of (dict_get args ''expected_close'')) (now_at env 0) of
                       Inl e \<Rightarrow> Inl e
                     | Inr t \<Rightarrow> Inr (updates @ [(''expected_close'', opt_str t)]))
               else Inr updates) of
           Inl e \<Rightarrow> Inl e
         | Inr updates \<Rightarrow>
             Inr (if terminal (dict_get args ''stage'')
                  then updates @ [(''closed_at'', PStr (isoformat (now_at env 1)))]
                  else updates))"

definition update_deal :: "crm_env \<Rightarrow> pydict \<Rightarrow> database \<Rightarrow> (py_error + pydict) \<times> conn" where
  "update_deal env args db =
     (let c = get_db db
      in case find_by_id_or_label (working c Deals) ''title'' (dict_get args ''id'') of
           None \<Rightarrow>
             (Inl (SystemExit [(''error'', PStr (''Deal not found: '' @ str_of (dict_get args ''id'')))]), c)
         | Some row \<Rightarrow>
            (let old = row
             in case deal_updates env args of
                  Inl e \<Rightarrow> (Inl e, c)
                | Inr updates \<Rightarrow>
                   if updates = []
                   then (Inl (SystemExit [(''error'', PStr ''No updates provided'')]), c)
                   else
                     (case execute env
                             (update_rows Deals (col ''id'' row)
                                (updates @ [(''updated_at'', PStr (isoformat (now_at env 2)))])) c of
                        Inl e \<Rightarrow> (Inl e, c)
                      | Inr c1 \<Rightarrow>
                         (case audit_log env c1 ''deals'' (col ''id'' row) ''UPDATE'' (Some old)
                                 (Some updates) (dict_get args ''reason'') PNone of
                            Inl e \<Rightarrow> (Inl e, c1)
                          | Inr c2 \<Rightarrow>
                              (Inr [(''status'', PStr ''updated''), (''id'', col ''id'' row),
                                    (''changes'', PDict updates)],
                               commit c2)))))"

subsection \<open>Interactions and tasks\<close>

definition log_interaction :: "crm_env \<Rightarrow> pydict \<Rightarrow> database \<Rightarrow> (py_error + pydict) \<times> conn" where
  "log_interaction env args db =
     (let c = get_db db;
          contact_id = resolve_contact c (dict_get args ''contact'')
      in case (if py_truthy (dict_get args ''date'')
               then parse_date_arg env (dict_get args ''date'')
               else Inr (PStr (isoformat (now_at env 1)))) of
           Inl e \<Rightarrow> (Inl e, c)
         | Inr occurred \<Rightarrow>
            (case execute env
                    (insert_row Interactions
                       (new_row env
                          [(''contact_id'', contact_id), (''deal_id'', dict_get args ''deal''),
                           (''type'', dict_get args ''type''),
                           (''direction'', dict_get args ''direction''),
                           (''summary'', dict_get args ''summary''),
                           (''raw_content'', dict_get args ''raw''),
                           (''occurred_at'', occurred)]
                          (interaction_defaults env))) c of
               Inl e \<Rightarrow> (Inl e, c)
             | Inr c1 \<Rightarrow>
                (case row_by_rowid (working c1 Interactions)
                        (fst (last (working c1 Interactions))) of
                   None \<Rightarrow> (Inl TypeError, c1)
                 | Some row \<Rightarrow>
                    (case audit_log env c1 ''interactions'' (col ''id'' row) ''INSERT'' None
                            (Some [(''type'', dict_get args ''type''),
                                   (''summary'', PStr (take 100 (str_of (dict_get args ''summary''))))])
                            (dict_get args ''reason'') PNone of
                       Inl e \<Rightarrow> (Inl e, c1)
                     | Inr c2 \<Rightarrow>
                         (Inr [(''status'', PStr ''logged''), (''id'', col ''id'' row),
                               (''type'', dict_get args ''type''),
                               (''contact_id'', contact_id)],
                          commit c2)))))"

definition add_task :: "crm_env \<Rightarrow> pydict \<Rightarrow> database \<Rightarrow> (py_error + pydict) \<times> conn" where
  "add_task env args db =
     (let c = get_db db;
          contact_id = resolve_contact c (dict_get args ''contact'')
      in case parse_date_arg env (dict_get args ''due'') of
           Inl e \<Rightarrow> (Inl e, c)
         | Inr due \<Rightarrow>
            (case execute env
                    (insert_row Tasks
                       (new_row env
                          [(''contact_id'', contact_id), (''deal_id'', dict_get args ''deal''),
                           (''title'', dict_get args ''title''), (''due_at'', due),
                           (''priority'', py_or (dict_get args ''priority'') (PStr ''normal''))]
                          (task_defaults env))) c of
               Inl e \<Rightarrow> (Inl e, c)
             | Inr c1 \<Rightarrow>
                (case row_by_rowid (working c1 Tasks) (fst (last (working c1 Tasks))) of
                   None \<Rightarrow> (Inl TypeError, c1)
                 | Some row \<Rightarrow>
                    (case audit_log env c1 ''tasks'' (col ''id'' row) ''INSERT'' None
                            (Some [(''title'', dict_get args ''title''), (''due'', due)])
                            (dict_get args ''reason'') PNone of
                       Inl e \<Rightarrow> (Inl e, c1)
                     | Inr c2 \<Rightarrow>
                         (Inr [(''status'', PStr ''created''), (''id'', col ''id'' row),
                               (''title'', dict_get args ''title''), (''due_at'', due)],
                          commit c2)))))"

definition complete_task :: "crm_env \<Rightarrow> pydict \<Rightarrow> database \<Rightarrow> (py_error + pydict) \<times> conn" where
  "complete_task env args db =
     (let c = get_db db
      in case find_by_id_or_label (working c Tasks) ''title'' (dict_get args ''id'') of
           None \<Rightarrow>
             (Inl (SystemExit [(''error'', PStr (''Task not found: '' @ str_of (dict_get args ''id'')))]), c)
         | Some row \<Rightarrow>
            (let old = row;
                 now = PStr (isoformat (now_at env 0))
             in case execute env (update_rows Tasks (col ''id'' row) [(''completed_at'', now)]) c of
                  Inl e \<Rightarrow> (Inl e, c)
                | Inr c1 \<Rightarrow>
                   (case audit_log env c1 ''tasks'' (col ''id'' row) ''UPDATE'' (Some old)
                           (Some [(''completed_at'', now)]) (dict_get args ''reason'') PNone of
                      Inl e \<Rightarrow> (Inl e, c1)
                    | Inr c2 \<Rightarrow>
                        (Inr [(''status'', PStr ''completed''), (''id'', col ''id'' row),
                              (''title'', col ''title'' row)],
                         commit c2))))"

subsection \<open>The mutating commands of \<open>main\<close>\<close>

datatype command =
    AddContact | UpdateContact | DeleteContact | AddDeal | UpdateDeal
  | LogInteraction | AddTask | CompleteTask

definition run :: "crm_env \<Rightarrow> command \<Rightarrow> pydict \<Rightarrow> database \<Rightarrow> (py_error + pydict) \<times> conn" where
  \<comment> \<open>\<open>args.func(args)\<close>\<close>
  "run env cmd args db =
     (case cmd of
        AddContact \<Rightarrow> add_contact env args db
      | UpdateContact \<Rightarrow> update_contact env args db
      | DeleteContact \<Rightarrow> delete_contact env args db
      | AddDeal \<Rightarrow> add_deal env args db
      | UpdateDeal \<Rightarrow> update_deal env args db
      | LogInteraction \<Rightarrow> log_interaction env args db
      | AddTask \<Rightarrow> add_task env args db
      | CompleteTask \<Rightarrow> complete_task env args db)"

section \<open>Notions used to state the properties\<close>

text \<open>
  A reference instant in the afternoon of 27 February of a leap year, for worked instances
  of the temporal resolver.
\<close>

definition T_example :: datetime where
  "T_example = \<lparr>year = 2024, month = 2, day = 27, hour = 13, minute = 45, second = 10,
                 microsecond = 500\<rparr>"

subsection \<open>Backups\<close>

definition safety_path :: "settings \<Rightarrow> path" where
  \<comment> \<open>where \<open>backup_database\<close> writes at the instant \<open>clock cfg\<close>\<close>
  "safety_path cfg = new_backup_path cfg (strftime_stamp (clock cfg))"

definition live_content :: "settings \<Rightarrow> world \<Rightarrow> content option" where
  "live_content cfg w = map_option content (map_of (files w) (DB_PATH cfg))"

definition writes_live :: "settings \<Rightarrow> event \<Rightarrow> bool" where
  \<comment> \<open>the effect is on the file of the live store\<close>
  "writes_live cfg ev = (case ev of Wrote p f \<Rightarrow> p = DB_PATH cfg | Unlinked p \<Rightarrow> p = DB_PATH cfg)"

definition note_of :: "backup_info \<Rightarrow> path" where
  "note_of b = path b @ ''.note''"

definition deletable :: "world \<Rightarrow> backup_info \<Rightarrow> bool" where
  \<comment> \<open>neither the backup nor its note, if it has one, resists deletion\<close>
  "deletable w b = (\<not> protected w (path b)
                    \<and> (path_exists w (note_of b) \<longrightarrow> \<not> protected w (note_of b)))"

definition unlinked_by :: "world \<Rightarrow> backup_info \<Rightarrow> path \<Rightarrow> bool" where
  \<comment> \<open>the loop's turn for \<open>b\<close> unlinks the path \<open>q\<close>, if it is there\<close>
  "unlinked_by w b q = (\<not> protected w (path b)
                        \<and> (q = path b \<or> (q = note_of b \<and> \<not> protected w (note_of b))))"

text \<open>
  A store with five backups, two of them with a note, in a directory order that is not
  the order of their timestamps; and a store without a live database whose only backup
  is not a database file.
\<close>

definition stamp_example :: datetime where
  "stamp_example = \<lparr>year = 2024, month = 3, day = 1, hour = 9, minute = 30, second = 0,
                     microsecond = 0\<rparr>"

definition cfg_example :: settings where
  "cfg_example = \<lparr>DB_PATH = ''/data/crm.db'', BACKUP_DIR = ''/data/backups'',
                   clock = stamp_example\<rparr>"

definition db_file :: "string \<Rightarrow> stored_file" where
  "db_file d = \<lparr>content = SqliteDb True d, mtime = stamp_example\<rparr>"

definition note_file :: "string \<Rightarrow> stored_file" where
  "note_file d = \<lparr>content = Raw d, mtime = stamp_example\<rparr>"

definition world5 :: world where
  "world5 = \<lparr>files =
      [(''/data/crm.db'', db_file ''live''),
       (''/data/backups/crm_backup_20240103_120000.db'', db_file ''day 3''),
       (''/data/backups/crm_backup_20240101_120000.db'', db_file ''day 1''),
       (''/data/backups/crm_backup_20240101_120000.db.note'', note_file ''first''),
       (''/data/backups/crm_backup_20240105_120000.db'', db_file ''day 5''),
       (''/data/backups/crm_backup_20240105_120000.db.note'', note_file ''latest''),
       (''/data/backups/crm_backup_20240102_120000.db'', db_file ''day 2''),
       (''/data/backups/crm_backup_20240104_120000.db'', db_file ''day 4'')],
     protected = (\<lambda>_. False), events = []\<rparr>"

definition bk :: "string \<Rightarrow> string \<Rightarrow> backup_info" where
  "bk stamp t = \<lparr>path = ''/data/backups/crm_backup_'' @ stamp @ ''.db'',
                 filename = ''crm_backup_'' @ stamp @ ''.db'', created_at = t\<rparr>"

definition jan :: "int \<Rightarrow> datetime" where
  "jan d = \<lparr>year = 2024, month = 1, day = d, hour = 12, minute = 0, second = 0,
             microsecond = 0\<rparr>"

definition world_no_live :: world where
  "world_no_live =
     \<lparr>files = [(''/data/backups/crm_backup_20240101_120000.db'', note_file ''not a database'')],
      protected = (\<lambda>_. False), events = []\<rparr>"

definition world_fresh :: world where
  "world_fresh =
     \<lparr>files = [(''/data/backups/crm_backup_20240101_120000.db'', db_file ''day 1'')],
      protected = (\<lambda>_. False), events = []\<rparr>"

text \<open>
  The store with five backups after the file of the safety backup is created, after the
  safety backup, after its note, and after the restore of the oldest backup, at the
  instant \<open>stamp_example\<close>.
\<close>

definition empty_file :: stored_file where
  "empty_file = \<lparr>content = SqliteDb False [], mtime = stamp_example\<rparr>"

definition world5_connected :: world where
  "world5_connected =
     world5\<lparr>files := files world5 @
                [(''/data/backups/crm_backup_20240301_093000.db'', empty_file)],
              events := [Wrote ''/data/backups/crm_backup_20240301_093000.db'' empty_file]\<rparr>"

definition world5_backed :: world where
  "world5_backed =
     world5\<lparr>files := files world5 @
                [(''/data/backups/crm_backup_20240301_093000.db'', db_file ''live'')],
              events := [Wrote ''/data/backups/crm_backup_20240301_093000.db'' empty_file,
                         Wrote ''/data/backups/crm_backup_20240301_093000.db'' (db_file ''live'')]\<rparr>"

definition world5_noted :: world where
  "world5_noted =
     world5\<lparr>files := files world5 @
                [(''/data/backups/crm_backup_20240301_093000.db'', db_file ''live''),
                 (''/data/backups/crm_backup_20240301_093000.db.note'',
                  note_file ''Pre-restore safety backup'')],
              events := [Wrote ''/data/backups/crm_backup_20240301_093000.db'' empty_file,
                         Wrote ''/data/backups/crm_backup_20240301_093000.db'' (db_file ''live''),
                         Wrote ''/data/backups/crm_backup_20240301_093000.db.note''
                           (note_file ''Pre-restore safety backup'')]\<rparr>"

definition world5_restored :: world where
  "world5_restored =
     world5\<lparr>files := (''/data/crm.db'', db_file ''day 1'') # tl (files world5) @
                [(''/data/backups/crm_backup_20240301_093000.db'', db_file ''live''),
                 (''/data/backups/crm_backup_20240301_093000.db.note'',
                  note_file ''Pre-restore safety backup'')],
              events := [Wrote ''/data/backups/crm_backup_20240301_093000.db'' empty_file,
                         Wrote ''/data/backups/crm_backup_20240301_093000.db'' (db_file ''live''),
                         Wrote ''/data/backups/crm_backup_20240301_093000.db.note''
                           (note_file ''Pre-restore safety backup''),
                         Wrote ''/data/crm.db'' (db_file ''day 1'')]\<rparr>"

text \<open>
  A store whose live file is not a database, before and after a confirmed restore of its
  only backup is attempted.
\<close>

definition world_junk :: world where
  "world_junk =
     \<lparr>files = [(''/data/crm.db'', note_file ''junk''),
               (''/data/backups/crm_backup_20240101_120000.db'', db_file ''day 1'')],
      protected = (\<lambda>_. False), events = []\<rparr>"

definition world_junk_aborted :: world where
  "world_junk_aborted =
     world_junk\<lparr>files := files world_junk @
                    [(''/data/backups/crm_backup_20240301_093000.db'', empty_file)],
                  events := [Wrote ''/data/backups/crm_backup_20240301_093000.db'' empty_file]\<rparr>"

subsection \<open>The database commands\<close>

definition env_example :: crm_env where
  "env_example = \<lparr>now_at = (\<lambda>_. T_example), fresh_id = ''d1'', sql_now = ''2024-02-27 13:45:10'',
     integrity = (\<lambda>_. True), on_delete = NoAction\<rparr>"

definition empty_db :: database where
  "empty_db = (\<lambda>_. [])"

text \<open>
  Two contacts whose names both contain \<open>bob\<close>, the one stored first being the one
  updated longer ago; and two contacts of which the first has in its name the identity of
  the second.
\<close>

definition bob_old :: row where
  "bob_old = [(''id'', PStr ''c1''), (''name'', PStr ''Bob Smith''), (''email'', PNone),
              (''created_at'', PStr ''2024-01-05 10:00:00''),
              (''updated_at'', PStr ''2024-01-05 10:00:00'')]"

definition bob_new :: row where
  "bob_new = [(''id'', PStr ''c2''), (''name'', PStr ''Bob Jones''), (''email'', PNone),
              (''created_at'', PStr ''2024-06-01 10:00:00''),
              (''updated_at'', PStr ''2024-06-01 10:00:00'')]"

definition two_bobs :: database where
  "two_bobs = empty_db(Contacts := [(1, bob_old), (2, bob_new)])"

definition studio :: row where
  "studio = [(''id'', PStr ''7f''), (''name'', PStr ''Studio e4''), (''email'', PNone),
             (''created_at'', PStr ''2024-01-05 10:00:00''),
             (''updated_at'', PStr ''2024-01-05 10:00:00'')]"

definition ann :: row where
  "ann = [(''id'', PStr ''e4''), (''name'', PStr ''Ann''), (''email'', PNone),
          (''created_at'', PStr ''2024-01-06 10:00:00''),
          (''updated_at'', PStr ''2024-01-06 10:00:00'')]"

definition id_in_name :: database where
  "id_in_name = empty_db(Contacts := [(1, studio), (2, ann)])"

text \<open>
  What a command is expected to record: the name of the table it changes, as the audit
  trail writes it, the action, and the change itself to the rows of that table,
  \<open>rid\<close> being the identity of the record.
\<close>

definition entity_table :: "command \<Rightarrow> tname" where
  "entity_table cmd =
     (case cmd of
        AddContact \<Rightarrow> Contacts | UpdateContact \<Rightarrow> Contacts | DeleteContact \<Rightarrow> Contacts
      | AddDeal \<Rightarrow> Deals | UpdateDeal \<Rightarrow> Deals
      | LogInteraction \<Rightarrow> Interactions
      | AddTask \<Rightarrow> Tasks | CompleteTask \<Rightarrow> Tasks)"

definition audit_table :: "command \<Rightarrow> string" where
  "audit_table cmd =
     (case entity_table cmd of
        Contacts \<Rightarrow> ''contacts'' | Deals \<Rightarrow> ''deals'' | Interactions \<Rightarrow> ''interactions''
      | Tasks \<Rightarrow> ''tasks'' | AuditLog \<Rightarrow> ''audit_log'')"

definition audit_action :: "command \<Rightarrow> string" where
  "audit_action cmd =
     (case cmd of
        AddContact \<Rightarrow> ''INSERT'' | AddDeal \<Rightarrow> ''INSERT'' | LogInteraction \<Rightarrow> ''INSERT''
      | AddTask \<Rightarrow> ''INSERT''
      | UpdateContact \<Rightarrow> ''UPDATE'' | UpdateDeal \<Rightarrow> ''UPDATE'' | CompleteTask \<Rightarrow> ''UPDATE''
      | DeleteContact \<Rightarrow> ''DELETE'')"

definition has_id :: "pyval \<Rightarrow> nat \<times> row \<Rightarrow> bool" where
  "has_id rid nr = sql_eq (col ''id'' (snd nr)) rid"

definition row_updated :: "pydict \<Rightarrow> row \<Rightarrow> row \<Rightarrow> bool" where
  \<comment> \<open>\<open>r'\<close> is \<open>r\<close> with the columns of \<open>ups\<close> set to their values, the later
      assignment of a column counting; \<open>updated_at\<close>, when \<open>ups\<close> has none, may be
      refreshed, and every other column is kept\<close>
  "row_updated ups r r' =
     list_all (\<lambda>k. (k = ''updated_at'' \<and> \<not> has_key k ups)
                    \<or> col k r' = (case map_of (rev ups) k of Some v \<Rightarrow> v | None \<Rightarrow> col k r))
       (map fst r @ map fst ups @ map fst r')"

definition mutation :: "string \<Rightarrow> pyval \<Rightarrow> pyval \<Rightarrow> table \<Rightarrow> table \<Rightarrow> bool" where
  \<comment> \<open>\<open>new\<close> is the entry \<open>new_values\<close> of the audit row\<close>
  "mutation action rid new before after =
     (if action = ''INSERT''
      then (\<exists>n r. after = before @ [(n, r)] \<and> col ''id'' r = rid)
      else if action = ''UPDATE''
      then (\<exists>nr\<in>set before. has_id rid nr)
           \<and> (case new of
                 PDict ups \<Rightarrow>
                   ups \<noteq> [] \<and> map fst after = map fst before
                   \<and> list_all2 (\<lambda>nr nr'. if has_id rid nr
                                           then row_updated ups (snd nr) (snd nr')
                                           else snd nr' = snd nr) before after
               | _ \<Rightarrow> False)
      else (\<exists>nr\<in>set before. has_id rid nr)
           \<and> after = filter (\<lambda>nr. \<not> has_id rid nr) before)"

definition elsewhere :: "crm_env \<Rightarrow> command \<Rightarrow> pyval \<Rightarrow> table \<Rightarrow> table" where
  \<comment> \<open>what becomes of a table that is neither the command's own nor the audit trail: the
      deletion of a contact takes the schema's referential action on the rows that refer to
      it, and nothing else changes\<close>
  "elsewhere env cmd rid t = (if cmd = DeleteContact then detach (on_delete env) rid t else t)"

definition audited :: "crm_env \<Rightarrow> command \<Rightarrow> database \<Rightarrow> database \<Rightarrow> bool" where
  \<comment> \<open>from \<open>db\<close> to \<open>db'\<close>: exactly one new audit entry, it names the change made, that
      change is made, and no other\<close>
  "audited env cmd db db' =
     (\<exists>n e. db' AuditLog = db AuditLog @ [(n, e)]
        \<and> col ''table_name'' e = PStr (audit_table cmd)
        \<and> col ''action'' e = PStr (audit_action cmd)
        \<and> mutation (audit_action cmd) (col ''record_id'' e) (col ''new_values'' e)
             (db (entity_table cmd)) (db' (entity_table cmd))
        \<and> list_all (\<lambda>tn. tn = entity_table cmd
                          \<or> db' tn = elsewhere env cmd (col ''record_id'' e) (db tn))
             [Contacts, Deals, Interactions, Tasks])"

definition ids_present :: "database \<Rightarrow> bool" where
  \<comment> \<open>every stored contact, deal, interaction and task has an identity\<close>
  "ids_present db =
     (\<forall>tn. tn \<noteq> AuditLog \<longrightarrow> (\<forall>nr\<in>set (db tn). col ''id'' (snd nr) \<noteq> PNone))"

definition outcome_ok ::
  "crm_env \<Rightarrow> command \<Rightarrow> database \<Rightarrow> (py_error + pydict) \<times> conn \<Rightarrow> bool" where
  \<comment> \<open>a command that succeeds commits its change and one audit entry together; one that
      fails commits nothing; either way the stored records keep an identity\<close>
  "outcome_ok env cmd db rc =
     ((case fst rc of
         Inr out \<Rightarrow> audited env cmd db (committed (snd rc))
                    \<and> (\<forall>s\<in>set (observed (snd rc)). s = db \<or> s = committed (snd rc))
       | Inl e \<Rightarrow> committed (snd rc) = db \<and> (\<forall>s\<in>set (observed (snd rc)). s = db))
      \<and> (ids_present db \<longrightarrow> ids_present (committed (snd rc))))"

text \<open>
  Deals and their closing time. A history is a run of \<open>add_deal\<close> and \<open>update_deal\<close>
  from a database without deals in which no deal is created in a terminal stage and no
  update gives a non-terminal stage to a deal that is won or lost.
\<close>

definition closed_at_of :: "nat \<times> row \<Rightarrow> pyval" where
  "closed_at_of nr = col ''closed_at'' (snd nr)"

definition stage_of :: "nat \<times> row \<Rightarrow> pyval" where
  "stage_of nr = col ''stage'' (snd nr)"

definition closed_iff_terminal :: "database \<Rightarrow> bool" where
  "closed_iff_terminal db =
     (\<forall>nr\<in>set (db Deals). (closed_at_of nr \<noteq> PNone) = terminal (stage_of nr))"

definition reopens :: "pydict \<Rightarrow> database \<Rightarrow> bool" where
  "reopens args db =
     (dict_get args ''stage'' \<noteq> PNone \<and> \<not> terminal (dict_get args ''stage'')
      \<and> (case find_by_id_or_label (db Deals) ''title'' (dict_get args ''id'') of
            None \<Rightarrow> False
          | Some row \<Rightarrow> (\<exists>nr\<in>set (db Deals). has_id (col ''id'' row) nr \<and> terminal (stage_of nr))))"

inductive deal_history :: "database \<Rightarrow> bool" where
  start: "db Deals = [] \<Longrightarrow> deal_history db"
| add: "deal_history db \<Longrightarrow> add_deal env args db = (Inr out, c)
        \<Longrightarrow> \<not> terminal (py_or (dict_get args ''stage'') (PStr ''lead''))
        \<Longrightarrow> deal_history (committed c)"
| update: "deal_history db \<Longrightarrow> update_deal env args db = (Inr out, c)
        \<Longrightarrow> \<not> reopens args db
        \<Longrightarrow> deal_history (committed c)"

text \<open>
  A deal created as a lead, then won, then moved back to a lead; and a deal created as
  won.
\<close>

definition deal_row :: "string \<Rightarrow> pyval \<Rightarrow> string \<Rightarrow> row" where
  "deal_row stg cl upd =
     [(''id'', PStr ''d1''), (''contact_id'', PNone), (''title'', PStr ''Big deal''),
      (''value'', PFloat 1000), (''currency'', PStr ''USD''), (''stage'', PStr stg),
      (''probability'', PNone), (''expected_close'', PNone), (''notes'', PNone),
      (''closed_at'', cl), (''created_at'', PStr ''2024-02-27 13:45:10''),
      (''updated_at'', PStr upd)]"

definition audit_row :: "string \<Rightarrow> pyval \<Rightarrow> pyval \<Rightarrow> row" where
  "audit_row act ov nv =
     [(''table_name'', PStr ''deals''), (''record_id'', PStr ''d1''), (''action'', PStr act),
      (''old_values'', ov), (''new_values'', nv), (''reason'', PNone),
      (''conversation_ref'', PNone), (''created_at'', PStr ''2024-02-27 13:45:10'')]"

definition args_lead :: pydict where
  "args_lead = [(''title'', PStr ''Big deal''), (''value'', PFloat 1000), (''stage'', PStr ''lead''),
                (''currency'', PStr ''USD'')]"

definition args_won :: pydict where
  "args_won = [(''title'', PStr ''Big deal''), (''value'', PFloat 1000), (''stage'', PStr ''won''),
               (''currency'', PStr ''USD'')]"

definition db_lead :: database where
  "db_lead = empty_db
     (Deals := [(1, deal_row ''lead'' PNone ''2024-02-27 13:45:10'')],
      AuditLog := [(1, audit_row ''INSERT'' PNone
                         (PDict [(''title'', PStr ''Big deal''), (''value'', PFloat 1000),
                                 (''stage'', PStr ''lead'')]))])"

definition db_won :: database where
  "db_won = db_lead
     (Deals := [(1, deal_row ''won'' (PStr ''2024-02-27T13:45:10.000500'')
                      ''2024-02-27T13:45:10.000500'')],
      AuditLog := db_lead AuditLog @
                  [(2, audit_row ''UPDATE''
                         (PDict (deal_row ''lead'' PNone ''2024-02-27 13:45:10''))
                         (PDict [(''stage'', PStr ''won''),
                                 (''closed_at'', PStr ''2024-02-27T13:45:10.000500'')]))])"

definition db_reopened :: database where
  "db_reopened = db_won
     (Deals := [(1, deal_row ''lead'' (PStr ''2024-02-27T13:45:10.000500'')
                      ''2024-02-27T13:45:10.000500'')],
      AuditLog := db_won AuditLog @
                  [(3, audit_row ''UPDATE''
                         (PDict (deal_row ''won'' (PStr ''2024-02-27T13:45:10.000500'')
                                   ''2024-02-27T13:45:10.000500''))
                         (PDict [(''stage'', PStr ''lead'')]))])"

definition db_created_won :: database where
  "db_created_won = empty_db
     (Deals := [(1, deal_row ''won'' PNone ''2024-02-27 13:45:10'')],
      AuditLog := [(1, audit_row ''INSERT'' PNone
                         (PDict [(''title'', PStr ''Big deal''), (''value'', PFloat 1000),
                                 (''stage'', PStr ''won'')]))])"

section \<open>Properties of the temporal resolver\<close>

lemma strip_lower_today: "strip (lower ''today'') = ''today''"
  by code_simp

lemma strip_lower_in_3_days: "strip (lower ''in 3 days'') = ''in 3 days''"
  by code_simp

lemma in_n_match_in_3_days: "in_n_match ''in 3 days'' = Some (''3'', ''day'')"
  by code_simp

lemma int_of_digits_3: "int_of_digits ''3'' = 3"
  by code_simp

lemma next_unit_in_3_days: "next_unit ''in 3 days'' t = None"
  by (simp add: next_unit_def startswith_def)

lemma parse_date_today: "parse_date ''today'' T = Inr (Some (isoformat (midnight T)))"
  by (simp add: parse_date_def strip_lower_today)

lemma parse_date_in_3_days: "parse_date ''in 3 days'' T = iso_result (add_days (midnight T) 3)"
  by (simp add: parse_date_def strip_lower_in_3_days next_unit_in_3_days in_n_units_def
      in_n_match_in_3_days int_of_digits_3)

lemma midnight_time_irrelevant:
  "midnight (T\<lparr>hour := h, minute := m, second := s, microsecond := u\<rparr>) = midnight T"
  by (simp add: midnight_def)

lemma isoformat_midnight_example: "isoformat (midnight T_example) = ''2024-02-27T00:00:00''"
  by (simp add: isoformat_def midnight_def T_example_def zfill_def digit_char_def upt_rec)

lemma add_days_example:
  "add_days (midnight T_example) 3
     = Inr \<lparr>year = 2024, month = 3, day = 1, hour = 0, minute = 0, second = 0, microsecond = 0\<rparr>"
  by (simp add: add_days_def midnight_def T_example_def toordinal_def ymd2ord_def
      days_before_year_def days_before_month_def DAYS_BEFORE_MONTH_def is_leap_def
      MAXORDINAL_def ord2ymd_def Let_def DAYS_IN_MONTH_def)

lemma parse_date_today_example: "parse_date ''today'' T_example = Inr (Some ''2024-02-27T00:00:00'')"
  by (simp add: parse_date_today isoformat_midnight_example)

lemma parse_date_in_3_days_example:
  "parse_date ''in 3 days'' T_example = Inr (Some ''2024-03-01T00:00:00'')"
  by (simp add: parse_date_in_3_days add_days_example iso_result_def)
    (simp add: isoformat_def zfill_def digit_char_def upt_rec)

text \<open>
  Claim C5. The resolver is a function of the expression and the reference instant alone.
  \<open>today\<close> resolves to midnight of the reference instant's calendar day, whatever the
  instant's time of day, and \<open>in 3 days\<close> resolves to that midnight plus three days
  (both sides raise \<open>OverflowError\<close> together when the sum leaves the calendar).
\<close>

theorem parse_date_deterministic_today_in_3_days:
  "(s = s' \<and> T = T' \<longrightarrow> parse_date s T = parse_date s' T')
   \<and> parse_date ''today'' T = Inr (Some (isoformat (midnight T)))
   \<and> parse_date ''today'' (T\<lparr>hour := h, minute := m, second := sec, microsecond := u\<rparr>)
       = parse_date ''today'' T
   \<and> hour (midnight T) = 0 \<and> minute (midnight T) = 0 \<and> second (midnight T) = 0
   \<and> microsecond (midnight T) = 0
   \<and> year (midnight T) = year T \<and> month (midnight T) = month T \<and> day (midnight T) = day T
   \<and> parse_date ''in 3 days'' T = iso_result (add_days (midnight T) 3)"
  by (simp add: parse_date_today parse_date_in_3_days midnight_time_irrelevant)
    (simp add: midnight_def)

theorem parse_date_deterministic_today_in_3_days_witness:
  "parse_date ''today'' T_example = parse_date ''today'' T_example
   \<and> parse_date ''today'' T_example = Inr (Some ''2024-02-27T00:00:00'')
   \<and> parse_date ''in 3 days'' T_example = Inr (Some ''2024-03-01T00:00:00'')"
  using parse_date_deterministic_today_in_3_days
    [of "''today''" "''today''" T_example T_example 0 0 0 0]
  by (simp add: parse_date_today_example parse_date_in_3_days_example)

text \<open>
  Claim C4. An expression that matches no pattern comes back lower-cased and stripped,
  not as it was given: the fall-through returns the normalised local \<open>s\<close>.
\<close>

lemma strip_lower_ASAP: "strip (lower ''ASAP'') = ''asap''"
  by code_simp

lemma next_unit_asap: "next_unit ''asap'' t = None"
  by (simp add: next_unit_def startswith_def)

lemma in_n_units_asap: "in_n_units ''asap'' t = None"
  by (simp add: in_n_units_def in_n_match_def startswith_def)

lemma day_name_asap: "day_name ''asap'' t = None"
  by (simp add: day_name_def startswith_def days_def)

lemma strptime_asap: "list_all (\<lambda>f. strptime ''asap'' f = Inl ValueError) date_formats"
  by code_simp

lemma try_formats_asap: "try_formats ''asap'' t date_formats = None"
  using strptime_asap by (simp add: date_formats_def try_format_def)

theorem parse_date_unparseable_is_normalised:
  "parse_date ''ASAP'' T = Inr (Some ''asap'') \<and> ''asap'' \<noteq> ''ASAP''"
  by (simp add: parse_date_def strip_lower_ASAP next_unit_asap in_n_units_asap day_name_asap
      try_formats_asap)

section \<open>Properties of the backup manager\<close>

subsection \<open>Restore without confirmation\<close>

text \<open>
  Claim C6. For an existing backup path, \<open>restore_database\<close> without the confirmation
  flag returns the confirmation-required dictionary, with the backup path and the path
  of the current database, and leaves the whole file system as it was: no file is
  changed and no effect is recorded.
\<close>

theorem restore_without_confirm_is_noop:
  assumes "path_exists w backup_path"
  shows "restore_database cfg w backup_path False =
           (w, Inr [(''status'', PStr ''confirmation_required''),
                    (''message'', PStr ''This will overwrite the current database. Pass --confirm to proceed.''),
                    (''backup_path'', PStr backup_path),
                    (''current_db'', PStr (DB_PATH cfg))])"
  using assms by (simp add: restore_database_def)

lemma path_exists_world5_newest:
  "path_exists world5 ''/data/backups/crm_backup_20240105_120000.db''"
  by (simp add: path_exists_def world5_def)

theorem restore_without_confirm_is_noop_witness:
  "path_exists world5 ''/data/backups/crm_backup_20240105_120000.db''
   \<and> restore_database cfg_example world5 ''/data/backups/crm_backup_20240105_120000.db'' False =
           (world5, Inr [(''status'', PStr ''confirmation_required''),
                    (''message'', PStr ''This will overwrite the current database. Pass --confirm to proceed.''),
                    (''backup_path'', PStr ''/data/backups/crm_backup_20240105_120000.db''),
                    (''current_db'', PStr ''/data/crm.db'')])"
  using restore_without_confirm_is_noop [OF path_exists_world5_newest, of cfg_example]
  by (simp add: path_exists_world5_newest cfg_example_def)

subsection \<open>Confirmed restore over a live store\<close>

lemma sqlite_connect_cases:
  assumes "sqlite_connect cfg w p = Inr w0"
  shows "w0 = w
       \<or> w0 = w\<lparr>files := AList.update p \<lparr>content = SqliteDb False [], mtime = clock cfg\<rparr> (files w),
                 events := events w @ [Wrote p \<lparr>content = SqliteDb False [], mtime = clock cfg\<rparr>]\<rparr>"
  using assms by (auto simp: sqlite_connect_def write_file_def split: if_splits)

lemma sqlite_backup_cases:
  assumes "sqlite_backup cfg w src dst = Inr w1"
  shows "\<exists>c. map_option content (map_of (files w) src) = Some c
            \<and> w1 = w\<lparr>files := AList.update dst \<lparr>content = c, mtime = clock cfg\<rparr> (files w),
                      events := events w @ [Wrote dst \<lparr>content = c, mtime = clock cfg\<rparr>]\<rparr>"
  using assms
  by (auto simp: sqlite_backup_def write_file_def split: option.splits content.splits if_splits)

lemma not_writes_live: "p \<noteq> DB_PATH cfg \<Longrightarrow> \<not> writes_live cfg (Wrote p f)"
  by (simp add: writes_live_def)

lemma backup_database_shape:
  assumes ex: "path_exists w (DB_PATH cfg)" and ne: "safety_path cfg \<noteq> DB_PATH cfg"
    and b: "backup_database cfg w note = (w1, out)"
  shows "\<exists>pre. (\<forall>ev\<in>set pre. \<not> writes_live cfg ev)
          \<and> ((\<exists>e. out = Inl e) \<and> events w1 = events w @ pre
                \<and> map_of (files w1) (DB_PATH cfg) = map_of (files w) (DB_PATH cfg)
              \<or> (\<exists>d. out = Inr d \<and> \<not> has_key ''error'' d)
                \<and> (\<exists>g rest. events w1 = events w @ pre @ Wrote (safety_path cfg) g # rest
                       \<and> Some (content g) = live_content cfg w))"
proof (cases "sqlite_connect cfg w (safety_path cfg)")
  case (Inl e)
  then have "(w1, out) = (w, Inl e)"
    using ex b by (simp add: backup_database_def safety_path_def Let_def)
  then show ?thesis by (intro exI[of _ "[]"]) simp
next
  case c: (Inr w0)
  from sqlite_connect_cases[OF c] obtain pre0 where
    ev0: "events w0 = events w @ pre0" and pre0: "\<forall>ev\<in>set pre0. \<not> writes_live cfg ev"
    and f0: "map_of (files w0) (DB_PATH cfg) = map_of (files w) (DB_PATH cfg)"
  proof
    assume "w0 = w"
    then show ?thesis by (intro that[of "[]"]) simp_all
  next
    assume w0: "w0 = w\<lparr>files := AList.update (safety_path cfg)
                            \<lparr>content = SqliteDb False [], mtime = clock cfg\<rparr> (files w),
                 events := events w @ [Wrote (safety_path cfg)
                            \<lparr>content = SqliteDb False [], mtime = clock cfg\<rparr>]\<rparr>"
    show ?thesis
    proof (rule that)
      show "events w0 = events w @ [Wrote (safety_path cfg)
                            \<lparr>content = SqliteDb False [], mtime = clock cfg\<rparr>]"
        by (simp add: w0)
      show "\<forall>ev\<in>set [Wrote (safety_path cfg)
                            \<lparr>content = SqliteDb False [], mtime = clock cfg\<rparr>]. \<not> writes_live cfg ev"
        using ne by (simp add: not_writes_live)
      show "map_of (files w0) (DB_PATH cfg) = map_of (files w) (DB_PATH cfg)"
        using ne by (simp add: w0 update_conv')
    qed
  qed
  show ?thesis
  proof (cases "sqlite_backup cfg w0 (DB_PATH cfg) (safety_path cfg)")
    case (Inl e)
    then have "(w1, out) = (w0, Inl e)"
      using ex b c by (simp add: backup_database_def safety_path_def Let_def)
    then show ?thesis
      using ev0 pre0 f0 by (intro exI[of _ pre0]) simp
  next
    case bk: (Inr w1')
    from sqlite_backup_cases[OF bk] obtain cnt where
      cnt: "map_option content (map_of (files w0) (DB_PATH cfg)) = Some cnt"
      and w1': "w1' = w0\<lparr>files := AList.update (safety_path cfg) \<lparr>content = cnt, mtime = clock cfg\<rparr>
                                  (files w0),
                  events := events w0 @ [Wrote (safety_path cfg) \<lparr>content = cnt, mtime = clock cfg\<rparr>]\<rparr>"
      by blast
    let ?g = "\<lparr>content = cnt, mtime = clock cfg\<rparr>"
    have lc: "Some (content ?g) = live_content cfg w"
      using cnt f0 by (auto simp: live_content_def)
    have ev1: "events w1' = events w @ pre0 @ [Wrote (safety_path cfg) ?g]"
      by (simp add: w1' ev0)
    have f1: "map_of (files w1') (DB_PATH cfg) = map_of (files w) (DB_PATH cfg)"
      using ne f0 by (simp add: w1' update_conv')
    have out: "(w1, out) =
       (case note of
          None \<Rightarrow> (w1', Inr [(''status'', PStr ''success''), (''path'', PStr (safety_path cfg)),
                            (''timestamp'', PStr (strftime_stamp (clock cfg)))])
        | Some n \<Rightarrow>
            if n = []
            then (w1', Inr [(''status'', PStr ''success''), (''path'', PStr (safety_path cfg)),
                           (''timestamp'', PStr (strftime_stamp (clock cfg)))])
            else (case write_file PermissionError w1' (safety_path cfg @ ''.note'')
                         \<lparr>content = Raw n, mtime = clock cfg\<rparr> of
                    Inl e \<Rightarrow> (w1', Inl e)
                  | Inr w2 \<Rightarrow>
                      (w2, Inr ([(''status'', PStr ''success''), (''path'', PStr (safety_path cfg)),
                                 (''timestamp'', PStr (strftime_stamp (clock cfg)))]
                                @ [(''note'', PStr n)]))))"
      using ex b c bk unfolding backup_database_def safety_path_def Let_def by simp
    consider (plain) "w1 = w1'" "\<exists>d. out = Inr d \<and> \<not> has_key ''error'' d"
      | (failed) e where "w1 = w1'" "out = Inl e"
      | (noted) f d where "events w1 = events w1' @ [Wrote (safety_path cfg @ ''.note'') f]"
          "out = Inr d" "\<not> has_key ''error'' d"
      using out
      by (auto simp: has_key_def write_file_def split: option.splits if_splits)
    then show ?thesis
    proof cases
      case plain
      then show ?thesis
        using ev1 pre0 lc by (intro exI[of _ pre0]) auto
    next
      case failed
      have "\<forall>ev\<in>set (pre0 @ [Wrote (safety_path cfg) ?g]). \<not> writes_live cfg ev"
        using pre0 ne by (simp add: not_writes_live)
      then show ?thesis
        using failed ev1 f1 by (intro exI[of _ "pre0 @ [Wrote (safety_path cfg) ?g]"]) simp
    next
      case noted
      then show ?thesis
        using ev1 pre0 lc by (intro exI[of _ pre0]) auto
    qed
  qed
qed

lemma restore_tail_events:
  assumes "restore_tail cfg w1 bp sb = (w', r)"
  shows "events w' = events w1 \<or> (\<exists>f. events w' = events w1 @ [Wrote (DB_PATH cfg) f])"
  using assms
  by (auto simp: restore_tail_def copy2_def write_file_def split: option.splits if_splits sum.splits)

lemma first_write_guard:
  assumes new: "new = pre @ Wrote sp g # rest" and pre: "\<forall>ev\<in>set pre. \<not> writes_live cfg ev"
    and sp: "sp \<noteq> DB_PATH cfg"
  shows "\<forall>i. i < length new \<and> writes_live cfg (new ! i) \<longrightarrow>
              (\<exists>j. j < i \<and> new ! j = Wrote sp g)"
proof (intro allI impI)
  fix i assume a: "i < length new \<and> writes_live cfg (new ! i)"
  have "\<not> i < length pre"
  proof
    assume "i < length pre"
    then have "new ! i \<in> set pre" by (simp add: new nth_append)
    with pre a show False by blast
  qed
  moreover have "i \<noteq> length pre"
  proof
    assume "i = length pre"
    then have "new ! i = Wrote sp g" by (simp add: new)
    with a sp show False by (simp add: writes_live_def)
  qed
  ultimately have "length pre < i" by simp
  moreover have "new ! length pre = Wrote sp g" by (simp add: new)
  ultimately show "\<exists>j. j < i \<and> new ! j = Wrote sp g" by blast
qed

text \<open>
  Claim C7. In a confirmed restore over an existing live store, the file of the safety
  backup being another file than the live store, the effects on files \<open>new\<close> that the run
  adds are such that every effect on the file of the live store comes after a write of the
  safety backup whose content is that of the live store before the run. The only way
  \<open>backup_database\<close> fails here is by an exception, its error result being for a database
  that is not there: then the restore ends with that exception, the file of the live store
  is what it was, and no effect of the run is on it, whatever \<open>backup_database\<close> had
  already created.
\<close>

theorem restore_safety_backup_first:
  assumes "path_exists w backup_path" and "path_exists w (DB_PATH cfg)"
    and "safety_path cfg \<noteq> DB_PATH cfg"
    and "restore_database cfg w backup_path True = (w', r)"
  shows "\<exists>new. events w' = events w @ new
       \<and> (\<forall>i. i < length new \<and> writes_live cfg (new ! i) \<longrightarrow>
              (\<exists>j g. j < i \<and> new ! j = Wrote (safety_path cfg) g
                   \<and> Some (content g) = live_content cfg w))
       \<and> (\<forall>w1 e. backup_database cfg w (Some ''Pre-restore safety backup'') = (w1, Inl e) \<longrightarrow>
              w' = w1 \<and> r = Inl e
              \<and> map_of (files w') (DB_PATH cfg) = map_of (files w) (DB_PATH cfg)
              \<and> (\<forall>ev\<in>set new. \<not> writes_live cfg ev))
       \<and> (\<forall>w1 d. backup_database cfg w (Some ''Pre-restore safety backup'') = (w1, Inr d) \<longrightarrow>
              \<not> has_key ''error'' d)"
proof -
  obtain w1 out where b: "backup_database cfg w (Some ''Pre-restore safety backup'') = (w1, out)"
    by (cases "backup_database cfg w (Some ''Pre-restore safety backup'')") auto
  from backup_database_shape[OF assms(2,3) b] obtain pre where
    pre: "\<forall>ev\<in>set pre. \<not> writes_live cfg ev"
    and shape: "(\<exists>e. out = Inl e) \<and> events w1 = events w @ pre
                \<and> map_of (files w1) (DB_PATH cfg) = map_of (files w) (DB_PATH cfg)
              \<or> (\<exists>d. out = Inr d \<and> \<not> has_key ''error'' d)
                \<and> (\<exists>g rest. events w1 = events w @ pre @ Wrote (safety_path cfg) g # rest
                       \<and> Some (content g) = live_content cfg w)"
    by blast
  have r: "(w', r) = (case out of Inl e \<Rightarrow> (w1, Inl e)
            | Inr safety_backup \<Rightarrow>
                if has_key ''error'' safety_backup
                then (w1, Inr [(''error'', PStr ''Failed to create safety backup''),
                               (''details'', PDict safety_backup)])
                else restore_tail cfg w1 backup_path (Some safety_backup))"
    using assms b by (simp add: restore_database_def split: sum.splits)
  from shape show ?thesis
  proof
    assume f: "(\<exists>e. out = Inl e) \<and> events w1 = events w @ pre
                \<and> map_of (files w1) (DB_PATH cfg) = map_of (files w) (DB_PATH cfg)"
    then obtain e where e: "out = Inl e" by blast
    with r have w': "w' = w1" "r = Inl e" by simp_all
    show ?thesis
    proof (intro exI[of _ pre] conjI allI impI)
      show "events w' = events w @ pre" using f w' by simp
    next
      fix i assume "i < length pre \<and> writes_live cfg (pre ! i)"
      then have False using pre nth_mem by blast
      then show "\<exists>j g. j < i \<and> pre ! j = Wrote (safety_path cfg) g
                   \<and> Some (content g) = live_content cfg w" ..
    next
      fix w1a ea
      assume "backup_database cfg w (Some ''Pre-restore safety backup'') = (w1a, Inl ea)"
      with b e have eq: "w1a = w1" "ea = e" by simp_all
      show "w' = w1a" using eq w' by simp
      show "r = Inl ea" using eq w' by simp
      show "map_of (files w') (DB_PATH cfg) = map_of (files w) (DB_PATH cfg)"
        using f w' by simp
      show "\<forall>ev\<in>set pre. \<not> writes_live cfg ev" by (rule pre)
    next
      fix w1a d
      assume "backup_database cfg w (Some ''Pre-restore safety backup'') = (w1a, Inr d)"
      with b e show "\<not> has_key ''error'' d" by simp
    qed
  next
    assume s: "(\<exists>d. out = Inr d \<and> \<not> has_key ''error'' d)
                \<and> (\<exists>g rest. events w1 = events w @ pre @ Wrote (safety_path cfg) g # rest
                       \<and> Some (content g) = live_content cfg w)"
    then obtain d g rest where d: "out = Inr d" "\<not> has_key ''error'' d"
      and g: "events w1 = events w @ pre @ Wrote (safety_path cfg) g # rest"
        "Some (content g) = live_content cfg w"
      by blast
    from r d have "restore_tail cfg w1 backup_path (Some d) = (w', r)" by simp
    then have "events w' = events w1 \<or> (\<exists>f. events w' = events w1 @ [Wrote (DB_PATH cfg) f])"
      by (rule restore_tail_events)
    then obtain rest' where ev: "events w' = events w @ pre @ Wrote (safety_path cfg) g # rest'"
      using g(1) by auto
    let ?new = "pre @ Wrote (safety_path cfg) g # rest'"
    note guard = first_write_guard[where new = ?new and cfg = cfg, OF refl pre assms(3)]
    show ?thesis
    proof (intro exI[of _ ?new] conjI allI impI)
      show "events w' = events w @ ?new" using ev by simp
    next
      fix i assume "i < length ?new \<and> writes_live cfg (?new ! i)"
      with guard obtain j where "j < i" "?new ! j = Wrote (safety_path cfg) g" by blast
      with g(2) show "\<exists>j g. j < i \<and> ?new ! j = Wrote (safety_path cfg) g
                   \<and> Some (content g) = live_content cfg w" by blast
    next
      fix w1a ea
      assume "backup_database cfg w (Some ''Pre-restore safety backup'') = (w1a, Inl ea)"
      with b d have False by simp
      then show "w' = w1a" "r = Inl ea"
        "map_of (files w') (DB_PATH cfg) = map_of (files w) (DB_PATH cfg)"
        "\<forall>ev\<in>set ?new. \<not> writes_live cfg ev" by blast+
    next
      fix w1a da
      assume "backup_database cfg w (Some ''Pre-restore safety backup'') = (w1a, Inr da)"
      with b d show "\<not> has_key ''error'' da" by simp
    qed
  qed
qed

lemma strftime_stamp_example: "strftime_stamp stamp_example = ''20240301_093000''"
  by (simp add: strftime_stamp_def stamp_example_def zfill_def digit_char_def upt_rec)

lemma safety_path_example: "safety_path cfg_example = ''/data/backups/crm_backup_20240301_093000.db''"
  by (simp add: safety_path_def new_backup_path_def cfg_example_def strftime_stamp_example)

lemma path_exists_world5_live: "path_exists world5 (DB_PATH cfg_example)"
  by (simp add: path_exists_def world5_def cfg_example_def)

lemma cfg_example_simps:
  "DB_PATH cfg_example = ''/data/crm.db''"
  "BACKUP_DIR cfg_example = ''/data/backups''"
  "clock cfg_example = stamp_example"
  by (simp_all add: cfg_example_def)

lemma empty_file_clock: "\<lparr>content = SqliteDb False [], mtime = stamp_example\<rparr> = empty_file"
  by (simp add: empty_file_def)

lemma sqlite_connect_world5:
  "sqlite_connect cfg_example world5 ''/data/backups/crm_backup_20240301_093000.db''
     = Inr world5_connected"
  by (simp add: sqlite_connect_def path_exists_def write_file_def world5_def world5_connected_def
      cfg_example_simps empty_file_clock)

lemma sqlite_backup_world5:
  "sqlite_backup cfg_example world5_connected ''/data/crm.db''
     ''/data/backups/crm_backup_20240301_093000.db'' = Inr world5_backed"
  by (simp add: sqlite_backup_def write_file_def world5_def world5_connected_def world5_backed_def
      db_file_def empty_file_def cfg_example_simps)

lemma write_note_world5:
  "write_file PermissionError world5_backed ''/data/backups/crm_backup_20240301_093000.db.note''
     \<lparr>content = Raw ''Pre-restore safety backup'', mtime = stamp_example\<rparr> = Inr world5_noted"
  by (simp add: write_file_def world5_def world5_backed_def world5_noted_def note_file_def)

lemma backup_database_world5:
  "backup_database cfg_example world5 (Some ''Pre-restore safety backup'') =
     (world5_noted,
      Inr [(''status'', PStr ''success''),
           (''path'', PStr ''/data/backups/crm_backup_20240301_093000.db''),
           (''timestamp'', PStr ''20240301_093000''),
           (''note'', PStr ''Pre-restore safety backup'')])"
  using path_exists_world5_live safety_path_example
  by (simp add: backup_database_def Let_def safety_path_def cfg_example_simps
      strftime_stamp_example sqlite_connect_world5 sqlite_backup_world5 write_note_world5)

lemma copy2_world5:
  "copy2 world5_noted ''/data/backups/crm_backup_20240101_120000.db'' ''/data/crm.db''
     = Inr world5_restored"
  by (simp add: copy2_def write_file_def world5_def world5_noted_def world5_restored_def)

lemma probe_world5: "probe world5_restored ''/data/crm.db'' = None"
  by (simp add: probe_def world5_restored_def db_file_def)

lemma restore_database_world5:
  "restore_database cfg_example world5 ''/data/backups/crm_backup_20240101_120000.db'' True =
     (world5_restored,
      Inr [(''status'', PStr ''success''),
           (''message'', PStr ''Database restored successfully''),
           (''restored_from'', PStr ''/data/backups/crm_backup_20240101_120000.db''),
           (''safety_backup'', PStr ''/data/backups/crm_backup_20240301_093000.db'')])"
proof -
  have ex: "path_exists world5 ''/data/backups/crm_backup_20240101_120000.db''"
    by (simp add: path_exists_def world5_def)
  have ex2: "path_exists world5_restored ''/data/crm.db''"
    by (simp add: path_exists_def world5_restored_def)
  have tail: "restore_tail cfg_example world5_noted ''/data/backups/crm_backup_20240101_120000.db''
      (Some [(''status'', PStr ''success''),
           (''path'', PStr ''/data/backups/crm_backup_20240301_093000.db''),
           (''timestamp'', PStr ''20240301_093000''),
           (''note'', PStr ''Pre-restore safety backup'')])
     = (world5_restored,
      Inr [(''status'', PStr ''success''),
           (''message'', PStr ''Database restored successfully''),
           (''restored_from'', PStr ''/data/backups/crm_backup_20240101_120000.db''),
           (''safety_backup'', PStr ''/data/backups/crm_backup_20240301_093000.db'')])"
    by (simp add: restore_tail_def cfg_example_simps copy2_world5 probe_world5 ex2 dict_get_def)
  show ?thesis
    using ex path_exists_world5_live
    by (simp add: restore_database_def backup_database_world5 has_key_def tail)
qed

lemma path_exists_world_junk:
  "path_exists world_junk ''/data/backups/crm_backup_20240101_120000.db''"
  "path_exists world_junk (DB_PATH cfg_example)"
  by (simp_all add: path_exists_def world_junk_def cfg_example_simps)

lemma sqlite_connect_world_junk:
  "sqlite_connect cfg_example world_junk ''/data/backups/crm_backup_20240301_093000.db''
     = Inr world_junk_aborted"
  by (simp add: sqlite_connect_def path_exists_def write_file_def world_junk_def
      world_junk_aborted_def cfg_example_simps empty_file_clock)

lemma sqlite_backup_world_junk:
  "sqlite_backup cfg_example world_junk_aborted ''/data/crm.db''
     ''/data/backups/crm_backup_20240301_093000.db'' = Inl DatabaseError"
  by (simp add: sqlite_backup_def world_junk_def world_junk_aborted_def note_file_def)

lemma backup_database_world_junk:
  "backup_database cfg_example world_junk (Some ''Pre-restore safety backup'')
     = (world_junk_aborted, Inl DatabaseError)"
  using path_exists_world_junk(2) safety_path_example
  by (simp add: backup_database_def Let_def safety_path_def cfg_example_simps
      strftime_stamp_example sqlite_connect_world_junk sqlite_backup_world_junk)

theorem restore_safety_backup_first_witness:
  "path_exists world5 ''/data/backups/crm_backup_20240101_120000.db''
   \<and> path_exists world5 (DB_PATH cfg_example)
   \<and> safety_path cfg_example \<noteq> DB_PATH cfg_example
   \<and> events (fst (restore_database cfg_example world5
                 ''/data/backups/crm_backup_20240101_120000.db'' True)) ! 3
       = Wrote (DB_PATH cfg_example) (db_file ''day 1'')
   \<and> (\<exists>j g. j < 3
         \<and> events (fst (restore_database cfg_example world5
                 ''/data/backups/crm_backup_20240101_120000.db'' True)) ! j
             = Wrote (safety_path cfg_example) g
         \<and> Some (content g) = live_content cfg_example world5)
   \<and> path_exists world_junk ''/data/backups/crm_backup_20240101_120000.db''
   \<and> path_exists world_junk (DB_PATH cfg_example)
   \<and> backup_database cfg_example world_junk (Some ''Pre-restore safety backup'')
       = (world_junk_aborted, Inl DatabaseError)
   \<and> restore_database cfg_example world_junk ''/data/backups/crm_backup_20240101_120000.db'' True
       = (world_junk_aborted, Inl DatabaseError)
   \<and> map_of (files world_junk_aborted) (DB_PATH cfg_example) = Some (note_file ''junk'')"
proof -
  let ?bp = "''/data/backups/crm_backup_20240101_120000.db''"
  let ?w' = "fst (restore_database cfg_example world5 ?bp True)"
  let ?r = "snd (restore_database cfg_example world5 ?bp True)"
  let ?wj = "fst (restore_database cfg_example world_junk ?bp True)"
  let ?rj = "snd (restore_database cfg_example world_junk ?bp True)"
  have h1: "path_exists world5 ?bp"
    by (simp add: path_exists_def world5_def)
  have ne: "safety_path cfg_example \<noteq> DB_PATH cfg_example"
    by (simp add: safety_path_example cfg_example_simps)
  have h3: "restore_database cfg_example world5 ?bp True = (?w', ?r)"
    by simp
  have ev: "events ?w' = [Wrote ''/data/backups/crm_backup_20240301_093000.db'' empty_file,
                         Wrote ''/data/backups/crm_backup_20240301_093000.db'' (db_file ''live''),
                         Wrote ''/data/backups/crm_backup_20240301_093000.db.note''
                           (note_file ''Pre-restore safety backup''),
                         Wrote ''/data/crm.db'' (db_file ''day 1'')]"
    by (simp add: restore_database_world5 world5_restored_def)
  have e0: "events world5 = []" by (simp add: world5_def)
  have at3: "events ?w' ! 3 = Wrote (DB_PATH cfg_example) (db_file ''day 1'')"
    by (simp add: ev cfg_example_simps)
  have live3: "writes_live cfg_example (events ?w' ! 3)"
    by (simp add: at3 writes_live_def)
  from restore_safety_backup_first [OF h1 path_exists_world5_live ne h3]
  have "\<forall>i. i < length (events ?w') \<and> writes_live cfg_example (events ?w' ! i) \<longrightarrow>
              (\<exists>j g. j < i \<and> events ?w' ! j = Wrote (safety_path cfg_example) g
                   \<and> Some (content g) = live_content cfg_example world5)"
    by (simp add: e0)
  moreover have "3 < length (events ?w')" by (simp add: ev)
  ultimately have first: "\<exists>j g. j < 3 \<and> events ?w' ! j = Wrote (safety_path cfg_example) g
                   \<and> Some (content g) = live_content cfg_example world5"
    using live3 by blast
  have hj: "restore_database cfg_example world_junk ?bp True = (?wj, ?rj)"
    by simp
  from restore_safety_backup_first [OF path_exists_world_junk ne hj] backup_database_world_junk
  have "?wj = world_junk_aborted \<and> ?rj = Inl DatabaseError
        \<and> map_of (files ?wj) (DB_PATH cfg_example) = map_of (files world_junk) (DB_PATH cfg_example)"
    by blast
  then have j1: "?wj = world_junk_aborted" and j2: "?rj = Inl DatabaseError"
    and j3: "map_of (files ?wj) (DB_PATH cfg_example) = map_of (files world_junk) (DB_PATH cfg_example)"
    by blast+
  have junk: "restore_database cfg_example world_junk ?bp True
                     = (world_junk_aborted, Inl DatabaseError)"
    using j1 j2 by (simp only: prod_eq_iff fst_conv snd_conv simp_thms)
  have "map_of (files world_junk) (DB_PATH cfg_example) = Some (note_file ''junk'')"
    by (simp add: world_junk_def cfg_example_simps)
  with j3 have kept: "map_of (files world_junk_aborted) (DB_PATH cfg_example)
                        = Some (note_file ''junk'')"
    by (simp only: j1)
  show ?thesis
    by (intro conjI h1 path_exists_world5_live ne at3 first path_exists_world_junk
        backup_database_world_junk junk kept)
qed

subsection \<open>Confirmed restore without a live store\<close>

text \<open>
  Claim C10, as the code has it. With no live store and a backup that exists, a confirmed
  restore whose copy succeeds puts the backup in place. What follows depends on the
  integrity probe: on a database with a \<open>contacts\<close> table the function raises
  \<open>UnboundLocalError\<close> for \<open>safety_backup\<close>; on any other file it returns the
  corruption error and raises nothing.
\<close>

theorem restore_without_live_store:
  assumes "\<not> path_exists w (DB_PATH cfg)" and "map_of (files w) backup_path = Some f"
    and "\<not> protected w (DB_PATH cfg)"
  shows "restore_database cfg w backup_path True =
           (w\<lparr>files := AList.update (DB_PATH cfg) f (files w),
              events := events w @ [Wrote (DB_PATH cfg) f]\<rparr>,
            case content f of
              SqliteDb True _ \<Rightarrow> Inl (UnboundLocalError ''safety_backup'')
            | SqliteDb False _ \<Rightarrow> Inr [(''error'', PStr ''Restored database appears corrupt''),
                        (''details'', PStr ''no such table: contacts'')]
            | Raw _ \<Rightarrow> Inr [(''error'', PStr ''Restored database appears corrupt''),
                        (''details'', PStr ''file is not a database'')])"
proof -
  have ne: "backup_path \<noteq> DB_PATH cfg"
    using assms(1,2) by (auto simp: path_exists_def)
  show ?thesis
    using assms ne
    by (simp add: restore_database_def path_exists_def restore_tail_def copy2_def write_file_def
        probe_def update_conv' split: content.splits bool.splits)
qed

theorem restore_without_live_store_witness:
  "\<not> path_exists world_fresh (DB_PATH cfg_example)
   \<and> map_of (files world_fresh) ''/data/backups/crm_backup_20240101_120000.db''
       = Some (db_file ''day 1'')
   \<and> \<not> protected world_fresh (DB_PATH cfg_example)
   \<and> restore_database cfg_example world_fresh ''/data/backups/crm_backup_20240101_120000.db'' True
       = (world_fresh\<lparr>files := files world_fresh @ [(''/data/crm.db'', db_file ''day 1'')],
                       events := [Wrote ''/data/crm.db'' (db_file ''day 1'')]\<rparr>,
          Inl (UnboundLocalError ''safety_backup''))"
proof -
  have h1: "\<not> path_exists world_fresh (DB_PATH cfg_example)"
    by (simp add: path_exists_def world_fresh_def cfg_example_def)
  have h2: "map_of (files world_fresh) ''/data/backups/crm_backup_20240101_120000.db''
       = Some (db_file ''day 1'')"
    by (simp add: world_fresh_def)
  have h3: "\<not> protected world_fresh (DB_PATH cfg_example)"
    by (simp add: world_fresh_def)
  show ?thesis
    using restore_without_live_store [OF h1 h2 h3] h1 h2 h3
    by (simp add: world_fresh_def cfg_example_def db_file_def)
qed

text \<open>
  The claim as stated fails on a backup file that is not a database: the restore returns
  the corruption error.
\<close>

theorem restore_corrupt_backup_returns_error:
  "\<not> path_exists world_no_live (DB_PATH cfg_example)
   \<and> path_exists world_no_live ''/data/backups/crm_backup_20240101_120000.db''
   \<and> snd (restore_database cfg_example world_no_live
            ''/data/backups/crm_backup_20240101_120000.db'' True)
       = Inr [(''error'', PStr ''Restored database appears corrupt''),
              (''details'', PStr ''file is not a database'')]"
  by (simp add: restore_database_def path_exists_def restore_tail_def copy2_def write_file_def
        probe_def world_no_live_def cfg_example_def note_file_def)

subsection \<open>Pruning\<close>

lemma unlink_Inr:
  assumes "unlink w p = Inr w1"
  shows "protected w1 = protected w" and "map_of (files w1) q = (if q = p then None else map_of (files w) q)"
    and "path_exists w p" and "\<not> protected w p"
  using assms by (auto simp: unlink_def delete_conv' split: if_splits)

lemma unlink_Inl:
  assumes "unlink w p = Inl e"
  shows "\<not> path_exists w p \<or> protected w p"
  using assms by (auto simp: unlink_def split: if_splits)

lemma unlink_total: "path_exists w p \<Longrightarrow> \<not> protected w p \<Longrightarrow> \<exists>w1. unlink w p = Inr w1"
  by (simp add: unlink_def)

lemma prune_one_spec:
  assumes ex: "path_exists w (path x)" and step: "prune_one (w, rem) x = (w1, rem1)"
  shows "protected w1 = protected w"
    and "rem1 = rem @ (if deletable w x then [filename x] else [])"
    and "map_of (files w1) q = (if unlinked_by w x q then None else map_of (files w) q)"
proof -
  have ne: "path x @ ''.note'' \<noteq> path x" by simp
  show "protected w1 = protected w"
    using step unlink_Inr(1)
    by (fastforce simp: prune_one_def Let_def split: sum.splits if_splits)
  show "rem1 = rem @ (if deletable w x then [filename x] else [])"
  proof (cases "unlink w (path x)")
    case (Inl e)
    with ex have "protected w (path x)" by (auto dest: unlink_Inl)
    with Inl step show ?thesis by (simp add: prune_one_def deletable_def)
  next
    case (Inr w0)
    note u = unlink_Inr[OF Inr]
    have pe: "path_exists w0 (path x @ ''.note'') = path_exists w (path x @ ''.note'')"
      using u(2)[of "path x @ ''.note''"] by (simp add: path_exists_def)
    show ?thesis
    proof (cases "unlink w0 (path x @ ''.note'')")
      case (Inl e)
      then have "\<not> path_exists w0 (path x @ ''.note'') \<or> protected w0 (path x @ ''.note'')"
        by (rule unlink_Inl)
      with Inl Inr step u pe show ?thesis
        by (auto simp: prune_one_def deletable_def note_of_def Let_def)
    next
      case (Inr w2)
      note u2 = unlink_Inr[OF Inr]
      from Inr \<open>unlink w (path x) = Inr w0\<close> step u u2 pe show ?thesis
        by (auto simp: prune_one_def deletable_def note_of_def Let_def)
    qed
  qed
  show "map_of (files w1) q = (if unlinked_by w x q then None else map_of (files w) q)"
  proof (cases "unlink w (path x)")
    case (Inl e)
    with ex have "protected w (path x)" by (auto dest: unlink_Inl)
    with Inl step show ?thesis by (simp add: prune_one_def unlinked_by_def)
  next
    case (Inr w0)
    note u = unlink_Inr[OF Inr]
    have pe: "path_exists w0 (path x @ ''.note'') = path_exists w (path x @ ''.note'')"
      using u(2)[of "path x @ ''.note''"] by (simp add: path_exists_def)
    show ?thesis
    proof (cases "unlink w0 (path x @ ''.note'')")
      case (Inl e)
      then have d: "\<not> path_exists w0 (path x @ ''.note'') \<or> protected w0 (path x @ ''.note'')"
        by (rule unlink_Inl)
      have "w1 = w0" using Inl \<open>unlink w (path x) = Inr w0\<close> step
        by (auto simp: prune_one_def Let_def split: if_splits)
      with d u pe show ?thesis
        by (auto simp: unlinked_by_def note_of_def path_exists_def)
    next
      case (Inr w2)
      note u2 = unlink_Inr[OF Inr]
      have "w1 = w2" using Inr u2(3) \<open>unlink w (path x) = Inr w0\<close> step
        by (auto simp: prune_one_def Let_def split: if_splits)
      with u u2 show ?thesis
        by (auto simp: unlinked_by_def note_of_def path_exists_def)
    qed
  qed
qed


lemma db_not_note:
  assumes "endswith ''.db'' p"
  shows "p \<noteq> q @ ''.note''"
proof
  assume eq: "p = q @ ''.note''"
  from assms have len: "3 \<le> length p" and d: "drop (length p - 3) p = ''.db''"
    by (simp_all add: endswith_def eval_nat_numeral)
  have "last p = last (drop (length p - 3) p)"
    using len by (simp add: last_drop)
  with d have "last p = CHR ''b''" by simp
  moreover from eq have "last p = CHR ''e''" by simp
  ultimately show False by simp
qed

lemma prune_loop_spec:
  assumes "distinct (map path bs)"
    and "\<forall>b\<in>set bs. path_exists w (path b) \<and> endswith ''.db'' (path b)"
    and "foldl prune_one (w, rem) bs = (w', rem')"
  shows "protected w' = protected w
       \<and> rem' = rem @ map filename (filter (deletable w) bs)
       \<and> (\<forall>q. map_of (files w') q
              = (if \<exists>b\<in>set bs. unlinked_by w b q then None else map_of (files w) q))"
  using assms
proof (induction bs arbitrary: w rem)
  case Nil
  then show ?case by simp
next
  case (Cons x xs)
  obtain w1 rem1 where s: "prune_one (w, rem) x = (w1, rem1)"
    by (cases "prune_one (w, rem) x") auto
  have ex: "path_exists w (path x)" and dbx: "endswith ''.db'' (path x)"
    using Cons.prems(2) by auto
  note sp = prune_one_spec[OF ex s]
  have frame: "map_of (files w1) q = map_of (files w) q"
    if "q \<noteq> path x" and "q \<noteq> note_of x" for q
    using sp(3)[of q] that by (simp add: unlinked_by_def)
  have other: "path b \<noteq> path x \<and> path b \<noteq> note_of x \<and> note_of b \<noteq> path x \<and> note_of b \<noteq> note_of x"
    if "b \<in> set xs" for b
  proof -
    from Cons.prems(1) have "path x \<notin> path ` set xs" by simp
    with that have "path b \<noteq> path x" by (metis imageI)
    moreover from that Cons.prems(2) have "endswith ''.db'' (path b)" by auto
    ultimately show ?thesis
      using db_not_note[of "path b" "path x"] db_not_note[OF dbx, of "path b"]
      by (auto simp: note_of_def)
  qed
  have ex1: "\<forall>b\<in>set xs. path_exists w1 (path b) \<and> endswith ''.db'' (path b)"
    using Cons.prems(2) other frame by (auto simp: path_exists_def)
  have del: "deletable w1 b = deletable w b" if "b \<in> set xs" for b
    using other[OF that] frame[of "note_of b"] sp(1) by (simp add: deletable_def path_exists_def)
  have unl: "unlinked_by w1 b q = unlinked_by w b q" for b q
    using sp(1) by (simp add: unlinked_by_def)
  have step: "foldl prune_one (w1, rem1) xs = (w', rem')"
    using Cons.prems(3) s by simp
  have d1: "distinct (map path xs)" using Cons.prems(1) by simp
  note ih = Cons.IH[OF d1 ex1 step]
  have f: "filter (deletable w1) xs = filter (deletable w) xs"
    using del by (auto intro: filter_cong)
  show ?case
    using ih sp(1) sp(2) f by (auto simp: unl sp(3))
qed

lemma sorted_desc_take_drop:
  assumes "a \<in> set (take n (sorted_desc f xs))" and "b \<in> set (drop n (sorted_desc f xs))"
  shows "f b \<le> f a"
proof -
  let ?ys = "sorted_desc f xs"
  have "sorted (map f (rev ?ys))"
    by (simp add: sorted_desc_def)
  moreover have "rev ?ys = rev (drop n ?ys) @ rev (take n ?ys)"
    by (metis append_take_drop_id rev_append)
  ultimately have "sorted (map f (rev (drop n ?ys)) @ map f (rev (take n ?ys)))"
    by simp
  then show ?thesis
    using assms by (auto simp: sorted_append)
qed

lemma set_sorted_desc: "set (sorted_desc f xs) = set xs"
  by (simp add: sorted_desc_def)

lemma distinct_map_sorted_desc: "distinct (map g (sorted_desc f xs)) = distinct (map g xs)"
  by (simp add: sorted_desc_def distinct_map)

lemma endswith_drop:
  assumes "endswith s (drop k p)"
  shows "endswith s p"
proof (cases "k \<le> length p")
  case False
  with assms have "s = []" by (simp add: endswith_def)
  then show ?thesis by (simp add: endswith_def)
next
  case True
  from assms have len: "length s \<le> length p - k"
    and d: "drop (length p - k - length s) (drop k p) = s"
    by (simp_all add: endswith_def)
  have e: "length p - k - length s + k = length p - length s"
    using len True by linarith
  have "drop (length p - length s) p = drop (length p - k - length s + k) p"
    by (simp only: e)
  also have "\<dots> = drop (length p - k - length s) (drop k p)"
    by (simp only: drop_drop)
  also have "\<dots> = s" by (rule d)
  finally have "drop (length p - length s) p = s" .
  moreover from len have "length s \<le> length p" by linarith
  ultimately show ?thesis by (simp only: endswith_def simp_thms)
qed

lemma path_backup_entry: "path (backup_entry d pf) = fst pf"
  by (simp add: backup_entry_def Let_def)

lemma map_path_backup_entry: "map path (map (backup_entry d) xs) = map fst xs"
  by (induction xs) (simp_all add: path_backup_entry)

lemma get_backup_files_wf:
  assumes "distinct (map fst (files w))"
  shows "distinct (map path (get_backup_files cfg w))"
    and "\<forall>b\<in>set (get_backup_files cfg w). path_exists w (path b) \<and> endswith ''.db'' (path b)"
proof -
  have "distinct (map fst (glob_backups cfg w))"
    using assms by (simp add: glob_backups_def distinct_map_filter)
  then show "distinct (map path (get_backup_files cfg w))"
    using map_path_backup_entry[of "BACKUP_DIR cfg" "glob_backups cfg w"]
    by (simp add: get_backup_files_def distinct_map_sorted_desc del: map_map)
  show "\<forall>b\<in>set (get_backup_files cfg w). path_exists w (path b) \<and> endswith ''.db'' (path b)"
  proof
    fix b assume "b \<in> set (get_backup_files cfg w)"
    then obtain pf where pf: "pf \<in> set (glob_backups cfg w)"
      and b: "b = backup_entry (BACKUP_DIR cfg) pf"
      by (auto simp: get_backup_files_def set_sorted_desc)
    from pf have mem: "pf \<in> set (files w)"
      and nm: "is_backup_name (basename (BACKUP_DIR cfg) (fst pf))"
      by (auto simp: glob_backups_def)
    have p: "path b = fst pf" using b by (simp add: backup_entry_def Let_def)
    from mem have "fst pf \<in> fst ` set (files w)" by (rule imageI)
    then have "map_of (files w) (fst pf) \<noteq> None" by (simp add: map_of_eq_None_iff)
    moreover from nm have "endswith ''.db'' (fst pf)"
      by (auto simp: is_backup_name_def basename_def intro: endswith_drop)
    ultimately show "path_exists w (path b) \<and> endswith ''.db'' (path b)"
      by (simp add: p path_exists_def)
  qed
qed

text \<open>
  Claim C8. Let \<open>bs\<close> be the backups, newest first by \<open>created_at\<close>, and let the keep
  count be a natural number \<open>n\<close>. With at most \<open>n\<close> backups nothing changes. Otherwise
  the result reports as removed exactly those of the older backups \<open>drop n bs\<close> that
  could be deleted, in order; a path is gone afterwards exactly if the loop unlinked it
  (an older backup that is not protected, or its note when neither is protected), so a
  backup whose deletion fails stays and is not reported while the loop goes on; and each
  of the \<open>n\<close> newest backups \<open>take n bs\<close> keeps its file and its note, and is at
  least as recent as every older one.
\<close>

theorem prune_keeps_newest:
  assumes wf: "distinct (map fst (files w))"
    and bs: "bs = get_backup_files cfg w"
    and run: "prune_backups cfg w (int n) = (w', r)"
  shows "(length bs \<le> n \<longrightarrow> w' = w)
       \<and> (n < length bs \<longrightarrow>
            r = Inr [(''status'', PStr ''success''), (''kept'', PInt (int n)),
                     (''removed'', PInt (int (length (filter (deletable w) (drop n bs))))),
                     (''removed_files'',
                        PList (map PStr (map filename (filter (deletable w) (drop n bs)))))]
          \<and> (\<forall>q. map_of (files w') q
                   = (if \<exists>b\<in>set (drop n bs). unlinked_by w b q then None
                      else map_of (files w) q))
          \<and> (\<forall>a\<in>set (take n bs).
                 map_of (files w') (path a) = map_of (files w) (path a)
               \<and> map_of (files w') (note_of a) = map_of (files w) (note_of a)
               \<and> (\<forall>b\<in>set (drop n bs). created_at b \<le> created_at a)))"
proof (intro conjI impI)
  assume "length bs \<le> n"
  then show "w' = w" using run bs by (simp add: prune_backups_def Let_def)
next
  assume lt: "n < length bs"
  obtain w1 rem1 where f: "foldl prune_one (w, []) (drop n bs) = (w1, rem1)"
    by (cases "foldl prune_one (w, []) (drop n bs)") auto
  have res: "w' = w1" "r = Inr [(''status'', PStr ''success''), (''kept'', PInt (int n)),
                     (''removed'', PInt (int (length rem1))),
                     (''removed_files'', PList (map PStr rem1))]"
    using run bs lt f by (auto simp: prune_backups_def Let_def slice_from_def)
  note gw = get_backup_files_wf[OF wf, of cfg, folded bs]
  have d: "distinct (map path (drop n bs))"
    using gw(1) by (simp add: drop_map[symmetric] distinct_drop)
  have e: "\<forall>b\<in>set (drop n bs). path_exists w (path b) \<and> endswith ''.db'' (path b)"
    using gw(2) by (auto dest: in_set_dropD)
  note sp = prune_loop_spec[OF d e f]
  show "r = Inr [(''status'', PStr ''success''), (''kept'', PInt (int n)),
                     (''removed'', PInt (int (length (filter (deletable w) (drop n bs))))),
                     (''removed_files'',
                        PList (map PStr (map filename (filter (deletable w) (drop n bs)))))]"
    using res sp by simp
  show files: "\<forall>q. map_of (files w') q
                   = (if \<exists>b\<in>set (drop n bs). unlinked_by w b q then None
                      else map_of (files w) q)"
    using res sp by simp
  show "\<forall>a\<in>set (take n bs).
                 map_of (files w') (path a) = map_of (files w) (path a)
               \<and> map_of (files w') (note_of a) = map_of (files w) (note_of a)
               \<and> (\<forall>b\<in>set (drop n bs). created_at b \<le> created_at a)"
  proof
    fix a assume a: "a \<in> set (take n bs)"
    have dis: "path a \<noteq> path b" if "b \<in> set (drop n bs)" for b
    proof -
      have "distinct (map path (take n bs) @ map path (drop n bs))"
        using gw(1) by (simp add: map_append[symmetric] del: map_append)
      then show ?thesis using a that by auto
    qed
    have dba: "endswith ''.db'' (path a)" using a gw(2) by (auto dest: in_set_takeD)
    have no: "\<not> unlinked_by w b (path a) \<and> \<not> unlinked_by w b (note_of a)"
      if "b \<in> set (drop n bs)" for b
    proof -
      have "endswith ''.db'' (path b)" using that e by auto
      then show ?thesis
        using dis[OF that] db_not_note[OF dba, of "path b"] db_not_note[of "path b" "path a"]
        by (auto simp: unlinked_by_def note_of_def)
    qed
    have ord: "\<forall>b\<in>set (drop n bs). created_at b \<le> created_at a"
      using a sorted_desc_take_drop[of a n created_at _ ] unfolding bs get_backup_files_def
      by blast
    show "map_of (files w') (path a) = map_of (files w) (path a)
               \<and> map_of (files w') (note_of a) = map_of (files w) (note_of a)
               \<and> (\<forall>b\<in>set (drop n bs). created_at b \<le> created_at a)"
      using files no ord by auto
  qed
qed

text \<open>
  The instance of the specification: five backups, keep two. The three oldest go, with
  the note of the oldest; the two newest stay, with the note of the newest.
\<close>

lemma glob_backups_world5: "glob_backups cfg_example world5 =
      [(''/data/backups/crm_backup_20240103_120000.db'', db_file ''day 3''),
       (''/data/backups/crm_backup_20240101_120000.db'', db_file ''day 1''),
       (''/data/backups/crm_backup_20240105_120000.db'', db_file ''day 5''),
       (''/data/backups/crm_backup_20240102_120000.db'', db_file ''day 2''),
       (''/data/backups/crm_backup_20240104_120000.db'', db_file ''day 4'')]"
  by (simp add: glob_backups_def cfg_example_def world5_def in_dir_def startswith_def
      basename_def is_backup_name_def endswith_def)

lemma strptime_stamps:
  "strptime ''20240101_120000'' ''%Y%m%d_%H%M%S'' = Inr (jan 1)"
  "strptime ''20240102_120000'' ''%Y%m%d_%H%M%S'' = Inr (jan 2)"
  "strptime ''20240103_120000'' ''%Y%m%d_%H%M%S'' = Inr (jan 3)"
  "strptime ''20240104_120000'' ''%Y%m%d_%H%M%S'' = Inr (jan 4)"
  "strptime ''20240105_120000'' ''%Y%m%d_%H%M%S'' = Inr (jan 5)"
  by code_simp+

lemma isoformat_jan:
  "isoformat (jan 1) = ''2024-01-01T12:00:00''"
  "isoformat (jan 2) = ''2024-01-02T12:00:00''"
  "isoformat (jan 3) = ''2024-01-03T12:00:00''"
  "isoformat (jan 4) = ''2024-01-04T12:00:00''"
  "isoformat (jan 5) = ''2024-01-05T12:00:00''"
  by (simp_all add: isoformat_def jan_def zfill_def digit_char_def upt_rec)

lemma backup_entry_world5:
  "backup_entry ''/data/backups'' (''/data/backups/crm_backup_20240101_120000.db'', f)
     = bk ''20240101_120000'' ''2024-01-01T12:00:00''"
  "backup_entry ''/data/backups'' (''/data/backups/crm_backup_20240102_120000.db'', f)
     = bk ''20240102_120000'' ''2024-01-02T12:00:00''"
  "backup_entry ''/data/backups'' (''/data/backups/crm_backup_20240103_120000.db'', f)
     = bk ''20240103_120000'' ''2024-01-03T12:00:00''"
  "backup_entry ''/data/backups'' (''/data/backups/crm_backup_20240104_120000.db'', f)
     = bk ''20240104_120000'' ''2024-01-04T12:00:00''"
  "backup_entry ''/data/backups'' (''/data/backups/crm_backup_20240105_120000.db'', f)
     = bk ''20240105_120000'' ''2024-01-05T12:00:00''"
  by (simp_all add: backup_entry_def basename_def stem_def startswith_def strptime_stamps
      isoformat_jan bk_def Let_def)

lemma created_at_bk: "created_at (bk s t) = t"
  by (simp add: bk_def)

lemma get_backup_files_world5: "get_backup_files cfg_example world5 =
   [bk ''20240105_120000'' ''2024-01-05T12:00:00'',
    bk ''20240104_120000'' ''2024-01-04T12:00:00'',
    bk ''20240103_120000'' ''2024-01-03T12:00:00'',
    bk ''20240102_120000'' ''2024-01-02T12:00:00'',
    bk ''20240101_120000'' ''2024-01-01T12:00:00'']"
  unfolding get_backup_files_def glob_backups_world5
  by (simp add: cfg_example_def backup_entry_world5 sorted_desc_def created_at_bk)

lemma deletable_world5: "deletable world5 b"
  by (simp add: deletable_def world5_def)

lemma unlinked_by_world5: "unlinked_by world5 b q = (q = path b \<or> q = note_of b)"
  by (simp add: unlinked_by_def world5_def)

theorem prune_keeps_newest_witness:
  "distinct (map fst (files world5))
   \<and> snd (prune_backups cfg_example world5 2)
       = Inr [(''status'', PStr ''success''), (''kept'', PInt 2), (''removed'', PInt 3),
              (''removed_files'', PList [PStr ''crm_backup_20240103_120000.db'',
                                         PStr ''crm_backup_20240102_120000.db'',
                                         PStr ''crm_backup_20240101_120000.db''])]
   \<and> map_of (files (fst (prune_backups cfg_example world5 2)))
         ''/data/backups/crm_backup_20240101_120000.db'' = None
   \<and> map_of (files (fst (prune_backups cfg_example world5 2)))
         ''/data/backups/crm_backup_20240101_120000.db.note'' = None
   \<and> map_of (files (fst (prune_backups cfg_example world5 2)))
         ''/data/backups/crm_backup_20240102_120000.db'' = None
   \<and> map_of (files (fst (prune_backups cfg_example world5 2)))
         ''/data/backups/crm_backup_20240103_120000.db'' = None
   \<and> map_of (files (fst (prune_backups cfg_example world5 2)))
         ''/data/backups/crm_backup_20240104_120000.db'' = Some (db_file ''day 4'')
   \<and> map_of (files (fst (prune_backups cfg_example world5 2)))
         ''/data/backups/crm_backup_20240105_120000.db'' = Some (db_file ''day 5'')
   \<and> map_of (files (fst (prune_backups cfg_example world5 2)))
         ''/data/backups/crm_backup_20240105_120000.db.note'' = Some (note_file ''latest'')
   \<and> map_of (files (fst (prune_backups cfg_example world5 2))) ''/data/crm.db''
         = Some (db_file ''live'')"
proof -
  let ?w' = "fst (prune_backups cfg_example world5 2)"
  let ?r = "snd (prune_backups cfg_example world5 2)"
  have d: "distinct (map fst (files world5))"
    by (simp add: world5_def)
  have run: "prune_backups cfg_example world5 (int 2) = (?w', ?r)"
    by simp
  have lt: "2 < length (get_backup_files cfg_example world5)"
    by (simp add: get_backup_files_world5)
  note t = prune_keeps_newest [OF d refl run, THEN conjunct2, rule_format, OF lt]
  have older: "drop 2 (get_backup_files cfg_example world5) =
    [bk ''20240103_120000'' ''2024-01-03T12:00:00'',
     bk ''20240102_120000'' ''2024-01-02T12:00:00'',
     bk ''20240101_120000'' ''2024-01-01T12:00:00'']"
    by (simp add: get_backup_files_world5)
  have r: "?r = Inr [(''status'', PStr ''success''), (''kept'', PInt 2), (''removed'', PInt 3),
              (''removed_files'', PList [PStr ''crm_backup_20240103_120000.db'',
                                         PStr ''crm_backup_20240102_120000.db'',
                                         PStr ''crm_backup_20240101_120000.db''])]"
    using t by (simp add: older deletable_world5 bk_def)
  have fs: "map_of (files ?w') q =
        (if \<exists>b\<in>set (drop 2 (get_backup_files cfg_example world5)). unlinked_by world5 b q
         then None else map_of (files world5) q)" for q
    using t by simp
  have gone: "map_of (files ?w') ''/data/backups/crm_backup_20240101_120000.db'' = None"
    "map_of (files ?w') ''/data/backups/crm_backup_20240101_120000.db.note'' = None"
    "map_of (files ?w') ''/data/backups/crm_backup_20240102_120000.db'' = None"
    "map_of (files ?w') ''/data/backups/crm_backup_20240103_120000.db'' = None"
    by (simp_all add: fs older unlinked_by_world5 bk_def note_of_def)
  have kept: "map_of (files ?w') ''/data/backups/crm_backup_20240104_120000.db''
        = Some (db_file ''day 4'')"
    "map_of (files ?w') ''/data/backups/crm_backup_20240105_120000.db''
        = Some (db_file ''day 5'')"
    "map_of (files ?w') ''/data/backups/crm_backup_20240105_120000.db.note''
        = Some (note_file ''latest'')"
    "map_of (files ?w') ''/data/crm.db'' = Some (db_file ''live'')"
    by (simp_all add: fs older unlinked_by_world5 bk_def note_of_def) (simp_all add: world5_def)
  show ?thesis
    using d r gone kept by simp
qed

section \<open>Properties of entity resolution\<close>

lemma isoformat_T_example: "isoformat T_example = ''2024-02-27T13:45:10.000500''"
  by (simp add: isoformat_def T_example_def zfill_def digit_char_def upt_rec)

lemma env_example_simps:
  "now_at env_example k = T_example" "fresh_id env_example = ''d1''"
  "sql_now env_example = ''2024-02-27 13:45:10''" "integrity env_example d"
  "on_delete env_example = NoAction"
  by (simp_all add: env_example_def)

lemma matches_bob:
  "matches ''name'' (PStr ''bob'') bob_old" "matches ''name'' (PStr ''bob'') bob_new"
  by (simp_all add: matches_def sql_eq_def sql_like_def sql_lower_def col_def dict_get_def
      bob_old_def bob_new_def str_of_def lower_def lower_char_def)

lemma find_two_bobs:
  "find_by_id_or_label (two_bobs Contacts) ''name'' (PStr ''bob'') = Some bob_old"
  by (simp add: find_by_id_or_label_def two_bobs_def matches_bob)

lemma find_id_in_name:
  "find_by_id_or_label (id_in_name Contacts) ''name'' (PStr ''e4'') = Some studio"
  by (simp add: find_by_id_or_label_def id_in_name_def matches_def sql_eq_def sql_like_def
      sql_lower_def col_def dict_get_def studio_def str_of_def lower_def lower_char_def)

text \<open>
  Claim C2 fails on the code. \<open>update-contact bob\<close> on two contacts named Bob updates the
  one stored first, although the other was updated more recently; and
  \<open>update-contact e4\<close> updates the contact whose name contains \<open>e4\<close>, although another
  contact has exactly the identity \<open>e4\<close>.
\<close>

theorem resolution_takes_first_row_not_latest:
  "fst (update_contact env_example [(''id'', PStr ''bob''), (''email'', PStr ''bob@example.org'')]
         two_bobs)
     = Inr [(''status'', PStr ''updated''), (''id'', PStr ''c1''),
            (''changes'', PDict [(''email'', PStr ''bob@example.org''),
                                 (''updated_at'', PStr ''2024-02-27T13:45:10.000500'')])]
   \<and> two_bobs Contacts = [(1, bob_old), (2, bob_new)]
   \<and> matches ''name'' (PStr ''bob'') bob_new
   \<and> col ''id'' bob_new = PStr ''c2''
   \<and> col ''updated_at'' bob_old = PStr ''2024-01-05 10:00:00''
   \<and> col ''updated_at'' bob_new = PStr ''2024-06-01 10:00:00''
   \<and> ''2024-01-05 10:00:00'' < ''2024-06-01 10:00:00''
   \<and> fst (update_contact env_example [(''id'', PStr ''e4''), (''email'', PStr ''ann@example.org'')]
         id_in_name)
     = Inr [(''status'', PStr ''updated''), (''id'', PStr ''7f''),
            (''changes'', PDict [(''email'', PStr ''ann@example.org''),
                                 (''updated_at'', PStr ''2024-02-27T13:45:10.000500'')])]
   \<and> id_in_name Contacts = [(1, studio), (2, ann)]
   \<and> col ''id'' ann = PStr ''e4''"
proof -
  have a: "fst (update_contact env_example
                  [(''id'', PStr ''bob''), (''email'', PStr ''bob@example.org'')] two_bobs)
     = Inr [(''status'', PStr ''updated''), (''id'', PStr ''c1''),
            (''changes'', PDict [(''email'', PStr ''bob@example.org''),
                                 (''updated_at'', PStr ''2024-02-27T13:45:10.000500'')])]"
    by (simp add: update_contact_def get_db_def dict_get_def find_two_bobs collect_def
        py_truthy_def Let_def execute_def audit_log_def env_example_simps isoformat_T_example
        col_def bob_old_def)
  have b: "fst (update_contact env_example
                  [(''id'', PStr ''e4''), (''email'', PStr ''ann@example.org'')] id_in_name)
     = Inr [(''status'', PStr ''updated''), (''id'', PStr ''7f''),
            (''changes'', PDict [(''email'', PStr ''ann@example.org''),
                                 (''updated_at'', PStr ''2024-02-27T13:45:10.000500'')])]"
    by (simp add: update_contact_def get_db_def dict_get_def find_id_in_name collect_def
        py_truthy_def Let_def execute_def audit_log_def env_example_simps isoformat_T_example
        col_def studio_def)
  have c: "two_bobs Contacts = [(1, bob_old), (2, bob_new)]"
    "id_in_name Contacts = [(1, studio), (2, ann)]"
    by (simp_all add: two_bobs_def id_in_name_def)
  have d: "col ''id'' bob_new = PStr ''c2''" "col ''updated_at'' bob_old = PStr ''2024-01-05 10:00:00''"
    "col ''updated_at'' bob_new = PStr ''2024-06-01 10:00:00''" "col ''id'' ann = PStr ''e4''"
    by (simp_all add: col_def dict_get_def bob_old_def bob_new_def ann_def)
  have e: "''2024-01-05 10:00:00'' < ''2024-06-01 10:00:00''"
    by simp
  show ?thesis
    using a b c d e matches_bob(2) by simp
qed

lemma find_by_id_or_label_None:
  "find_by_id_or_label t label ident = None
     \<longleftrightarrow> (\<forall>nr\<in>set t. \<not> matches label ident (snd nr))"
  by (auto simp: find_by_id_or_label_def find_None_iff)

lemma find_by_id_or_label_Some:
  assumes "find_by_id_or_label t label ident = Some r"
  shows "\<exists>pre n post. t = pre @ (n, r) # post \<and> matches label ident r
           \<and> (\<forall>nr\<in>set pre. \<not> matches label ident (snd nr))"
proof -
  from assms obtain nr where f: "find (\<lambda>nr. matches label ident (snd nr)) t = Some nr"
    and r: "r = snd nr"
    by (auto simp: find_by_id_or_label_def)
  from f obtain i where i: "i < length t" "matches label ident (snd (t ! i))" "nr = t ! i"
    "\<forall>j<i. \<not> matches label ident (snd (t ! j))"
    by (auto simp: find_Some_iff)
  have t: "t = take i t @ (fst nr, r) # drop (Suc i) t"
    using i(1,3) r by (simp add: id_take_nth_drop)
  have "\<forall>x\<in>set (take i t). \<not> matches label ident (snd x)"
  proof
    fix x assume "x \<in> set (take i t)"
    then obtain j where "j < length (take i t)" "x = take i t ! j"
      by (auto simp: in_set_conv_nth)
    with i(1,4) show "\<not> matches label ident (snd x)" by simp
  qed
  with t i(2,3) r show ?thesis by blast
qed

lemma update_contact_target:
  assumes "update_contact env args db = (Inr out, c)"
  shows "\<exists>r. find_by_id_or_label (db Contacts) ''name'' (dict_get args ''id'') = Some r
           \<and> dict_get out ''id'' = col ''id'' r"
  using assms
  by (auto simp: update_contact_def get_db_def Let_def dict_get_def
      split: option.splits sum.splits if_splits)

lemma update_deal_target:
  assumes "update_deal env args db = (Inr out, c)"
  shows "\<exists>r. find_by_id_or_label (db Deals) ''title'' (dict_get args ''id'') = Some r
           \<and> dict_get out ''id'' = col ''id'' r"
  using assms
  by (auto simp: update_deal_def get_db_def Let_def dict_get_def
      split: option.splits sum.splits if_splits)

text \<open>
  Claim C2, as the code has it. The lookup returns the first row, in the order of the
  table, whose identity equals the identifier or whose lower-cased label matches the
  pattern \<open>%identifier%\<close>; it reports not found exactly when no row does either. The
  record that \<open>update_contact\<close> and \<open>update_deal\<close> change is that row. Being a function
  of the table and the identifier, the lookup gives the same row whenever it is
  repeated on unchanged data.
\<close>

theorem resolver_returns_first_match:
  "(find_by_id_or_label t label ident = None
      \<longleftrightarrow> (\<forall>nr\<in>set t. \<not> matches label ident (snd nr)))
   \<and> (\<forall>r. find_by_id_or_label t label ident = Some r \<longrightarrow>
         (\<exists>pre n post. t = pre @ (n, r) # post \<and> matches label ident r
            \<and> (\<forall>nr\<in>set pre. \<not> matches label ident (snd nr))))
   \<and> (\<forall>out c. update_contact env args db = (Inr out, c) \<longrightarrow>
         (\<exists>r. find_by_id_or_label (db Contacts) ''name'' (dict_get args ''id'') = Some r
            \<and> dict_get out ''id'' = col ''id'' r))
   \<and> (\<forall>out c. update_deal env args db = (Inr out, c) \<longrightarrow>
         (\<exists>r. find_by_id_or_label (db Deals) ''title'' (dict_get args ''id'') = Some r
            \<and> dict_get out ''id'' = col ''id'' r))"
  using find_by_id_or_label_None find_by_id_or_label_Some update_contact_target
    update_deal_target
  by blast

theorem resolver_returns_first_match_witness:
  "find_by_id_or_label (two_bobs Contacts) ''name'' (PStr ''bob'') = Some bob_old
   \<and> (\<exists>pre n post. two_bobs Contacts = pre @ (n, bob_old) # post
         \<and> matches ''name'' (PStr ''bob'') bob_old)"
proof -
  from resolver_returns_first_match [of "two_bobs Contacts" "''name''" "PStr ''bob''"]
  have "\<forall>r. find_by_id_or_label (two_bobs Contacts) ''name'' (PStr ''bob'') = Some r \<longrightarrow>
         (\<exists>pre n post. two_bobs Contacts = pre @ (n, r) # post \<and> matches ''name'' (PStr ''bob'') r
            \<and> (\<forall>nr\<in>set pre. \<not> matches ''name'' (PStr ''bob'') (snd nr)))"
    by blast
  with find_two_bobs show ?thesis by blast
qed

section \<open>Properties of the audit trail\<close>

lemma execute_Inr:
  assumes "execute env stmt c = Inr c1"
  shows "working c1 = stmt (working c)" "committed c1 = committed c"
    "observed c1 = observed c @ [committed c]"
  using assms by (auto simp: execute_def Let_def split: if_splits)

lemma audit_log_Inr:
  assumes "audit_log env c tbl rid act old new reason cr = Inr c2"
  shows "\<exists>e. working c2 = (working c)(AuditLog := working c AuditLog
                                 @ [(next_rowid (working c AuditLog), e)])
           \<and> col ''table_name'' e = PStr tbl \<and> col ''record_id'' e = rid
           \<and> col ''action'' e = PStr act \<and> col ''new_values'' e = json_or_none new"
    and "committed c2 = committed c" and "observed c2 = observed c @ [committed c]"
proof -
  let ?row = "[(''table_name'', PStr tbl), (''record_id'', rid), (''action'', PStr act),
            (''old_values'', json_or_none old), (''new_values'', json_or_none new),
            (''reason'', reason), (''conversation_ref'', cr)] @ audit_defaults env"
  from assms have ex: "execute env (insert_row AuditLog ?row) c = Inr c2"
    by (simp add: audit_log_def)
  note e = execute_Inr[OF ex]
  show "\<exists>e. working c2 = (working c)(AuditLog := working c AuditLog
                                 @ [(next_rowid (working c AuditLog), e)])
           \<and> col ''table_name'' e = PStr tbl \<and> col ''record_id'' e = rid
           \<and> col ''action'' e = PStr act \<and> col ''new_values'' e = json_or_none new"
    using e(1) by (intro exI[of _ ?row]) (simp add: insert_row_def col_def dict_get_def)
  show "committed c2 = committed c" by (rule e(2))
  show "observed c2 = observed c @ [committed c]" by (rule e(3))
qed

lemma fst_less_next_rowid: "nr \<in> set t \<Longrightarrow> fst nr < next_rowid t"
  by (induction t) (auto simp: next_rowid_def)

lemma find_app:
  "find P (xs @ ys) = (case find P xs of None \<Rightarrow> find P ys | Some x \<Rightarrow> Some x)"
  by (induction xs) auto

lemma row_by_rowid_new: "row_by_rowid (t @ [(next_rowid t, r)]) (next_rowid t) = Some r"
proof -
  have "find (\<lambda>nr. fst nr = next_rowid t) t = None"
    using fst_less_next_rowid[of _ t] by (fastforce simp: find_None_iff)
  then show ?thesis by (simp add: row_by_rowid_def find_app)
qed

lemma inserted:
  "row_by_rowid (insert_row tn r db tn) (fst (last (insert_row tn r db tn))) = Some r"
  by (simp add: insert_row_def row_by_rowid_new)

lemma col_update: "col k (AList.update a b r) = (if k = a then b else col k r)"
  by (simp add: col_def dict_get_def update_conv')

lemma col_apply_updates:
  "col k (apply_updates ups r) = (case map_of (rev ups) k of Some v \<Rightarrow> v | None \<Rightarrow> col k r)"
proof (induction ups arbitrary: r)
  case Nil
  then show ?case by (simp add: apply_updates_def)
next
  case (Cons u us)
  have "apply_updates (u # us) r = apply_updates us (AList.update (fst u) (snd u) r)"
    by (simp add: apply_updates_def)
  then show ?case
    using Cons.IH[of "AList.update (fst u) (snd u) r"]
    by (cases u) (auto simp: col_update map_add_def split: option.splits)
qed

lemma ids_present_audit: "ids_present (db(AuditLog := t)) = ids_present db"
  by (simp add: ids_present_def)

lemma col_id_new_row: "col ''id'' (new_row env given dflt) = PStr (fresh_id env)"
  by (simp add: new_row_def col_def dict_get_def)

lemma ids_present_insert_row:
  assumes "ids_present db" and "col ''id'' r \<noteq> PNone"
  shows "ids_present (insert_row tn r db)"
  using assms by (auto simp: ids_present_def insert_row_def)

lemma ids_present_update_rows:
  assumes "ids_present db" and "''id'' \<notin> fst ` set ups"
  shows "ids_present (update_rows tn ident ups db)"
proof -
  have "map_of (rev ups) ''id'' = None"
    using assms(2) by (simp add: map_of_eq_None_iff)
  then have same: "col ''id'' (apply_updates ups r) = col ''id'' r" for r
    by (simp add: col_apply_updates)
  show ?thesis
    unfolding ids_present_def
  proof (intro allI impI ballI)
    fix tn' nr
    assume ne: "tn' \<noteq> AuditLog" and nr: "nr \<in> set (update_rows tn ident ups db tn')"
    have old: "\<forall>nr\<in>set (db tn'). col ''id'' (snd nr) \<noteq> PNone"
      using assms(1) ne unfolding ids_present_def by blast
    show "col ''id'' (snd nr) \<noteq> PNone"
    proof (cases "tn' = tn")
      case False
      with nr old show ?thesis by (simp add: update_rows_def)
    next
      case True
      with nr have "nr \<in> (\<lambda>nr. if sql_eq (col ''id'' (snd nr)) ident
                                then (fst nr, apply_updates ups (snd nr)) else nr) ` set (db tn')"
        by (simp only: update_rows_def fun_upd_same set_map)
      then obtain nr0 where nr0: "nr0 \<in> set (db tn')"
        and eq: "nr = (if sql_eq (col ''id'' (snd nr0)) ident
                       then (fst nr0, apply_updates ups (snd nr0)) else nr0)"
        by blast
      from eq have "col ''id'' (snd nr) = col ''id'' (snd nr0)"
        by (simp add: same)
      with old nr0 show ?thesis by simp
    qed
  qed
qed

lemma detach_ids:
  assumes "\<forall>nr\<in>set t. col ''id'' (snd nr) \<noteq> PNone"
  shows "\<forall>nr\<in>set (detach act ident t). col ''id'' (snd nr) \<noteq> PNone"
  using assms by (cases act) (auto simp: detach_def col_update)

lemma ids_present_delete_contact_rows:
  assumes "ids_present db"
  shows "ids_present (delete_contact_rows act ident db)"
  unfolding ids_present_def
proof (intro allI impI)
  fix tn :: tname
  assume "tn \<noteq> AuditLog"
  then have old: "\<forall>nr\<in>set (db tn). col ''id'' (snd nr) \<noteq> PNone"
    using assms unfolding ids_present_def by blast
  show "\<forall>nr\<in>set (delete_contact_rows act ident db tn). col ''id'' (snd nr) \<noteq> PNone"
  proof (cases tn)
    case Contacts
    with old show ?thesis by (simp add: delete_contact_rows_def)
  next
    case Deals
    with detach_ids[OF old] show ?thesis by (simp add: delete_contact_rows_def)
  next
    case Interactions
    with detach_ids[OF old] show ?thesis by (simp add: delete_contact_rows_def)
  next
    case Tasks
    with detach_ids[OF old] show ?thesis by (simp add: delete_contact_rows_def)
  next
    case AuditLog
    with \<open>tn \<noteq> AuditLog\<close> show ?thesis by simp
  qed
qed

lemma keys_collect:
  "k \<in> fst ` set (collect names args) \<longleftrightarrow> k \<in> set names \<and> dict_get args k \<noteq> PNone"
  by (induction names) (auto simp: collect_def)

lemma collect_key: "(k, v) \<in> set (collect names args) \<Longrightarrow> k \<in> set names"
  using keys_collect[of k names args] by force

lemma collect_no_key: "k \<notin> set names \<Longrightarrow> (k, v) \<notin> set (collect names args)"
  using collect_key by blast

lemma keys_deal_updates:
  assumes "deal_updates env args = Inr ups"
  shows "''id'' \<notin> fst ` set ups" and "\<not> has_key ''updated_at'' ups"
proof -
  have "k \<notin> fst ` set ups" if "k = ''id'' \<or> k = ''updated_at''" for k
  proof -
    let ?c = "collect [''title'', ''value'', ''currency'', ''stage'', ''probability'', ''notes''] args"
    have c: "k \<notin> fst ` set ?c"
      using that by (auto simp: keys_collect)
    from assms obtain tl where "ups = ?c @ tl"
      and "fst ` set tl \<subseteq> {''expected_close'', ''closed_at''}"
      by (auto simp: deal_updates_def Let_def split: if_splits sum.splits)
    with c that show ?thesis by (auto simp: image_Un)
  qed
  then show "''id'' \<notin> fst ` set ups" and "\<not> has_key ''updated_at'' ups"
    by (simp_all add: has_key_def map_of_eq_None_iff)
qed

lemma row_updated_apply_updates:
  assumes "ups = nv \<or> (\<exists>u. ups = nv @ [(''updated_at'', u)] \<and> \<not> has_key ''updated_at'' nv)"
  shows "row_updated nv r (apply_updates ups r)"
proof -
  have "(k = ''updated_at'' \<and> \<not> has_key k nv)
        \<or> col k (apply_updates ups r) = (case map_of (rev nv) k of Some v \<Rightarrow> v | None \<Rightarrow> col k r)"
    for k
  proof (cases "ups = nv")
    case True
    then show ?thesis by (simp add: col_apply_updates)
  next
    case False
    with assms obtain u where u: "ups = nv @ [(''updated_at'', u)]" "\<not> has_key ''updated_at'' nv"
      by blast
    show ?thesis
    proof (cases "k = ''updated_at''")
      case True
      with u(2) show ?thesis by simp
    next
      case False
      then show ?thesis by (simp add: u(1) col_apply_updates)
    qed
  qed
  then show ?thesis by (simp add: row_updated_def list_all_iff)
qed

lemma not_delete:
  "audit_action cmd \<noteq> ''DELETE'' \<Longrightarrow> elsewhere env cmd rid t = t"
  by (cases cmd) (simp_all add: elsewhere_def audit_action_def)


lemma fail_start: "outcome_ok env cmd db (Inl e, get_db db)"
  by (simp add: outcome_ok_def get_db_def)

lemma fail_after_execute:
  assumes "execute env stmt (get_db db) = Inr c1"
  shows "outcome_ok env' cmd db (Inl e, c1)"
  using execute_Inr[OF assms] by (simp add: outcome_ok_def get_db_def)

lemma audited_commit:
  assumes ex: "execute env stmt (get_db db) = Inr c1"
    and al: "audit_log env c1 (audit_table cmd) rid (audit_action cmd) old new reason cr = Inr c2"
    and na: "stmt db AuditLog = db AuditLog"
    and mu: "mutation (audit_action cmd) rid (json_or_none new) (db (entity_table cmd))
               (stmt db (entity_table cmd))"
    and el: "\<forall>tn. tn \<noteq> AuditLog \<and> tn \<noteq> entity_table cmd \<longrightarrow>
                  stmt db tn = elsewhere env cmd rid (db tn)"
    and ip: "ids_present db \<Longrightarrow> ids_present (stmt db)"
  shows "outcome_ok env cmd db (Inr out, commit c2)"
proof -
  note e = execute_Inr[OF ex]
  from audit_log_Inr[OF al] obtain a where
    a: "working c2 = (working c1)(AuditLog := working c1 AuditLog @ [(next_rowid (working c1 AuditLog), a)])"
      "col ''table_name'' a = PStr (audit_table cmd)" "col ''record_id'' a = rid"
      "col ''action'' a = PStr (audit_action cmd)" "col ''new_values'' a = json_or_none new"
    and c: "committed c2 = committed c1" and ob: "observed c2 = observed c1 @ [committed c1]"
    by blast
  have w1: "working c1 = stmt db" using e(1) by (simp add: get_db_def)
  have ne: "entity_table cmd \<noteq> AuditLog"
    by (cases cmd) (simp_all add: entity_table_def)
  have "audited env cmd db (working c2)"
    unfolding audited_def
    using a w1 na mu ne el
    by (intro exI[of _ "next_rowid (db AuditLog)"] exI[of _ a]) auto
  moreover have "\<forall>s\<in>set (observed (commit c2)). s = db \<or> s = working c2"
    using e ob c by (auto simp: commit_def get_db_def)
  moreover have "ids_present db \<longrightarrow> ids_present (working c2)"
    using ip by (simp add: a(1) w1 ids_present_audit)
  ultimately show ?thesis
    by (simp add: outcome_ok_def commit_def)
qed

lemma insert_pattern:
  assumes tn: "tn = entity_table cmd" and act: "audit_action cmd = ''INSERT''"
    and tbl: "tbl = audit_table cmd" and idr: "col ''id'' row \<noteq> PNone"
  shows "outcome_ok env cmd db
     (case execute env (insert_row tn row) (get_db db) of
        Inl e \<Rightarrow> (Inl e, get_db db)
      | Inr c1 \<Rightarrow>
         (case row_by_rowid (working c1 tn) (fst (last (working c1 tn))) of
            None \<Rightarrow> (Inl TypeError, c1)
          | Some r \<Rightarrow>
             (case audit_log env c1 tbl (col ''id'' r) ''INSERT'' old new reason cr of
                Inl e \<Rightarrow> (Inl e, c1)
              | Inr c2 \<Rightarrow> (Inr (out r), commit c2))))"
proof (cases "execute env (insert_row tn row) (get_db db)")
  case (Inl e)
  then show ?thesis by (simp add: fail_start)
next
  case (Inr c1)
  have w1: "working c1 = insert_row tn row db"
    using execute_Inr(1)[OF Inr] by (simp add: get_db_def)
  have found: "row_by_rowid (working c1 tn) (fst (last (working c1 tn))) = Some row"
    by (simp add: w1 inserted)
  have ne: "tn \<noteq> AuditLog"
    unfolding tn by (cases cmd) (simp_all add: entity_table_def)
  show ?thesis
  proof (cases "audit_log env c1 tbl (col ''id'' row) ''INSERT'' old new reason cr")
    case (Inl e)
    with Inr found show ?thesis by (simp add: fail_after_execute[OF Inr])
  next
    case al: (Inr c2)
    have nd: "audit_action cmd \<noteq> ''DELETE''" by (simp add: act)
    have "outcome_ok env cmd db (Inr (out row), commit c2)"
    proof (rule audited_commit[OF Inr])
      show "audit_log env c1 (audit_table cmd) (col ''id'' row) (audit_action cmd) old new reason cr
              = Inr c2"
        using al by (simp add: tbl act)
      show "insert_row tn row db AuditLog = db AuditLog"
        using ne by (simp add: insert_row_def)
      show "mutation (audit_action cmd) (col ''id'' row) (json_or_none new) (db (entity_table cmd))
              (insert_row tn row db (entity_table cmd))"
        by (simp add: act mutation_def insert_row_def tn)
      show "\<forall>tn'. tn' \<noteq> AuditLog \<and> tn' \<noteq> entity_table cmd \<longrightarrow>
                  insert_row tn row db tn' = elsewhere env cmd (col ''id'' row) (db tn')"
        by (simp add: insert_row_def tn not_delete[OF nd])
      show "ids_present (insert_row tn row db)" if "ids_present db"
        using that idr by (rule ids_present_insert_row)
    qed
    with Inr found al show ?thesis by simp
  qed
qed

lemma update_pattern:
  assumes tn: "tn = entity_table cmd" and act: "audit_action cmd = ''UPDATE''"
    and tbl: "tbl = audit_table cmd"
    and row: "(n, row) \<in> set (db tn)" and ids: "ids_present db"
    and keys: "''id'' \<notin> fst ` set ups" and nv: "nv \<noteq> []"
    and rel: "ups = nv \<or> (\<exists>u. ups = nv @ [(''updated_at'', u)] \<and> \<not> has_key ''updated_at'' nv)"
  shows "outcome_ok env cmd db
     (case execute env (update_rows tn (col ''id'' row) ups) (get_db db) of
        Inl e \<Rightarrow> (Inl e, get_db db)
      | Inr c1 \<Rightarrow>
         (case audit_log env c1 tbl (col ''id'' row) ''UPDATE'' old (Some nv) reason cr of
            Inl e \<Rightarrow> (Inl e, c1)
          | Inr c2 \<Rightarrow> (Inr out, commit c2)))"
proof (cases "execute env (update_rows tn (col ''id'' row) ups) (get_db db)")
  case (Inl e)
  then show ?thesis by (simp add: fail_start)
next
  case (Inr c1)
  have ne: "tn \<noteq> AuditLog"
    unfolding tn by (cases cmd) (simp_all add: entity_table_def)
  show ?thesis
  proof (cases "audit_log env c1 tbl (col ''id'' row) ''UPDATE'' old (Some nv) reason cr")
    case (Inl e)
    with Inr show ?thesis by (simp add: fail_after_execute[OF Inr])
  next
    case al: (Inr c2)
    have nd: "audit_action cmd \<noteq> ''DELETE''" by (simp add: act)
    have "outcome_ok env cmd db (Inr out, commit c2)"
    proof (rule audited_commit[OF Inr])
      show "audit_log env c1 (audit_table cmd) (col ''id'' row) (audit_action cmd) old (Some nv)
              reason cr = Inr c2"
        using al by (simp add: tbl act)
      show "update_rows tn (col ''id'' row) ups db AuditLog = db AuditLog"
        using ne by (simp add: update_rows_def)
      show "\<forall>tn'. tn' \<noteq> AuditLog \<and> tn' \<noteq> entity_table cmd \<longrightarrow>
                  update_rows tn (col ''id'' row) ups db tn' = elsewhere env cmd (col ''id'' row) (db tn')"
        by (simp add: update_rows_def tn not_delete[OF nd])
      have "col ''id'' (snd (n, row)) \<noteq> PNone"
        using row ids ne unfolding ids_present_def by blast
      then have "has_id (col ''id'' row) (n, row)"
        by (simp add: has_id_def sql_eq_def)
      with row have "\<exists>nr\<in>set (db tn). has_id (col ''id'' row) nr" by blast
      moreover have after: "update_rows tn (col ''id'' row) ups db tn
          = map (\<lambda>nr. if has_id (col ''id'' row) nr then (fst nr, apply_updates ups (snd nr))
                        else nr) (db tn)"
        by (simp add: update_rows_def has_id_def)
      moreover have "map fst (update_rows tn (col ''id'' row) ups db tn) = map fst (db tn)"
        unfolding after by (induction "db tn") simp_all
      moreover have "list_all2 (\<lambda>nr nr'. if has_id (col ''id'' row) nr
                                           then row_updated nv (snd nr) (snd nr')
                                           else snd nr' = snd nr)
                       (db tn) (update_rows tn (col ''id'' row) ups db tn)"
        unfolding after
        by (simp add: list_all2_map2 list_all2_same row_updated_apply_updates[OF rel])
      ultimately show "mutation (audit_action cmd) (col ''id'' row) (json_or_none (Some nv))
              (db (entity_table cmd)) (update_rows tn (col ''id'' row) ups db (entity_table cmd))"
        unfolding act mutation_def tn[symmetric] using nv by (simp add: json_or_none_def)
      show "ids_present (update_rows tn (col ''id'' row) ups db)"
        using ids keys by (rule ids_present_update_rows)
    qed
    with Inr al show ?thesis by simp
  qed
qed

lemma find_by_id_or_label_mem:
  assumes "find_by_id_or_label t label ident = Some r"
  shows "\<exists>n. (n, r) \<in> set t"
proof -
  from assms obtain nr where f: "find (\<lambda>nr. matches label ident (snd nr)) t = Some nr"
    and r: "r = snd nr"
    by (auto simp: find_by_id_or_label_def)
  from f have "nr \<in> set t" by (auto simp: find_Some_iff)
  then show ?thesis using r by (intro exI[of _ "fst nr"]) simp
qed

lemma find_by_id_mem:
  assumes "find_by_id t ident = Some r"
  shows "\<exists>n. (n, r) \<in> set t \<and> has_id ident (n, r)"
proof -
  from assms obtain nr where f: "find (\<lambda>nr. sql_eq (col ''id'' (snd nr)) ident) t = Some nr"
    and r: "r = snd nr"
    by (auto simp: find_by_id_def)
  from f have "nr \<in> set t" "sql_eq (col ''id'' (snd nr)) ident"
    by (auto simp: find_Some_iff)
  then show ?thesis using r by (intro exI[of _ "fst nr"]) (simp add: has_id_def)
qed

lemma add_contact_ok: "outcome_ok env AddContact db (add_contact env args db)"
  unfolding add_contact_def Let_def
  by (rule insert_pattern)
     (simp_all add: entity_table_def audit_action_def audit_table_def col_id_new_row)

lemma add_deal_ok: "outcome_ok env AddDeal db (add_deal env args db)"
proof (cases "parse_date_arg env (dict_get args ''expected_close'')")
  case (Inl e)
  then show ?thesis by (simp add: add_deal_def fail_start)
next
  case (Inr d)
  then show ?thesis
    unfolding add_deal_def Let_def
    by (simp only: sum.case)
      (rule insert_pattern,
       simp_all add: entity_table_def audit_action_def audit_table_def col_id_new_row)
qed

lemma add_task_ok: "outcome_ok env AddTask db (add_task env args db)"
proof (cases "parse_date_arg env (dict_get args ''due'')")
  case (Inl e)
  then show ?thesis by (simp add: add_task_def fail_start)
next
  case (Inr d)
  then show ?thesis
    unfolding add_task_def Let_def
    by (simp only: sum.case)
      (rule insert_pattern,
       simp_all add: entity_table_def audit_action_def audit_table_def col_id_new_row)
qed

lemma log_interaction_ok: "outcome_ok env LogInteraction db (log_interaction env args db)"
proof (cases "if py_truthy (dict_get args ''date'')
               then parse_date_arg env (dict_get args ''date'')
               else Inr (PStr (isoformat (now_at env 1)))")
  case (Inl e)
  then show ?thesis by (simp add: log_interaction_def fail_start)
next
  case (Inr d)
  then show ?thesis
    unfolding log_interaction_def Let_def
    by (simp only: sum.case)
      (rule insert_pattern,
       simp_all add: entity_table_def audit_action_def audit_table_def col_id_new_row)
qed

lemma working_get_db: "working (get_db db) = db"
  by (simp add: get_db_def)

lemma update_contact_ok:
  assumes "ids_present db"
  shows "outcome_ok env UpdateContact db (update_contact env args db)"
proof (cases "find_by_id_or_label (db Contacts) ''name'' (dict_get args ''id'')")
  case None
  then show ?thesis
    unfolding update_contact_def Let_def working_get_db by (simp add: fail_start)
next
  case (Some row)
  then obtain n where n: "(n, row) \<in> set (db Contacts)"
    by (auto dest: find_by_id_or_label_mem)
  show ?thesis
    unfolding update_contact_def Let_def working_get_db Some option.case
    by (auto simp: fail_start
        intro!: update_pattern[where n = n, OF _ _ _ n assms]
        simp: entity_table_def audit_action_def audit_table_def keys_collect image_Un
          collect_no_key)
qed

lemma update_deal_ok:
  assumes "ids_present db"
  shows "outcome_ok env UpdateDeal db (update_deal env args db)"
proof (cases "find_by_id_or_label (db Deals) ''title'' (dict_get args ''id'')")
  case None
  then show ?thesis
    unfolding update_deal_def Let_def working_get_db by (simp add: fail_start)
next
  case (Some row)
  then obtain n where n: "(n, row) \<in> set (db Deals)"
    by (auto dest: find_by_id_or_label_mem)
  show ?thesis
  proof (cases "deal_updates env args")
    case (Inl e)
    then show ?thesis
      unfolding update_deal_def Let_def working_get_db Some option.case
      by (simp add: fail_start)
  next
    case (Inr ups)
    have nk: "(''id'', b) \<notin> set ups" for b
      using keys_deal_updates(1)[OF Inr] by force
    show ?thesis
      unfolding update_deal_def Let_def working_get_db Some option.case Inr sum.case
      by (auto simp: fail_start
          intro!: update_pattern[where n = n, OF _ _ _ n assms]
          simp: entity_table_def audit_action_def audit_table_def image_Un nk
            keys_deal_updates(2)[OF Inr])
  qed
qed

lemma complete_task_ok:
  assumes "ids_present db"
  shows "outcome_ok env CompleteTask db (complete_task env args db)"
proof (cases "find_by_id_or_label (db Tasks) ''title'' (dict_get args ''id'')")
  case None
  then show ?thesis
    unfolding complete_task_def Let_def working_get_db by (simp add: fail_start)
next
  case (Some row)
  then obtain n where n: "(n, row) \<in> set (db Tasks)"
    by (auto dest: find_by_id_or_label_mem)
  show ?thesis
    unfolding complete_task_def Let_def working_get_db Some option.case
    by (auto simp: fail_start
        intro!: update_pattern[where n = n, OF _ _ _ n assms]
        simp: entity_table_def audit_action_def audit_table_def keys_collect image_Un
          collect_no_key)
qed

lemma delete_contact_ok: "outcome_ok env DeleteContact db (delete_contact env args db)"
proof (cases "find_by_id (db Contacts) (dict_get args ''id'')")
  case None
  then show ?thesis
    unfolding delete_contact_def Let_def working_get_db by (simp add: fail_start)
next
  case (Some row)
  then obtain n where n: "(n, row) \<in> set (db Contacts)" "has_id (dict_get args ''id'') (n, row)"
    by (auto dest: find_by_id_mem)
  let ?stmt = "delete_contact_rows (on_delete env) (dict_get args ''id'')"
  show ?thesis
  proof (cases "execute env ?stmt (get_db db)")
    case (Inl e)
    then show ?thesis
      unfolding delete_contact_def Let_def working_get_db Some option.case
      by (simp add: fail_start)
  next
    case ex: (Inr c1)
    show ?thesis
    proof (cases "audit_log env c1 ''contacts'' (dict_get args ''id'') ''DELETE'' (Some row) None
                    (dict_get args ''reason'') PNone")
      case (Inl e)
      then show ?thesis
        unfolding delete_contact_def Let_def working_get_db Some option.case ex sum.case
        by (simp add: fail_after_execute[OF ex])
    next
      case al: (Inr c2)
      have "outcome_ok env DeleteContact db
              (Inr [(''status'', PStr ''deleted''), (''id'', dict_get args ''id''),
                    (''name'', col ''name'' row)], commit c2)"
      proof (rule audited_commit[OF ex])
        show "audit_log env c1 (audit_table DeleteContact) (dict_get args ''id'')
                (audit_action DeleteContact) (Some row) None (dict_get args ''reason'') PNone
              = Inr c2"
          using al by (simp add: audit_table_def audit_action_def entity_table_def)
        show "?stmt db AuditLog = db AuditLog"
          by (simp add: delete_contact_rows_def)
        show "\<forall>tn. tn \<noteq> AuditLog \<and> tn \<noteq> entity_table DeleteContact \<longrightarrow>
                ?stmt db tn = elsewhere env DeleteContact (dict_get args ''id'') (db tn)"
        proof (intro allI impI)
          fix tn assume "tn \<noteq> AuditLog \<and> tn \<noteq> entity_table DeleteContact"
          then show "?stmt db tn = elsewhere env DeleteContact (dict_get args ''id'') (db tn)"
            by (cases tn) (simp_all add: delete_contact_rows_def elsewhere_def entity_table_def)
        qed
        show "mutation (audit_action DeleteContact) (dict_get args ''id'') (json_or_none None)
                (db (entity_table DeleteContact)) (?stmt db (entity_table DeleteContact))"
        proof -
          have "\<exists>nr\<in>set (db Contacts). has_id (dict_get args ''id'') nr"
            using n by blast
          moreover have "?stmt db Contacts
              = filter (\<lambda>nr. \<not> has_id (dict_get args ''id'') nr) (db Contacts)"
            by (simp add: delete_contact_rows_def has_id_def)
          ultimately show ?thesis
            by (simp add: mutation_def audit_action_def entity_table_def)
        qed
        show "ids_present (?stmt db)" if "ids_present db"
          using that by (rule ids_present_delete_contact_rows)
      qed
      then show ?thesis
        unfolding delete_contact_def Let_def working_get_db Some option.case ex sum.case al
        by simp
    qed
  qed
qed

text \<open>
  Claim C1. Every command of \<open>main\<close> that creates, updates or deletes a contact, a deal,
  an interaction or a task and succeeds, on a database whose records all have an identity,
  commits exactly one new entry of the audit trail, which names the table, the record and
  the action of the change, and commits that change with it: the new row with that
  identity; for an update, in every row with that identity, the values the entry records
  as new, with no other column changed but \<open>updated_at\<close>; the removal of the rows with
  that identity. No other row and no other table changes, but for what the schema's
  referential action does to the rows that refer to a deleted contact. Every state of the
  committed database that can be observed while the command runs is either the state
  before it, with neither the change nor the entry, or the state after it, with both. A
  command that fails commits nothing. In the database a command leaves, all records have
  an identity again, so that the condition holds all along a run of commands that starts
  from an empty database.
\<close>

theorem every_mutation_audited:
  assumes "ids_present db" and "run env cmd args db = (res, c)"
  shows "(\<forall>out. res = Inr out \<longrightarrow>
            audited env cmd db (committed c) \<and> (\<forall>s\<in>set (observed c). s = db \<or> s = committed c))
       \<and> (\<forall>e. res = Inl e \<longrightarrow> committed c = db \<and> (\<forall>s\<in>set (observed c). s = db))
       \<and> ids_present (committed c)"
proof -
  have "outcome_ok env cmd db (run env cmd args db)"
    using assms(1)
    by (cases cmd)
       (simp_all add: run_def add_contact_ok update_contact_ok delete_contact_ok add_deal_ok
         update_deal_ok log_interaction_ok add_task_ok complete_task_ok)
  then show ?thesis
    using assms by (auto simp: outcome_ok_def)
qed

lemma add_deal_lead:
  "add_deal env_example args_lead empty_db
     = (Inr [(''status'', PStr ''created''), (''id'', PStr ''d1''), (''title'', PStr ''Big deal''),
             (''value'', PFloat 1000), (''stage'', PStr ''lead'')],
        \<lparr>committed = db_lead, working = db_lead, observed = [empty_db, empty_db, db_lead]\<rparr>)"
  by (simp add: add_deal_def get_db_def resolve_contact_def parse_date_arg_def dict_get_def
      args_lead_def py_truthy_def py_or_def execute_def audit_log_def env_example_simps Let_def
      insert_row_def next_rowid_def empty_db_def row_by_rowid_def new_row_def deal_defaults_def
      audit_defaults_def json_or_none_def col_def commit_def db_lead_def deal_row_def
      audit_row_def fun_upd_twist)

lemma find_d1:
  "find_by_id_or_label [(n, deal_row s cl u)] ''title'' (PStr ''d1'') = Some (deal_row s cl u)"
  by (simp add: find_by_id_or_label_def matches_def sql_eq_def col_def dict_get_def deal_row_def)

lemma deal_row_not_empty: "deal_row s cl u \<noteq> []"
  by (simp add: deal_row_def)

lemma deals_examples:
  "db_lead Deals = [(1, deal_row ''lead'' PNone ''2024-02-27 13:45:10'')]"
  "db_won Deals = [(1, deal_row ''won'' (PStr ''2024-02-27T13:45:10.000500'')
                       ''2024-02-27T13:45:10.000500'')]"
  "db_reopened Deals = [(1, deal_row ''lead'' (PStr ''2024-02-27T13:45:10.000500'')
                            ''2024-02-27T13:45:10.000500'')]"
  "db_created_won Deals = [(1, deal_row ''won'' PNone ''2024-02-27 13:45:10'')]"
  by (simp_all add: db_lead_def db_won_def db_reopened_def db_created_won_def)

lemma deal_updates_stage:
  "deal_updates env_example [(''id'', PStr ''d1''), (''stage'', PStr ''won'')]
     = Inr [(''stage'', PStr ''won''), (''closed_at'', PStr ''2024-02-27T13:45:10.000500'')]"
  "deal_updates env_example [(''id'', PStr ''d1''), (''stage'', PStr ''lead'')]
     = Inr [(''stage'', PStr ''lead'')]"
  by (simp_all add: deal_updates_def collect_def dict_get_def py_truthy_def terminal_def
      env_example_simps isoformat_T_example)

lemma apply_updates_deal_row:
  "apply_updates [(''stage'', PStr s'), (''closed_at'', cl'), (''updated_at'', PStr u')]
     (deal_row s cl u) = deal_row s' cl' u'"
  "apply_updates [(''stage'', PStr s'), (''updated_at'', PStr u')] (deal_row s cl u)
     = deal_row s' cl u'"
  by (simp_all add: apply_updates_def deal_row_def)

lemma update_deal_won:
  "update_deal env_example [(''id'', PStr ''d1''), (''stage'', PStr ''won'')] db_lead
     = (Inr [(''status'', PStr ''updated''), (''id'', PStr ''d1''),
             (''changes'', PDict [(''stage'', PStr ''won''),
                                  (''closed_at'', PStr ''2024-02-27T13:45:10.000500'')])],
        \<lparr>committed = db_won, working = db_won, observed = [db_lead, db_lead, db_won]\<rparr>)"
proof -
  have id: "col ''id'' (deal_row s cl u) = PStr ''d1''" for s cl u
    by (simp add: col_def dict_get_def deal_row_def)
  have al: "db_lead AuditLog = [(1, audit_row ''INSERT'' PNone
                         (PDict [(''title'', PStr ''Big deal''), (''value'', PFloat 1000),
                                 (''stage'', PStr ''lead'')]))]"
    by (simp add: db_lead_def)
  show ?thesis
    unfolding update_deal_def Let_def working_get_db
    by (simp add: dict_get_def deals_examples find_d1 deal_updates_stage [unfolded dict_get_def]
        execute_def audit_log_def env_example_simps get_db_def update_rows_def sql_eq_def id
        apply_updates_deal_row isoformat_T_example insert_row_def next_rowid_def al
        json_or_none_def audit_defaults_def commit_def Let_def deal_row_not_empty)
      (simp add: db_won_def audit_row_def deal_row_def al numeral_2_eq_2)
qed

lemma audit_entry_without_update:
  "\<not> audited env_example UpdateDeal db_lead (db_lead(AuditLog := db_won AuditLog))"
proof
  assume "audited env_example UpdateDeal db_lead (db_lead(AuditLog := db_won AuditLog))"
  then obtain n e where
    e: "db_won AuditLog = db_lead AuditLog @ [(n, e)]"
    and m: "mutation ''UPDATE'' (col ''record_id'' e) (col ''new_values'' e)
              (db_lead Deals) (db_lead Deals)"
    by (auto simp: audited_def audit_action_def entity_table_def)
  from e have "e = audit_row ''UPDATE''
                     (PDict (deal_row ''lead'' PNone ''2024-02-27 13:45:10''))
                     (PDict [(''stage'', PStr ''won''),
                             (''closed_at'', PStr ''2024-02-27T13:45:10.000500'')])"
    by (simp add: db_won_def)
  then have cols: "col ''record_id'' e = PStr ''d1''"
    "col ''new_values'' e = PDict [(''stage'', PStr ''won''),
                                   (''closed_at'', PStr ''2024-02-27T13:45:10.000500'')]"
    by (simp_all add: audit_row_def col_def dict_get_def)
  from m show False
    unfolding cols deals_examples
    by (simp add: mutation_def has_id_def sql_eq_def row_updated_def has_key_def col_def
        dict_get_def deal_row_def)
qed

theorem every_mutation_audited_witness:
  "ids_present empty_db
   \<and> run env_example AddDeal args_lead empty_db
       = (Inr [(''status'', PStr ''created''), (''id'', PStr ''d1''), (''title'', PStr ''Big deal''),
               (''value'', PFloat 1000), (''stage'', PStr ''lead'')],
          \<lparr>committed = db_lead, working = db_lead, observed = [empty_db, empty_db, db_lead]\<rparr>)
   \<and> audited env_example AddDeal empty_db db_lead \<and> ids_present db_lead
   \<and> run env_example UpdateDeal [(''id'', PStr ''d1''), (''stage'', PStr ''won'')] db_lead
       = (Inr [(''status'', PStr ''updated''), (''id'', PStr ''d1''),
               (''changes'', PDict [(''stage'', PStr ''won''),
                                    (''closed_at'', PStr ''2024-02-27T13:45:10.000500'')])],
          \<lparr>committed = db_won, working = db_won, observed = [db_lead, db_lead, db_won]\<rparr>)
   \<and> audited env_example UpdateDeal db_lead db_won
   \<and> run env_example UpdateDeal [(''id'', PStr ''zz'')] empty_db
       = (Inl (SystemExit [(''error'', PStr ''Deal not found: zz'')]), get_db empty_db)
   \<and> committed (get_db empty_db) = empty_db"
proof -
  have ip: "ids_present empty_db"
    by (simp add: ids_present_def empty_db_def)
  have r1: "run env_example AddDeal args_lead empty_db
       = (Inr [(''status'', PStr ''created''), (''id'', PStr ''d1''), (''title'', PStr ''Big deal''),
               (''value'', PFloat 1000), (''stage'', PStr ''lead'')],
          \<lparr>committed = db_lead, working = db_lead, observed = [empty_db, empty_db, db_lead]\<rparr>)"
    by (simp add: run_def add_deal_lead)
  have r2: "run env_example UpdateDeal [(''id'', PStr ''zz'')] empty_db
       = (Inl (SystemExit [(''error'', PStr ''Deal not found: zz'')]), get_db empty_db)"
    by (simp add: run_def update_deal_def get_db_def find_by_id_or_label_def empty_db_def
        dict_get_def str_of_def Let_def)
  have cm: "committed \<lparr>committed = db_lead, working = db_lead,
                         observed = [empty_db, empty_db, db_lead]\<rparr> = db_lead"
    by simp
  note t = every_mutation_audited[OF ip r1, unfolded cm]
  have a1: "audited env_example AddDeal empty_db db_lead"
    using t by blast
  have a3: "ids_present db_lead"
    using t by blast
  have r3: "run env_example UpdateDeal [(''id'', PStr ''d1''), (''stage'', PStr ''won'')] db_lead
       = (Inr [(''status'', PStr ''updated''), (''id'', PStr ''d1''),
               (''changes'', PDict [(''stage'', PStr ''won''),
                                    (''closed_at'', PStr ''2024-02-27T13:45:10.000500'')])],
          \<lparr>committed = db_won, working = db_won, observed = [db_lead, db_lead, db_won]\<rparr>)"
    by (simp add: run_def update_deal_won)
  have cw: "committed \<lparr>committed = db_won, working = db_won,
                         observed = [db_lead, db_lead, db_won]\<rparr> = db_won"
    by simp
  have a4: "audited env_example UpdateDeal db_lead db_won"
    using every_mutation_audited[OF a3 r3, unfolded cw] by blast
  have a2: "committed (get_db empty_db) = empty_db"
    using every_mutation_audited[OF ip r2] by simp
  show ?thesis by (intro conjI ip r1 a1 a3 r3 a4 r2 a2)
qed

section \<open>Properties of the closing time of deals\<close>

lemma add_deal_won:
  "add_deal env_example args_won empty_db
     = (Inr [(''status'', PStr ''created''), (''id'', PStr ''d1''), (''title'', PStr ''Big deal''),
             (''value'', PFloat 1000), (''stage'', PStr ''won'')],
        \<lparr>committed = db_created_won, working = db_created_won,
           observed = [empty_db, empty_db, db_created_won]\<rparr>)"
  by (simp add: add_deal_def get_db_def resolve_contact_def parse_date_arg_def dict_get_def
      args_won_def py_truthy_def py_or_def execute_def audit_log_def env_example_simps Let_def
      insert_row_def next_rowid_def empty_db_def row_by_rowid_def new_row_def deal_defaults_def
      audit_defaults_def json_or_none_def col_def commit_def db_created_won_def deal_row_def
      audit_row_def fun_upd_twist)

lemma update_deal_reopen:
  "update_deal env_example [(''id'', PStr ''d1''), (''stage'', PStr ''lead'')] db_won
     = (Inr [(''status'', PStr ''updated''), (''id'', PStr ''d1''),
             (''changes'', PDict [(''stage'', PStr ''lead'')])],
        \<lparr>committed = db_reopened, working = db_reopened,
           observed = [db_won, db_won, db_reopened]\<rparr>)"
proof -
  have id: "col ''id'' (deal_row s cl u) = PStr ''d1''" for s cl u
    by (simp add: col_def dict_get_def deal_row_def)
  have al: "db_won AuditLog = [(1, audit_row ''INSERT'' PNone
                         (PDict [(''title'', PStr ''Big deal''), (''value'', PFloat 1000),
                                 (''stage'', PStr ''lead'')])),
                  (2, audit_row ''UPDATE''
                         (PDict (deal_row ''lead'' PNone ''2024-02-27 13:45:10''))
                         (PDict [(''stage'', PStr ''won''),
                                 (''closed_at'', PStr ''2024-02-27T13:45:10.000500'')]))]"
    by (simp add: db_won_def db_lead_def)
  show ?thesis
    unfolding update_deal_def Let_def working_get_db
    by (simp add: dict_get_def deals_examples find_d1 deal_updates_stage [unfolded dict_get_def]
        execute_def audit_log_def env_example_simps get_db_def update_rows_def sql_eq_def id
        apply_updates_deal_row isoformat_T_example insert_row_def next_rowid_def al
        json_or_none_def audit_defaults_def commit_def Let_def deal_row_not_empty)
      (simp add: db_reopened_def audit_row_def deal_row_def al numeral_2_eq_2 numeral_3_eq_3)
qed

lemma deal_row_cols:
  "stage_of (n, deal_row s cl u) = PStr s" "closed_at_of (n, deal_row s cl u) = cl"
  by (simp_all add: stage_of_def closed_at_of_def col_def dict_get_def deal_row_def)

text \<open>
  Claim C3 fails on the code in both directions of its equivalence. A deal created by
  \<open>add_deal\<close> in the stage \<open>won\<close> has no closing time; and a deal that was won and is
  then updated to the stage \<open>lead\<close> keeps its closing time.
\<close>

theorem closed_at_not_iff_terminal:
  "committed (snd (add_deal env_example args_won empty_db)) = db_created_won
   \<and> db_created_won Deals = [(1, deal_row ''won'' PNone ''2024-02-27 13:45:10'')]
   \<and> stage_of (1, deal_row ''won'' PNone ''2024-02-27 13:45:10'') = PStr ''won''
   \<and> closed_at_of (1, deal_row ''won'' PNone ''2024-02-27 13:45:10'') = PNone
   \<and> committed (snd (add_deal env_example args_lead empty_db)) = db_lead
   \<and> committed (snd (update_deal env_example [(''id'', PStr ''d1''), (''stage'', PStr ''won'')]
                         db_lead)) = db_won
   \<and> committed (snd (update_deal env_example [(''id'', PStr ''d1''), (''stage'', PStr ''lead'')]
                         db_won)) = db_reopened
   \<and> db_reopened Deals = [(1, deal_row ''lead'' (PStr ''2024-02-27T13:45:10.000500'')
                                 ''2024-02-27T13:45:10.000500'')]
   \<and> stage_of (1, deal_row ''lead'' (PStr ''2024-02-27T13:45:10.000500'')
                     ''2024-02-27T13:45:10.000500'') = PStr ''lead''
   \<and> closed_at_of (1, deal_row ''lead'' (PStr ''2024-02-27T13:45:10.000500'')
                     ''2024-02-27T13:45:10.000500'') = PStr ''2024-02-27T13:45:10.000500''"
  by (simp add: add_deal_won add_deal_lead update_deal_won update_deal_reopen deals_examples
      deal_row_cols)

lemma map_of_rev_collect:
  "map_of (rev (collect names args)) k
     = (if k \<in> set names \<and> dict_get args k \<noteq> PNone then Some (dict_get args k) else None)"
proof (induction names)
  case Nil
  then show ?case by (simp add: collect_def)
next
  case (Cons n ns)
  have "collect (n # ns) args
          = (if dict_get args n \<noteq> PNone then [(n, dict_get args n)] else []) @ collect ns args"
    by (simp add: collect_def)
  then show ?case
    using Cons.IH by (auto simp: map_add_def split: option.splits)
qed

lemma deal_updates_lookup:
  assumes "deal_updates env args = Inr ups"
  shows "map_of (rev ups) ''closed_at''
           = (if terminal (dict_get args ''stage'')
              then Some (PStr (isoformat (now_at env 1))) else None)"
    and "map_of (rev ups) ''stage''
           = (if dict_get args ''stage'' \<noteq> PNone then Some (dict_get args ''stage'') else None)"
  using assms
  by (auto simp: deal_updates_def Let_def map_of_rev_collect map_add_def
      split: if_splits sum.splits option.splits)

lemma add_deal_rows:
  assumes "add_deal env args db = (Inr out, c)"
  shows "\<exists>n r. committed c Deals = db Deals @ [(n, r)]
           \<and> col ''stage'' r = py_or (dict_get args ''stage'') (PStr ''lead'')
           \<and> col ''closed_at'' r = PNone"
proof -
  from assms obtain d where d: "parse_date_arg env (dict_get args ''expected_close'') = Inr d"
    by (cases "parse_date_arg env (dict_get args ''expected_close'')")
       (auto simp: add_deal_def Let_def)
  let ?row = "new_row env
                [(''contact_id'', resolve_contact (get_db db) (dict_get args ''contact'')),
                 (''title'', dict_get args ''title''), (''value'', dict_get args ''value''),
                 (''currency'', py_or (dict_get args ''currency'') (PStr ''USD'')),
                 (''stage'', py_or (dict_get args ''stage'') (PStr ''lead'')),
                 (''probability'', dict_get args ''probability''),
                 (''expected_close'', d), (''notes'', dict_get args ''notes'')]
                (deal_defaults env)"
  from assms d obtain c1 c2 row where
    ex: "execute env (insert_row Deals ?row) (get_db db) = Inr c1"
    and al: "audit_log env c1 ''deals'' (col ''id'' row) ''INSERT'' None
               (Some [(''title'', dict_get args ''title''), (''value'', dict_get args ''value''),
                      (''stage'', py_or (dict_get args ''stage'') (PStr ''lead''))])
               (dict_get args ''reason'') PNone = Inr c2"
    and c: "c = commit c2"
    by (auto simp: add_deal_def Let_def split: sum.splits option.splits)
  have w1: "working c1 = insert_row Deals ?row db"
    using execute_Inr(1)[OF ex] by (simp add: get_db_def)
  from audit_log_Inr(1)[OF al] w1 have "working c2 Deals = db Deals @ [(next_rowid (db Deals), ?row)]"
    by (auto simp: insert_row_def)
  moreover have "col ''stage'' ?row = py_or (dict_get args ''stage'') (PStr ''lead'')"
    "col ''closed_at'' ?row = PNone"
    by (simp_all add: col_def dict_get_def new_row_def deal_defaults_def)
  ultimately show ?thesis
    using c by (auto simp: commit_def)
qed

lemma update_deal_rows:
  assumes "update_deal env args db = (res, c)"
  shows "committed c Deals = db Deals
       \<or> (\<exists>row ups u. find_by_id_or_label (db Deals) ''title'' (dict_get args ''id'') = Some row
            \<and> deal_updates env args = Inr ups
            \<and> (\<exists>out. res = Inr out \<and> dict_get out ''id'' = col ''id'' row)
            \<and> committed c Deals
                = map (\<lambda>nr. if has_id (col ''id'' row) nr
                             then (fst nr, apply_updates (ups @ [(''updated_at'', u)]) (snd nr))
                             else nr) (db Deals))"
proof (cases res)
  case (Inl e)
  have "committed c = db"
    using assms Inl
    by (auto simp: update_deal_def Let_def working_get_db get_db_def
        split: option.splits sum.splits if_splits dest!: execute_Inr(2))
  then show ?thesis by simp
next
  case (Inr out)
  from assms Inr obtain row where row: "find_by_id_or_label (db Deals) ''title'' (dict_get args ''id'') = Some row"
    by (cases "find_by_id_or_label (db Deals) ''title'' (dict_get args ''id'')")
       (auto simp: update_deal_def Let_def working_get_db)
  from assms Inr row obtain ups where ups: "deal_updates env args = Inr ups"
    by (cases "deal_updates env args") (auto simp: update_deal_def Let_def working_get_db)
  let ?u = "PStr (isoformat (now_at env 2))"
  from assms Inr row ups obtain c1 c2 where
    ex: "execute env (update_rows Deals (col ''id'' row) (ups @ [(''updated_at'', ?u)])) (get_db db)
           = Inr c1"
    and al: "audit_log env c1 ''deals'' (col ''id'' row) ''UPDATE'' (Some row) (Some ups)
               (dict_get args ''reason'') PNone = Inr c2"
    and c: "c = commit c2"
    and out: "out = [(''status'', PStr ''updated''), (''id'', col ''id'' row),
                    (''changes'', PDict ups)]"
    by (auto simp: update_deal_def Let_def working_get_db split: sum.splits if_splits)
  have w1: "working c1 = update_rows Deals (col ''id'' row) (ups @ [(''updated_at'', ?u)]) db"
    using execute_Inr(1)[OF ex] by (simp add: get_db_def)
  from audit_log_Inr(1)[OF al] w1
  have "working c2 Deals
          = map (\<lambda>nr. if has_id (col ''id'' row) nr
                       then (fst nr, apply_updates (ups @ [(''updated_at'', ?u)]) (snd nr))
                       else nr) (db Deals)"
    by (auto simp: update_rows_def has_id_def)
  then show ?thesis
    using row ups c Inr out by (auto simp: commit_def dict_get_def)
qed

lemma update_deal_cols:
  assumes "deal_updates env args = Inr ups"
  shows "closed_at_of (n, apply_updates (ups @ [(''updated_at'', u)]) r)
           = (if terminal (dict_get args ''stage'') then PStr (isoformat (now_at env 1))
              else closed_at_of (n, r))"
    and "stage_of (n, apply_updates (ups @ [(''updated_at'', u)]) r)
           = (if dict_get args ''stage'' \<noteq> PNone then dict_get args ''stage''
              else stage_of (n, r))"
  using deal_updates_lookup[OF assms]
  by (simp_all add: closed_at_of_def stage_of_def col_apply_updates)

lemma deal_history_closed_iff_terminal:
  assumes "deal_history db"
  shows "closed_iff_terminal db"
  using assms
proof (induction rule: deal_history.induct)
  case (start db)
  then show ?case by (simp add: closed_iff_terminal_def)
next
  case (add db env args out c)
  from add_deal_rows[OF add.hyps(2)] obtain n r where
    r: "committed c Deals = db Deals @ [(n, r)]"
      "col ''stage'' r = py_or (dict_get args ''stage'') (PStr ''lead'')"
      "col ''closed_at'' r = PNone"
    by blast
  with add.hyps(3) add.IH show ?case
    by (auto simp: closed_iff_terminal_def closed_at_of_def stage_of_def)
next
  case (update db env args out c)
  from update_deal_rows[OF update.hyps(2)]
  show ?case
  proof
    assume "committed c Deals = db Deals"
    with update.IH show ?thesis by (simp add: closed_iff_terminal_def)
  next
    assume "\<exists>row ups u. find_by_id_or_label (db Deals) ''title'' (dict_get args ''id'') = Some row
            \<and> deal_updates env args = Inr ups
            \<and> (\<exists>out'. Inr out = Inr out' \<and> dict_get out' ''id'' = col ''id'' row)
            \<and> committed c Deals
                = map (\<lambda>nr. if has_id (col ''id'' row) nr
                             then (fst nr, apply_updates (ups @ [(''updated_at'', u)]) (snd nr))
                             else nr) (db Deals)"
    then obtain row ups u where
      row: "find_by_id_or_label (db Deals) ''title'' (dict_get args ''id'') = Some row"
      and ups: "deal_updates env args = Inr ups"
      and rows: "committed c Deals
                = map (\<lambda>nr. if has_id (col ''id'' row) nr
                             then (fst nr, apply_updates (ups @ [(''updated_at'', u)]) (snd nr))
                             else nr) (db Deals)"
      by blast
    note cols = update_deal_cols[OF ups]
    have keep: "(closed_at_of nr' \<noteq> PNone) = terminal (stage_of nr')"
      if nr: "nr \<in> set (db Deals)"
        and nr': "nr' = (if has_id (col ''id'' row) nr
                         then (fst nr, apply_updates (ups @ [(''updated_at'', u)]) (snd nr))
                         else nr)" for nr nr'
    proof (cases "has_id (col ''id'' row) nr")
      case False
      with nr nr' update.IH show ?thesis by (simp add: closed_iff_terminal_def)
    next
      case True
      have old: "(closed_at_of nr \<noteq> PNone) = terminal (stage_of nr)"
        using nr update.IH by (simp add: closed_iff_terminal_def)
      have nr'': "nr' = (fst nr, apply_updates (ups @ [(''updated_at'', u)]) (snd nr))"
        using True nr' by simp
      have same: "closed_at_of (fst nr, snd nr) = closed_at_of nr" "stage_of (fst nr, snd nr) = stage_of nr"
        by simp_all
      show ?thesis
      proof (cases "terminal (dict_get args ''stage'')")
        case t: True
        then have "dict_get args ''stage'' \<noteq> PNone" by (auto simp: terminal_def)
        with t show ?thesis by (simp add: nr'' cols)
      next
        case nt: False
        show ?thesis
        proof (cases "dict_get args ''stage'' = PNone")
          case True
          with nt old show ?thesis by (simp add: nr'' cols same)
        next
          case False
          with nt update.hyps(3) row True nr have "\<not> terminal (stage_of nr)"
            by (auto simp: reopens_def)
          with old have "closed_at_of nr = PNone" by simp
          with nt False show ?thesis by (simp add: nr'' cols same)
        qed
      qed
    qed
    show ?thesis
      unfolding closed_iff_terminal_def rows
    proof
      fix nr'
      assume "nr' \<in> set (map (\<lambda>nr. if has_id (col ''id'' row) nr
                             then (fst nr, apply_updates (ups @ [(''updated_at'', u)]) (snd nr))
                             else nr) (db Deals))"
      then obtain nr where "nr \<in> set (db Deals)"
        and "nr' = (if has_id (col ''id'' row) nr
                    then (fst nr, apply_updates (ups @ [(''updated_at'', u)]) (snd nr))
                    else nr)"
        unfolding set_map by blast
      then show "(closed_at_of nr' \<noteq> PNone) = terminal (stage_of nr')"
        by (rule keep)
    qed
  qed
qed

lemma update_deal_keeps_closed_at:
  assumes "update_deal env args db = (res, c)" and "\<not> terminal (dict_get args ''stage'')"
  shows "map closed_at_of (committed c Deals) = map closed_at_of (db Deals)"
proof -
  from update_deal_rows[OF assms(1)] show ?thesis
  proof
    assume "committed c Deals = db Deals"
    then show ?thesis by simp
  next
    assume "\<exists>row ups u. find_by_id_or_label (db Deals) ''title'' (dict_get args ''id'') = Some row
            \<and> deal_updates env args = Inr ups
            \<and> (\<exists>out. res = Inr out \<and> dict_get out ''id'' = col ''id'' row)
            \<and> committed c Deals
                = map (\<lambda>nr. if has_id (col ''id'' row) nr
                             then (fst nr, apply_updates (ups @ [(''updated_at'', u)]) (snd nr))
                             else nr) (db Deals)"
    then obtain row ups u where ups: "deal_updates env args = Inr ups"
      and rows: "committed c Deals
                = map (\<lambda>nr. if has_id (col ''id'' row) nr
                             then (fst nr, apply_updates (ups @ [(''updated_at'', u)]) (snd nr))
                             else nr) (db Deals)"
      by blast
    have "closed_at_of (fst nr, apply_updates (ups @ [(''updated_at'', u)]) (snd nr)) = closed_at_of nr" for nr
      using update_deal_cols(1)[OF ups, of "fst nr" u "snd nr"] assms(2) by simp
    then show ?thesis
      unfolding rows by (simp add: comp_def if_distrib[of closed_at_of] cong: if_cong)
  qed
qed

text \<open>
  Claim C3, as the code has it. In a history in which no deal is created as won or lost
  and no update re-opens a deal, the closing time of a deal is set exactly when its stage
  is won or lost. An update whose stage argument is not won or lost leaves the closing
  time of every deal as it was, also when it re-opens a deal; and so does, in particular,
  an update that has no stage argument, such as one that changes only the notes.
\<close>

theorem closed_at_tracks_terminal_stage:
  "(deal_history db \<longrightarrow> closed_iff_terminal db)
   \<and> (update_deal env args db' = (res, c) \<and> \<not> terminal (dict_get args ''stage'')
        \<longrightarrow> map closed_at_of (committed c Deals) = map closed_at_of (db' Deals))
   \<and> (update_deal env args db' = (res, c) \<and> dict_get args ''stage'' = PNone
        \<longrightarrow> map closed_at_of (committed c Deals) = map closed_at_of (db' Deals))"
proof (intro conjI impI)
  assume "deal_history db"
  then show "closed_iff_terminal db" by (rule deal_history_closed_iff_terminal)
next
  assume "update_deal env args db' = (res, c) \<and> \<not> terminal (dict_get args ''stage'')"
  then show "map closed_at_of (committed c Deals) = map closed_at_of (db' Deals)"
    using update_deal_keeps_closed_at by blast
next
  assume a: "update_deal env args db' = (res, c) \<and> dict_get args ''stage'' = PNone"
  then have "\<not> terminal (dict_get args ''stage'')" by (simp add: terminal_def)
  with a show "map closed_at_of (committed c Deals) = map closed_at_of (db' Deals)"
    using update_deal_keeps_closed_at by blast
qed

theorem closed_at_tracks_terminal_stage_witness:
  "deal_history db_won \<and> closed_iff_terminal db_won
   \<and> \<not> terminal (dict_get [(''id'', PStr ''d1''), (''stage'', PStr ''lead'')] ''stage'')
   \<and> map closed_at_of
        (committed (snd (update_deal env_example [(''id'', PStr ''d1''), (''stage'', PStr ''lead'')]
                           db_won)) Deals)
      = map closed_at_of (db_won Deals)
   \<and> dict_get [(''id'', PStr ''d1''), (''notes'', PStr ''call back'')] ''stage'' = PNone
   \<and> map closed_at_of
        (committed (snd (update_deal env_example
                           [(''id'', PStr ''d1''), (''notes'', PStr ''call back'')] db_won)) Deals)
      = map closed_at_of (db_won Deals)"
proof -
  have "deal_history empty_db"
    by (rule deal_history.start) (simp add: empty_db_def)
  from deal_history.add[OF this add_deal_lead] have "deal_history db_lead"
    by (simp add: args_lead_def dict_get_def py_or_def py_truthy_def terminal_def)
  from deal_history.update[OF this update_deal_won] have h: "deal_history db_won"
    by (simp add: reopens_def dict_get_def terminal_def)
  have s1: "\<not> terminal (dict_get [(''id'', PStr ''d1''), (''stage'', PStr ''lead'')] ''stage'')"
    by (simp add: dict_get_def terminal_def)
  have s2: "dict_get [(''id'', PStr ''d1''), (''notes'', PStr ''call back'')] ''stage'' = PNone"
    by (simp add: dict_get_def)
  note t1 = closed_at_tracks_terminal_stage
    [where db = db_won and env = env_example and db' = db_won
       and args = "[(''id'', PStr ''d1''), (''stage'', PStr ''lead'')]"
       and res = "fst (update_deal env_example [(''id'', PStr ''d1''), (''stage'', PStr ''lead'')]
                         db_won)"
       and c = "snd (update_deal env_example [(''id'', PStr ''d1''), (''stage'', PStr ''lead'')]
                       db_won)"]
  note t2 = closed_at_tracks_terminal_stage
    [where db = db_won and env = env_example and db' = db_won
       and args = "[(''id'', PStr ''d1''), (''notes'', PStr ''call back'')]"
       and res = "fst (update_deal env_example
                         [(''id'', PStr ''d1''), (''notes'', PStr ''call back'')] db_won)"
       and c = "snd (update_deal env_example
                       [(''id'', PStr ''d1''), (''notes'', PStr ''call back'')] db_won)"]
  have a: "closed_iff_terminal db_won" using t1 h by blast
  have b: "map closed_at_of
        (committed (snd (update_deal env_example [(''id'', PStr ''d1''), (''stage'', PStr ''lead'')]
                           db_won)) Deals)
      = map closed_at_of (db_won Deals)"
    using t1 s1 by (simp only: prod.collapse simp_thms)
  have c: "map closed_at_of
        (committed (snd (update_deal env_example
                           [(''id'', PStr ''d1''), (''notes'', PStr ''call back'')] db_won)) Deals)
      = map closed_at_of (db_won Deals)"
    using t2 s2 by (simp only: prod.collapse simp_thms)
  show ?thesis by (intro conjI h a s1 b s2 c)
qed

end
